theory Spec2Isabelle
  imports Complex_Main
begin


section \<open>Numbers, vectors and small helpers (carPhysics.js)\<close>

text \<open>
  JavaScript numbers are modelled as real numbers: every number that enters the model is
  finite, and arithmetic is exact. The model therefore has neither NaN nor the infinities,
  and rounding is not represented. A division whose divisor the code does not guard
  (mass, wheel radius) is only meaningful for a non-zero divisor; the predicate
  \<open>car_wf\<close> below collects these side conditions together with the four-entry
  shape of the per-wheel arrays.
\<close>

definition G :: real where
  "G = 9.81"

definition AIR_DENSITY :: real where
  "AIR_DENSITY = 1.225"

definition clamp :: "real \<Rightarrow> real \<Rightarrow> real \<Rightarrow> real" where
  "clamp v mn mx = max mn (min mx v)"

definition sign :: "real \<Rightarrow> real" where
  "sign v = (if v > 0 then 1 else if v < 0 then -1 else 0)"

datatype vector = Vector (vec_x: real) (vec_y: real)

definition createVector :: vector where
  "createVector = Vector 0 0"

definition addScaledInPlace :: "vector \<Rightarrow> vector \<Rightarrow> real \<Rightarrow> vector" where
  "addScaledInPlace t s k = Vector (vec_x t + vec_x s * k) (vec_y t + vec_y s * k)"

definition scaleInPlace :: "vector \<Rightarrow> real \<Rightarrow> vector" where
  "scaleInPlace v k = Vector (vec_x v * k) (vec_y v * k)"

text \<open>\<open>Math.hypot\<close>.\<close>

definition hypot :: "real \<Rightarrow> real \<Rightarrow> real" where
  "hypot a b = sqrt (a\<^sup>2 + b\<^sup>2)"

definition length_vec :: "vector \<Rightarrow> real" where
  "length_vec v = hypot (vec_x v) (vec_y v)"

definition dot :: "vector \<Rightarrow> vector \<Rightarrow> real" where
  "dot a b = vec_x a * vec_x b + vec_y a * vec_y b"

definition normalize_vec :: "vector \<Rightarrow> vector" where
  "normalize_vec v =
     (let len = length_vec v in
      if len < 0.000000001 then Vector 0 0 else Vector (vec_x v / len) (vec_y v / len))"

text \<open>
  The remainder operator \<open>%\<close> of JavaScript truncates the quotient toward zero, so the
  result carries the sign of the dividend.
\<close>

definition js_trunc :: "real \<Rightarrow> int" where
  "js_trunc r = (if 0 \<le> r then \<lfloor>r\<rfloor> else \<lceil>r\<rceil>)"

definition js_rem :: "real \<Rightarrow> real \<Rightarrow> real" where
  "js_rem a b = a - b * of_int (js_trunc (a / b))"

text \<open>\<open>Math.atan2(y, x)\<close>.\<close>

definition atan2 :: "real \<Rightarrow> real \<Rightarrow> real" where
  "atan2 b a =
     (if a > 0 then arctan (b / a)
      else if a < 0 \<and> b \<ge> 0 then arctan (b / a) + pi
      else if a < 0 then arctan (b / a) - pi
      else if b > 0 then pi / 2
      else if b < 0 then - (pi / 2)
      else 0)"

text \<open>Array read; an index past the end reads \<open>undefined\<close>.\<close>

definition nth_opt :: "'a list \<Rightarrow> nat \<Rightarrow> 'a option" where
  "nth_opt xs i = (if i < length xs then Some (xs ! i) else None)"

text \<open>\<open>String.prototype.toUpperCase\<close> on ASCII letters.\<close>

definition toUpperChar :: "char \<Rightarrow> char" where
  "toUpperChar c =
     (case map_of (zip ''abcdefghijklmnopqrstuvwxyz'' ''ABCDEFGHIJKLMNOPQRSTUVWXYZ'') c of
        Some u \<Rightarrow> u
      | None \<Rightarrow> c)"

definition toUpperCase :: "string \<Rightarrow> string" where
  "toUpperCase s = map toUpperChar s"

section \<open>Car configuration and construction (carPhysics.js)\<close>

record Tire =
  name :: string
  gripCoefficient :: "real option"
  hasTraction :: bool
  normalLoad :: real
  combinedForce :: vector

definition newTire :: "string \<Rightarrow> real option \<Rightarrow> Tire" where
  "newTire nm grip =
     \<lparr> name = nm, gripCoefficient = grip, hasTraction = True, normalLoad = 0,
       combinedForce = createVector \<rparr>"

text \<open>
  The configuration object. \<open>tireLateralGrips\<close> is \<open>null\<close> by default and the rev
  limiter is absent from the defaults, so both are optional; the three fields whose
  names the car object reuses carry the prefix \<open>cfg\<close>.
\<close>

record CarConfig =
  massKg :: real
  driveType :: string
  gearRatios :: "real list"
  finalDriveRatio :: real
  horsepower :: real
  peakTorqueNm :: real
  brakeHorsepower :: real
  dragCoefficient :: real
  downforceCoefficient :: real
  frontalAreaM2 :: real
  wheelRadiusM :: real
  tireGrips :: "real list"
  tireLateralGrips :: "real list option"
  tireLateralGripFactor :: real
  cfgBrakeTorquePerWheelNm :: "real list"
  cfgBrakeBiasFront :: real
  wheelbaseM :: real
  cgHeightM :: real
  trackWidthM :: real
  frontWeightDistribution :: real
  drivetrainEfficiency :: real
  rollingResistanceCoeff :: real
  cfgRevLimiterRpm :: "real option"

definition defaultCarConfig :: CarConfig where
  "defaultCarConfig =
     \<lparr> massKg = 1450,
       driveType = ''RWD'',
       gearRatios = [0.0, 3.54, 2.12, 1.49, 1.21, 1.0, 0.84],
       finalDriveRatio = 3.42,
       horsepower = 420,
       peakTorqueNm = 530,
       brakeHorsepower = 360,
       dragCoefficient = 0.32,
       downforceCoefficient = 1.1,
       frontalAreaM2 = 2.2,
       wheelRadiusM = 0.32,
       tireGrips = [1.05, 1.05, 1.1, 1.1],
       tireLateralGrips = None,
       tireLateralGripFactor = 1.12,
       cfgBrakeTorquePerWheelNm = [4200, 4200, 3200, 3200],
       cfgBrakeBiasFront = 0.6,
       wheelbaseM = 2.8,
       cgHeightM = 0.55,
       trackWidthM = 1.55,
       frontWeightDistribution = 0.52,
       drivetrainEfficiency = 0.9,
       rollingResistanceCoeff = 0.015,
       cfgRevLimiterRpm = None \<rparr>"

record CarOptions =
  optPixelsPerMeter :: "real option"
  optPosition :: "vector option"
  optHeading :: "real option"
  optManualMode :: "bool option"

record Car =
  config :: CarConfig
  pixelsPerMeter :: real
  position :: vector
  velocity :: vector
  heading :: real
  angularVelocity :: real
  steerAngle :: real
  longitudinalGripCoeffs :: "real list"
  lateralGripCoeffs :: "real list"
  tires :: "Tire list"
  gearIndex :: int
  idleRpm :: real
  peakRpm :: real
  redlineRpm :: real
  upshiftRpm :: real
  downshiftRpm :: real
  engineRpm :: real
  throttle :: real
  brake :: real
  driveSplitFront :: real
  driveSplitRear :: real
  lf :: real
  lr :: real
  inertia :: real
  lastLongitudinalAccel :: real
  lastLateralAccel :: real
  reverseMode :: bool
  manualMode :: bool
  reverseGearRatio :: real
  revLimiterRpm :: real
  revLimiterActive :: bool
  brakeBiasFront :: real
  brakeTorquePerWheelNm :: "real list"

definition lateralGripsOf :: "CarConfig \<Rightarrow> real list \<Rightarrow> real list" where
  "lateralGripsOf cfg longs =
     (let lateralFactor = max 1.02 (tireLateralGripFactor cfg) in
      case tireLateralGrips cfg of
        Some latSource \<Rightarrow>
          if length latSource \<ge> 4 then take 4 latSource
          else if length latSource > 0
            then map (\<lambda>i. latSource ! (i mod length latSource)) [0..<length longs]
          else map (\<lambda>v. v * lateralFactor) longs
      | None \<Rightarrow> map (\<lambda>v. v * lateralFactor) longs)"

definition fallbackBrakeTorque :: "CarConfig \<Rightarrow> real \<Rightarrow> real list" where
  "fallbackBrakeTorque cfg bias =
     (let wheelRadius = wheelRadiusM cfg;
          brakeHp = brakeHorsepower cfg;
          totalForce = (brakeHp * 745.7) / 30;
          frontForce = totalForce * bias;
          rearForce = totalForce - frontForce;
          frontTorque = (frontForce / 2) * wheelRadius;
          rearTorque = (rearForce / 2) * wheelRadius
      in [frontTorque, frontTorque, rearTorque, rearTorque])"

text \<open>
  The constructor. The redline, up-shift and down-shift thresholds are first derived from
  the peak RPM and then capped by the rev limiter when that is positive.
\<close>

definition newCar :: "CarConfig \<Rightarrow> CarOptions \<Rightarrow> Car" where
  "newCar cfg options =
     (let ppm = (case optPixelsPerMeter options of Some p \<Rightarrow> p | None \<Rightarrow> 16);
          startPosition = (case optPosition options of Some p \<Rightarrow> p | None \<Rightarrow> Vector 0 0);
          startHeading = (case optHeading options of Some h \<Rightarrow> h | None \<Rightarrow> 0);
          longs = tireGrips cfg;
          peak = max 2500
                   (((horsepower cfg * 745.7) / (peakTorqueNm cfg + 0.000001)) * (60 / (2 * pi)));
          redline0 = peak * 1.15;
          upshift0 = redline0 * 0.95;
          downshift0 = peak * 0.6;
          drv = toUpperCase (driveType cfg);
          lfv = wheelbaseM cfg * frontWeightDistribution cfg;
          firstDriveIndex = (if length (gearRatios cfg) > 1 then 1 else 0);
          firstDriveRatio = (case nth_opt (gearRatios cfg) firstDriveIndex of
                               Some r \<Rightarrow> r | None \<Rightarrow> 0);
          limiter = (case cfgRevLimiterRpm cfg of Some l \<Rightarrow> l | None \<Rightarrow> 7000);
          capped = (limiter > 0);
          redline1 = (if capped then min redline0 (limiter * 0.995) else redline0);
          upshift1 = (if capped then min upshift0 (limiter * 0.97) else upshift0);
          downshift1 = (if capped \<and> downshift0 \<ge> upshift1 then upshift1 * 0.55
                        else downshift0);
          bias = cfgBrakeBiasFront cfg
      in \<lparr> config = cfg,
           pixelsPerMeter = ppm,
           position = Vector (vec_x startPosition / ppm) (vec_y startPosition / ppm),
           velocity = createVector,
           heading = startHeading,
           angularVelocity = 0,
           steerAngle = 0,
           longitudinalGripCoeffs = longs,
           lateralGripCoeffs = lateralGripsOf cfg longs,
           tires = [newTire ''Front-Left'' (nth_opt longs 0),
                    newTire ''Front-Right'' (nth_opt longs 1),
                    newTire ''Rear-Left'' (nth_opt longs 2),
                    newTire ''Rear-Right'' (nth_opt longs 3)],
           gearIndex = min 1 (int (length (gearRatios cfg)) - 1),
           idleRpm = 900,
           peakRpm = peak,
           redlineRpm = redline1,
           upshiftRpm = upshift1,
           downshiftRpm = downshift1,
           engineRpm = 900,
           throttle = 0,
           brake = 0,
           driveSplitFront = (if drv = ''FWD'' then 1 else if drv = ''AWD'' then 0.45 else 0),
           driveSplitRear = (if drv = ''FWD'' then 0 else if drv = ''AWD'' then 0.55 else 1),
           lf = lfv,
           lr = wheelbaseM cfg - lfv,
           inertia = (massKg cfg * ((wheelbaseM cfg)\<^sup>2 + (trackWidthM cfg)\<^sup>2)) / 12,
           lastLongitudinalAccel = 0,
           lastLateralAccel = 0,
           reverseMode = False,
           manualMode = (case optManualMode options of Some m \<Rightarrow> m | None \<Rightarrow> False),
           reverseGearRatio = \<bar>firstDriveRatio\<bar>,
           revLimiterRpm = limiter,
           revLimiterActive = False,
           brakeBiasFront = bias,
           brakeTorquePerWheelNm =
             (if length (cfgBrakeTorquePerWheelNm cfg) \<ge> 4
              then take 4 (cfgBrakeTorquePerWheelNm cfg)
              else fallbackBrakeTorque cfg bias) \<rparr>)"

definition forwardVector :: "Car \<Rightarrow> vector" where
  "forwardVector s = Vector (cos (heading s)) (sin (heading s))"

definition rightVector :: "Car \<Rightarrow> vector" where
  "rightVector s = (let forward = forwardVector s in Vector (- vec_y forward) (vec_x forward))"

definition setWorldPosition :: "Car \<Rightarrow> real \<Rightarrow> real \<Rightarrow> Car" where
  "setWorldPosition s px py =
     s\<lparr>position := Vector (px / pixelsPerMeter s) (py / pixelsPerMeter s)\<rparr>"

definition resetState :: "Car \<Rightarrow> vector option \<Rightarrow> real option \<Rightarrow> Car" where
  "resetState s pos hdg =
     (let s1 = (case pos of Some p \<Rightarrow> setWorldPosition s (vec_x p) (vec_y p) | None \<Rightarrow> s);
          s2 = (case hdg of Some h \<Rightarrow> s1\<lparr>heading := h\<rparr> | None \<Rightarrow> s1)
      in s2\<lparr>velocity := Vector 0 0, angularVelocity := 0, engineRpm := idleRpm s2,
            throttle := 0, brake := 0, reverseMode := False\<rparr>)"

definition getWorldPosition :: "Car \<Rightarrow> vector" where
  "getWorldPosition s =
     Vector (vec_x (position s) * pixelsPerMeter s) (vec_y (position s) * pixelsPerMeter s)"

definition getSpeedMetersPerSecond :: "Car \<Rightarrow> real" where
  "getSpeedMetersPerSecond s = length_vec (velocity s)"

section \<open>Engine torque curve\<close>

definition torqueAtRpm :: "Car \<Rightarrow> real \<Rightarrow> real" where
  "torqueAtRpm s rpm =
     (let cfg = config s;
          limiterRpm = revLimiterRpm s;
          idle = idleRpm s;
          peak = peakRpm s;
          effectiveRpm = clamp rpm idle (limiterRpm + 600)
      in if effectiveRpm \<le> peak then
           (let ratio = clamp ((effectiveRpm - idle) / max 1 (peak - idle)) 0 1;
                shaped = ratio powr 1.25;
                torqueFactor = 0.65 + 0.35 * shaped
            in peakTorqueNm cfg * clamp torqueFactor 0.45 1.05)
         else if effectiveRpm \<le> limiterRpm then
           (let torqueFromHp = (horsepower cfg * 5252) / max effectiveRpm 1;
                minTorque = peakTorqueNm cfg * 0.45
            in clamp torqueFromHp minTorque (peakTorqueNm cfg))
         else
           (let overshoot = clamp ((effectiveRpm - limiterRpm) / 600) 0 1
            in peakTorqueNm cfg * clamp (0.12 * (1 - overshoot)) 0.05 0.12))"

section \<open>Powertrain (carPhysics.js, updatePowertrain)\<close>

text \<open>
  \<open>updatePowertrain\<close> mutates the car in five consecutive blocks; each block is a
  function from car to car here, and \<open>updatePowertrain\<close> is their composition in
  source order.
\<close>

definition smoothThrottle :: "Car \<Rightarrow> real \<Rightarrow> real \<Rightarrow> Car" where
  "smoothThrottle s throttleInput dt =
     (let throttleRate = 4;
          target = clamp throttleInput (-1) 1;
          t1 = throttle s + (target - throttle s) * clamp (dt * throttleRate) 0 1
      in s\<lparr>throttle := clamp t1 (-1) 1\<rparr>)"

definition selectDirection :: "Car \<Rightarrow> real \<Rightarrow> Car" where
  "selectDirection s speedAbs =
     (if manualMode s then s\<lparr>reverseMode := (gearIndex s = -1)\<rparr>
      else if reverseMode s then
        (if throttle s > 0.1 \<and> speedAbs < 0.6
         then s\<lparr>reverseMode := False, throttle := clamp (throttle s) 0 1\<rparr>
         else s)
      else if throttle s < -0.1 \<and> speedAbs < 0.6 then
        (if gearIndex s < 1 then s\<lparr>reverseMode := True, gearIndex := 1\<rparr>
         else s\<lparr>reverseMode := True\<rparr>)
      else s)"

text \<open>
  The gear ratio in effect; \<open>None\<close> is the \<open>undefined\<close> read past the end of the
  ratio list, for which every comparison of the code is false.
\<close>

definition effectiveGearRatio :: "Car \<Rightarrow> real option" where
  "effectiveGearRatio s =
     (let forwardGearIndex = max 0 (gearIndex s) in
      if reverseMode s then Some (reverseGearRatio s)
      else nth_opt (gearRatios (config s)) (nat forwardGearIndex))"

definition engineSpeed :: "Car \<Rightarrow> real \<Rightarrow> Car" where
  "engineSpeed s speedAbs =
     (let wheelRadius = wheelRadiusM (config s);
          finalDrive = finalDriveRatio (config s);
          coasting = s\<lparr>engineRpm := max (engineRpm s * 0.98) (idleRpm s)\<rparr>
      in case effectiveGearRatio s of
           Some ratio \<Rightarrow>
             if ratio > 0 \<and> speedAbs > 0.1 then
               (let wheelAngularSpeed = speedAbs / wheelRadius in
                s\<lparr>engineRpm :=
                    max (idleRpm s) \<bar>wheelAngularSpeed * ratio * finalDrive * 60 / (2 * pi)\<bar>\<rparr>)
             else coasting
         | None \<Rightarrow> coasting)"

definition revLimit :: "Car \<Rightarrow> Car" where
  "revLimit s =
     (if engineRpm s > revLimiterRpm s then
        (let s1 = s\<lparr>revLimiterActive := True, engineRpm := revLimiterRpm s\<rparr> in
         if \<bar>throttle s1\<bar> > 0.7 then
           (let signThrottle = (if throttle s1 \<ge> 0 then 1 else -1) in
            s1\<lparr>throttle := signThrottle * \<bar>throttle s1\<bar> * 0.6\<rparr>)
         else s1)
      else s\<lparr>revLimiterActive := False\<rparr>)"

definition autoShift :: "Car \<Rightarrow> Car" where
  "autoShift s =
     (if \<not> manualMode s \<and> \<not> reverseMode s then
        (if engineRpm s > upshiftRpm s \<and> gearIndex s < int (length (gearRatios (config s))) - 1
         then s\<lparr>gearIndex := gearIndex s + 1\<rparr>
         else if engineRpm s < downshiftRpm s \<and> gearIndex s > 1 \<and> throttle s < 0.8
         then s\<lparr>gearIndex := gearIndex s - 1\<rparr>
         else s)
      else s)"

definition updatePowertrain :: "Car \<Rightarrow> real \<Rightarrow> real \<Rightarrow> real \<Rightarrow> Car" where
  "updatePowertrain s throttleInput vLong dt =
     (let speedAbs = \<bar>vLong\<bar> in
      autoShift (revLimit (engineSpeed (selectDirection (smoothThrottle s throttleInput dt)
                                          speedAbs) speedAbs)))"

section \<open>Forces (carPhysics.js)\<close>

definition computeAeroForces :: "Car \<Rightarrow> real \<Rightarrow> bool \<Rightarrow> real \<times> real" where
  "computeAeroForces s speed backwards =
     (let drag = 0.5 * AIR_DENSITY * dragCoefficient (config s) * (if backwards then 2 else 1)
                   * frontalAreaM2 (config s) * speed * speed;
          downforceScale = clamp ((speed * 2.237) / 40) 0 1;
          downforce = 0.5 * AIR_DENSITY * downforceCoefficient (config s)
                        * frontalAreaM2 (config s) * speed * speed * downforceScale
      in (drag, downforce))"

definition smoothBrake :: "Car \<Rightarrow> real \<Rightarrow> real \<Rightarrow> Car" where
  "smoothBrake s brakeInput dt =
     (let brakeRate = 6;
          b1 = brake s + (brakeInput - brake s) * clamp (dt * brakeRate) 0 1
      in s\<lparr>brake := clamp b1 0 1\<rparr>)"

definition driveForceOf :: "Car \<Rightarrow> real" where
  "driveForceOf s =
     (let driveForce =
            (case effectiveGearRatio s of
               Some gearRatio \<Rightarrow>
                 if gearRatio > 0 then
                   (let throttleMagnitude =
                          (if reverseMode s then \<bar>throttle s\<bar> else max (throttle s) 0);
                        torque = torqueAtRpm s (engineRpm s) * throttleMagnitude
                                   * drivetrainEfficiency (config s)
                    in if torque > 0 then
                         (let baseForce = (torque * gearRatio * finalDriveRatio (config s))
                                            / (wheelRadiusM (config s) + 0.000001)
                          in if reverseMode s then - baseForce else baseForce)
                       else 0)
                 else 0
             | None \<Rightarrow> 0)
      in if revLimiterActive s \<and> \<bar>driveForce\<bar> > 0 then driveForce * 0.15 else driveForce)"

definition brakeForcesOf :: "Car \<Rightarrow> real list" where
  "brakeForcesOf s =
     (let wheelRadius = wheelRadiusM (config s) + 0.000001;
          brakeFraction = brake s
      in map (\<lambda>torque. (torque * brakeFraction) / wheelRadius) (brakeTorquePerWheelNm s))"

definition computeLongitudinalForces ::
  "Car \<Rightarrow> real \<Rightarrow> real \<Rightarrow> real \<Rightarrow> Car \<times> real \<times> real list" where
  "computeLongitudinalForces s brakeInput dt vLong =
     (let s1 = smoothBrake s brakeInput dt in (s1, driveForceOf s1, brakeForcesOf s1))"

definition steerStep :: "Car \<Rightarrow> real \<Rightarrow> real \<Rightarrow> real \<Rightarrow> Car" where
  "steerStep s steerInput speed dt =
     (let baseMaxSteer = pi / 6;
          steerRate = 5;
          speedMph = speed * 2.237;
          reduction = clamp (speedMph - 25) 0 160;
          speedFactor = 1 - clamp ((reduction powr 1.2) / 200) 0 0.9;
          dynamicMaxSteer = baseMaxSteer * speedFactor;
          targetSteer = clamp steerInput (-1) 1 * dynamicMaxSteer
      in s\<lparr>steerAngle := steerAngle s + (targetSteer - steerAngle s) * clamp (dt * steerRate) 0 1\<rparr>)"

definition lateralBiasOf :: "Car \<Rightarrow> real" where
  "lateralBiasOf s =
     clamp ((lastLateralAccel s * cgHeightM (config s)) / (G * max 0.1 (trackWidthM (config s))))
       (-0.45) 0.45"

definition tireNormalsOf :: "Car \<Rightarrow> real \<Rightarrow> real list" where
  "tireNormalsOf s downforce =
     (let weight = massKg (config s) * G;
          frontStatic = weight * frontWeightDistribution (config s);
          rearStatic = weight - frontStatic;
          downforceFront = downforce * frontWeightDistribution (config s);
          downforceRear = downforce - downforceFront;
          longitudinalTransfer =
            (massKg (config s) * lastLongitudinalAccel s * cgHeightM (config s))
              / max 0.1 (wheelbaseM (config s));
          frontAxleLoad = frontStatic + downforceFront - longitudinalTransfer;
          rearAxleLoad = rearStatic + downforceRear + longitudinalTransfer;
          lateralBias = lateralBiasOf s
      in [max 0 (frontAxleLoad * 0.5 * (1 + lateralBias)),
          max 0 (frontAxleLoad * 0.5 * (1 - lateralBias)),
          max 0 (rearAxleLoad * 0.5 * (1 + lateralBias)),
          max 0 (rearAxleLoad * 0.5 * (1 - lateralBias))])"

definition frontGripBonusOf :: "Car \<Rightarrow> real \<Rightarrow> real \<Rightarrow> real" where
  "frontGripBonusOf s speed vLong =
     (let frontAlignment =
            (if speed > 0.5 then
               (let invSpeed = 1 / speed;
                    momentumDir = Vector (vec_x (velocity s) * invSpeed)
                                         (vec_y (velocity s) * invSpeed);
                    frontDir = Vector (cos (heading s + steerAngle s))
                                      (sin (heading s + steerAngle s))
                in clamp (dot frontDir momentumDir) 0 1)
             else 0);
          brakingForward = (brake s > 0.05 \<and> vLong > 0.2)
      in frontAlignment * 0.8 + (if brakingForward then brake s * 0.55 else 0.1))"

definition slipAngles :: "Car \<Rightarrow> real \<Rightarrow> real \<Rightarrow> real \<Rightarrow> real \<times> real" where
  "slipAngles s vLong vLat speed =
     (if \<bar>vLong\<bar> > 0.5 then
        (atan2 (vLat + angularVelocity s * lf s) \<bar>vLong\<bar> - steerAngle s * sign vLong,
         atan2 (vLat - angularVelocity s * lr s) \<bar>vLong\<bar>)
      else if speed > 0.5 then
        (atan2 (vLat + angularVelocity s * lf s) 0.5 - steerAngle s,
         atan2 (vLat - angularVelocity s * lr s) 0.5)
      else (0, 0))"

definition tireForcesLatOf :: "Car \<Rightarrow> real list \<Rightarrow> real \<Rightarrow> real \<Rightarrow> real \<Rightarrow> real list" where
  "tireForcesLatOf s tireNormals vLong vLat speed =
     (let (slipAngleFront, slipAngleRear) = slipAngles s vLong vLat speed;
          corneringStiffnessFront = 80000;
          corneringStiffnessRear = 90000;
          maxFrontLat = lateralGripCoeffs s ! 0 * tireNormals ! 0
                          + lateralGripCoeffs s ! 1 * tireNormals ! 1;
          maxRearLat = lateralGripCoeffs s ! 2 * tireNormals ! 2
                         + lateralGripCoeffs s ! 3 * tireNormals ! 3;
          frontTotalLat = clamp (- corneringStiffnessFront * slipAngleFront)
                                (- maxFrontLat) maxFrontLat;
          rearTotalLat = clamp (- corneringStiffnessRear * slipAngleRear)
                               (- maxRearLat) maxRearLat;
          lateralBias = lateralBiasOf s
      in [frontTotalLat * 0.5 * (1 + lateralBias),
          frontTotalLat * 0.5 * (1 - lateralBias),
          rearTotalLat * 0.5 * (1 + lateralBias),
          rearTotalLat * 0.5 * (1 - lateralBias)])"

definition tireForcesLongOf :: "Car \<Rightarrow> real \<Rightarrow> real list \<Rightarrow> real \<Rightarrow> real list" where
  "tireForcesLongOf s driveForce brakeForces vLong =
     (let driveFrontPerWheel = driveForce * driveSplitFront s * 0.5;
          driveRearPerWheel = driveForce * driveSplitRear s * 0.5;
          brakeForcesArray = (if length brakeForces \<ge> 4 then brakeForces else [0, 0, 0, 0]);
          brakeDirection = (if \<bar>sign vLong\<bar> < 0.1 then 1 else sign vLong)
      in [driveFrontPerWheel - brakeDirection * brakeForcesArray ! 0,
          driveFrontPerWheel - brakeDirection * brakeForcesArray ! 1,
          driveRearPerWheel - brakeDirection * brakeForcesArray ! 2,
          driveRearPerWheel - brakeDirection * brakeForcesArray ! 3])"

definition wheelPositionsOf :: "Car \<Rightarrow> vector list" where
  "wheelPositionsOf s =
     [Vector (lf s) (trackWidthM (config s) * 0.5),
      Vector (lf s) (- trackWidthM (config s) * 0.5),
      Vector (- lr s) (trackWidthM (config s) * 0.5),
      Vector (- lr s) (- trackWidthM (config s) * 0.5)]"

section \<open>Friction-ellipse saturation (carPhysics.js, the per-wheel loop of update)\<close>

definition longitudinalCapOf :: "Car \<Rightarrow> real list \<Rightarrow> nat \<Rightarrow> real" where
  "longitudinalCapOf s tireNormals i = max 0 (longitudinalGripCoeffs s ! i * tireNormals ! i)"

definition lateralCapOf :: "Car \<Rightarrow> real list \<Rightarrow> real \<Rightarrow> nat \<Rightarrow> real" where
  "lateralCapOf s tireNormals frontGripBonus i =
     (let lateralCapBase = max 0 (lateralGripCoeffs s ! i * tireNormals ! i);
          latMultiplier = (if i < 2 then 1 + max 0 frontGripBonus else 1)
      in lateralCapBase * latMultiplier)"

definition loadRatioOf :: "real \<Rightarrow> real \<Rightarrow> real \<Rightarrow> real \<Rightarrow> real" where
  "loadRatioOf fLong fLat longitudinalCap lateralCap =
     (let longRatio = (if longitudinalCap > 0.000001
                       then (fLong / (longitudinalCap + 0.000001))\<^sup>2 else 0);
          latRatio = (if lateralCap > 0.000001
                      then (fLat / (lateralCap + 0.000001))\<^sup>2 else 0)
      in sqrt (longRatio + latRatio))"

text \<open>The saturated force pair and the traction flag of one wheel.\<close>

definition saturate :: "real \<Rightarrow> real \<Rightarrow> real \<Rightarrow> real \<Rightarrow> real \<times> real \<times> bool" where
  "saturate fLong fLat longitudinalCap lateralCap =
     (let loadRatio = loadRatioOf fLong fLat longitudinalCap lateralCap in
      if loadRatio > 1 \<and> (longitudinalCap > 0 \<or> lateralCap > 0) then
        (let scale = 1 / loadRatio in (fLong * scale, fLat * scale, False))
      else (fLong, fLat, True))"

text \<open>
  One iteration of the loop over the wheels: the accumulator holds the tires and the
  running totals of longitudinal force, lateral force and yaw moment.
\<close>

definition tireStep ::
  "Car \<Rightarrow> real list \<Rightarrow> real list \<Rightarrow> real list \<Rightarrow> real \<Rightarrow> nat
     \<Rightarrow> Tire list \<times> real \<times> real \<times> real \<Rightarrow> Tire list \<times> real \<times> real \<times> real" where
  "tireStep s tireNormals tireForcesLong tireForcesLat frontGripBonus i acc =
     (case acc of (ts, totalLongitudinal, totalLateral, totalYawMoment) \<Rightarrow>
        (let normal = tireNormals ! i;
             (fLong, fLat, traction) =
               saturate (tireForcesLong ! i) (tireForcesLat ! i)
                 (longitudinalCapOf s tireNormals i)
                 (lateralCapOf s tireNormals frontGripBonus i);
             tire = (ts ! i)\<lparr>hasTraction := traction, normalLoad := normal,
                              combinedForce := Vector fLong fLat\<rparr>;
             wp = wheelPositionsOf s ! i
         in (ts[i := tire],
             totalLongitudinal + fLong,
             totalLateral + fLat,
             totalYawMoment + (vec_x wp * fLat - vec_y wp * fLong))))"

definition tireLoop ::
  "Car \<Rightarrow> real list \<Rightarrow> real list \<Rightarrow> real list \<Rightarrow> real
     \<Rightarrow> Tire list \<times> real \<times> real \<times> real" where
  "tireLoop s tireNormals tireForcesLong tireForcesLat frontGripBonus =
     fold (tireStep s tireNormals tireForcesLong tireForcesLat frontGripBonus)
       [0..<length (tires s)] (tires s, 0, 0, 0)"

section \<open>One simulation tick (carPhysics.js, update)\<close>

text \<open>
  The values a tick computes before the wheel loop: the car after the powertrain, steering
  and brake smoothing, the per-wheel normal loads and force demands, the front grip bonus
  and the aerodynamic drag.
\<close>

record TireDemand =
  demandCar :: Car
  demandNormals :: "real list"
  demandLong :: "real list"
  demandLat :: "real list"
  demandBonus :: real
  demandDrag :: real

definition tireDemand :: "Car \<Rightarrow> real \<Rightarrow> real \<Rightarrow> real \<Rightarrow> real \<Rightarrow> TireDemand" where
  "tireDemand s throttleInput brakeInput steerInput dt =
     (let forward = forwardVector s;
          right = rightVector s;
          vLong = dot (velocity s) forward;
          vLat = dot (velocity s) right;
          speed = length_vec (velocity s);
          s1 = updatePowertrain s throttleInput vLong dt;
          s2 = steerStep s1 steerInput speed dt;
          backwardsMotion = (vLong < -0.2);
          (dragForce, downforce) = computeAeroForces s2 speed backwardsMotion;
          (s3, driveForce, brakeForces) = computeLongitudinalForces s2 brakeInput dt vLong;
          tireNormals = tireNormalsOf s3 downforce
      in \<lparr> demandCar = s3,
           demandNormals = tireNormals,
           demandLong = tireForcesLongOf s3 driveForce brakeForces vLong,
           demandLat = tireForcesLatOf s3 tireNormals vLong vLat speed,
           demandBonus = frontGripBonusOf s3 speed vLong,
           demandDrag = dragForce \<rparr>)"

text \<open>
  Summation of the wheel forces, integration of velocity, position, yaw rate and heading,
  and the record of this tick's accelerations. \<open>s0\<close> is the car at the start of the tick:
  the body axes and the speed are those computed before anything was mutated.
\<close>

definition integrate :: "Car \<Rightarrow> real \<Rightarrow> TireDemand \<Rightarrow> Car" where
  "integrate s0 dt d =
     (let s = demandCar d;
          forward = forwardVector s0;
          right = rightVector s0;
          speed = length_vec (velocity s0);
          (ts, totalLongitudinal, totalLateral, totalYawMoment) =
            tireLoop s (demandNormals d) (demandLong d) (demandLat d) (demandBonus d);
          weight = massKg (config s) * G;
          forceWorld0 = Vector (vec_x forward * totalLongitudinal + vec_x right * totalLateral)
                               (vec_y forward * totalLongitudinal + vec_y right * totalLateral);
          forceWorld =
            (if speed > 0.001 then
               (let velDir = normalize_vec (velocity s);
                    dragVec = Vector (- vec_x velDir * demandDrag d) (- vec_y velDir * demandDrag d);
                    rollingVec = Vector (- vec_x velDir * (rollingResistanceCoeff (config s) * weight))
                                        (- vec_y velDir * (rollingResistanceCoeff (config s) * weight))
                in Vector (vec_x forceWorld0 + vec_x dragVec + vec_x rollingVec)
                          (vec_y forceWorld0 + vec_y dragVec + vec_y rollingVec))
             else forceWorld0);
          acceleration = Vector (vec_x forceWorld / massKg (config s))
                                (vec_y forceWorld / massKg (config s));
          velocity1 = addScaledInPlace (velocity s) acceleration dt;
          position1 = addScaledInPlace (position s) velocity1 dt;
          angularAccel = totalYawMoment / (inertia s + 0.000001);
          angularVelocity1 = angularVelocity s + angularAccel * dt;
          heading1 = heading s + angularVelocity1 * dt
      in s\<lparr>tires := ts,
            velocity := velocity1,
            position := position1,
            angularVelocity := angularVelocity1,
            heading := js_rem (heading1 + pi) (2 * pi) - pi,
            lastLongitudinalAccel := dot acceleration forward,
            lastLateralAccel := dot acceleration right\<rparr>)"

text \<open>The closing block of the tick; \<open>speed\<close> is the speed at the start of the tick.\<close>

definition settle :: "real \<Rightarrow> Car \<Rightarrow> Car" where
  "settle speed s =
     (if speed < 0.2 \<and> \<bar>throttle s\<bar> < 0.05 \<and> brake s > 0.1 then
        (let s1 = s\<lparr>velocity := scaleInPlace (velocity s) 0.5\<rparr> in
         if length_vec (velocity s1) < 0.05
         then s1\<lparr>velocity := Vector 0 0, angularVelocity := 0\<rparr>
         else s1)
      else s)"

definition update :: "Car \<Rightarrow> real \<Rightarrow> real \<Rightarrow> real \<Rightarrow> real \<Rightarrow> Car" where
  "update s throttleInput brakeInput steerInput dt =
     settle (length_vec (velocity s))
       (integrate s dt (tireDemand s throttleInput brakeInput steerInput dt))"

text \<open>A run of ticks; each input is (throttle, brake, steer, dt).\<close>

fun updates :: "Car \<Rightarrow> (real \<times> real \<times> real \<times> real) list \<Rightarrow> Car" where
  "updates s [] = s"
| "updates s ((throttleInput, brakeInput, steerInput, dt) # rest) =
     updates (update s throttleInput brakeInput steerInput dt) rest"

section \<open>Calibration helpers (main.js)\<close>

definition PIXELS_PER_METER :: real where
  "PIXELS_PER_METER = 16"

definition clampToRange :: "real \<Rightarrow> real \<Rightarrow> real \<Rightarrow> real" where
  "clampToRange v mn mx = max mn (min mx v)"

text \<open>
  \<open>mix\<close>: a value that is not a finite number is \<open>None\<close>; the factor is always
  given by the callers.
\<close>

definition mix :: "real option \<Rightarrow> real \<Rightarrow> real \<Rightarrow> real" where
  "mix current target factor =
     (let alpha = clampToRange factor 0 1;
          currentValue = (case current of Some c \<Rightarrow> c | None \<Rightarrow> target)
      in currentValue * (1 - alpha) + target * alpha)"

definition isWithinTolerance :: "real option \<Rightarrow> real option \<Rightarrow> real \<Rightarrow> bool" where
  "isWithinTolerance current target toleranceFraction =
     (case (current, target) of
        (Some c, Some t) \<Rightarrow>
          if t = 0 then False
          else (let normalized = \<bar>c - t\<bar> / \<bar>t\<bar> in normalized \<le> \<bar>toleranceFraction\<bar>)
      | _ \<Rightarrow> False)"

definition adjustAcceleration :: "CarConfig \<Rightarrow> real option \<Rightarrow> real option \<Rightarrow> CarConfig" where
  "adjustAcceleration cfg measuredSec targetSec =
     (case (measuredSec, targetSec) of
        (Some m, Some t) \<Rightarrow>
          if m \<le> 0 \<or> t \<le> 0 then cfg
          else
            (let ratio = clampToRange (m / t) 0.25 4;
                 desiredEfficiency =
                   clampToRange (drivetrainEfficiency cfg / (ratio powr 0.92)) 0.6 1;
                 cfg1 = cfg\<lparr>drivetrainEfficiency :=
                              mix (Some (drivetrainEfficiency cfg)) desiredEfficiency 0.55\<rparr>;
                 desiredRolling =
                   clampToRange (rollingResistanceCoeff cfg1 * (1 + (ratio - 1) * 0.45))
                     0.0045 0.03
             in cfg1\<lparr>rollingResistanceCoeff :=
                       mix (Some (rollingResistanceCoeff cfg1)) desiredRolling 0.35\<rparr>)
      | _ \<Rightarrow> cfg)"

definition adjustTopSpeed :: "CarConfig \<Rightarrow> real option \<Rightarrow> real option \<Rightarrow> CarConfig" where
  "adjustTopSpeed cfg measuredKph targetKph =
     (case (measuredKph, targetKph) of
        (Some m, Some t) \<Rightarrow>
          if m \<le> 0 \<or> t \<le> 0 then cfg
          else
            (let ratio = clampToRange (m / t) 0.5 1.6;
                 desiredDrag = clampToRange (dragCoefficient cfg * ratio * ratio) 0.16 0.9;
                 cfg1 = cfg\<lparr>dragCoefficient := mix (Some (dragCoefficient cfg)) desiredDrag 0.6\<rparr>;
                 desiredEfficiency =
                   clampToRange (drivetrainEfficiency cfg1 / (ratio powr 0.35)) 0.6 1;
                 cfg2 = cfg1\<lparr>drivetrainEfficiency :=
                               mix (Some (drivetrainEfficiency cfg1)) desiredEfficiency 0.25\<rparr>;
                 desiredRolling =
                   clampToRange (rollingResistanceCoeff cfg2 * (1 + (ratio - 1) * 0.25))
                     0.0045 0.03
             in cfg2\<lparr>rollingResistanceCoeff :=
                       mix (Some (rollingResistanceCoeff cfg2)) desiredRolling 0.2\<rparr>)
      | _ \<Rightarrow> cfg)"

text \<open>
  The override delta. \<open>toFixed5\<close> is \<open>Number(x.toFixed(5))\<close>: rounding to five decimals,
  a tie going away from zero.
\<close>

record Overrides =
  ovDragCoefficient :: "real option"
  ovRollingResistanceCoeff :: "real option"
  ovDrivetrainEfficiency :: "real option"

definition toFixed5 :: "real \<Rightarrow> real" where
  "toFixed5 v =
     (if v < 0 then - (of_int \<lfloor>(- v) * 100000 + 1 / 2\<rfloor> / 100000)
      else of_int \<lfloor>v * 100000 + 1 / 2\<rfloor> / 100000)"

definition overrideOf :: "real \<Rightarrow> real \<Rightarrow> real option" where
  "overrideOf nextValue baseValue =
     (if \<bar>nextValue - baseValue\<bar> \<le> 0.0001 then None else Some (toFixed5 nextValue))"

definition computeOverrides :: "CarConfig \<Rightarrow> CarConfig \<Rightarrow> Overrides option \<times> CarConfig" where
  "computeOverrides cfg baseConfig =
     (let d = overrideOf (dragCoefficient cfg) (dragCoefficient baseConfig);
          r = overrideOf (rollingResistanceCoeff cfg) (rollingResistanceCoeff baseConfig);
          e = overrideOf (drivetrainEfficiency cfg) (drivetrainEfficiency baseConfig);
          cfg1 = (case d of Some v \<Rightarrow> cfg\<lparr>dragCoefficient := v\<rparr> | None \<Rightarrow> cfg);
          cfg2 = (case r of Some v \<Rightarrow> cfg1\<lparr>rollingResistanceCoeff := v\<rparr> | None \<Rightarrow> cfg1);
          cfg3 = (case e of Some v \<Rightarrow> cfg2\<lparr>drivetrainEfficiency := v\<rparr> | None \<Rightarrow> cfg2);
          changed = (d \<noteq> None \<or> r \<noteq> None \<or> e \<noteq> None)
      in (if changed
          then Some \<lparr> ovDragCoefficient = d, ovRollingResistanceCoeff = r,
                      ovDrivetrainEfficiency = e \<rparr>
          else None,
          cfg3))"

section \<open>Performance measurement (main.js)\<close>

text \<open>
  What a measurement does besides returning a value is kept in a small record: the number
  of \<open>Date.now()\<close> readings taken so far, the number of test cars constructed and the
  number of simulation ticks run. The wall clock is a function \<open>now\<close> from the index of a
  reading to the instant read.
\<close>

record Effects =
  clockReads :: nat
  testCars :: nat
  simTicks :: nat

definition readClock :: "(nat \<Rightarrow> real) \<Rightarrow> Effects \<Rightarrow> real \<times> Effects" where
  "readClock now eff = (now (clockReads eff), eff\<lparr>clockReads := clockReads eff + 1\<rparr>)"

text \<open>
  The deadline test of the measurement loops: the clock is read only when a deadline was
  given.
\<close>

definition deadlinePassed :: "(nat \<Rightarrow> real) \<Rightarrow> real option \<Rightarrow> Effects \<Rightarrow> bool \<times> Effects" where
  "deadlinePassed now deadlineMs eff =
     (case deadlineMs of
        None \<Rightarrow> (False, eff)
      | Some d \<Rightarrow> (let (t, eff1) = readClock now eff in (t > d, eff1)))"

record Sample =
  sampleTimeSec :: real
  sampleSpeedKph :: real
  sampleDistanceM :: real
  samplePhase :: string
  sampleAborted :: bool

definition sampleOf :: "Car \<Rightarrow> real \<Rightarrow> real \<Rightarrow> string \<Rightarrow> bool \<Rightarrow> Sample" where
  "sampleOf car t speedKph phase aborted =
     \<lparr> sampleTimeSec = t, sampleSpeedKph = speedKph,
       sampleDistanceM = vec_x (getWorldPosition car) / PIXELS_PER_METER,
       samplePhase = phase, sampleAborted = aborted \<rparr>"

text \<open>\<open>samples.push\<close> when samples are collected.\<close>

definition pushSample :: "Sample list option \<Rightarrow> Sample \<Rightarrow> Sample list option" where
  "pushSample samples smp = (case samples of Some xs \<Rightarrow> Some (xs @ [smp]) | None \<Rightarrow> None)"

record MeasureOptions =
  collectSamples :: "Sample list option"
  sampleInterval :: "real option"
  deadlineMs :: "real option"

definition createTestCar :: "CarConfig \<Rightarrow> Car" where
  "createTestCar cfg =
     newCar cfg \<lparr> optPixelsPerMeter = Some PIXELS_PER_METER, optPosition = Some (Vector 0 0),
                  optHeading = Some 0, optManualMode = None \<rparr>"

record ZeroToHundred =
  timeSec :: "real option"
  reached :: bool

text \<open>
  The loop of \<open>measureZeroToHundred\<close>: at most 15 simulated seconds in steps of 1/200 s.
\<close>

function zeroToHundredLoop ::
  "(nat \<Rightarrow> real) \<Rightarrow> real option \<Rightarrow> real \<Rightarrow> Car \<Rightarrow> real \<Rightarrow> real \<Rightarrow> real
     \<Rightarrow> Sample list option \<Rightarrow> Effects \<Rightarrow> ZeroToHundred \<times> Sample list option \<times> Effects" where
  "zeroToHundredLoop now deadline interval car t previousSpeed sampleTimer samples eff =
     (if t < 15 then
        (if fst (deadlinePassed now deadline eff) then
           (\<lparr> timeSec = None, reached = False \<rparr>,
            pushSample samples
              (sampleOf car t (getSpeedMetersPerSecond car * 3.6) ''zeroToHundred'' True),
            snd (deadlinePassed now deadline eff))
         else
           (let dt = 1 / 200;
                eff1 = snd (deadlinePassed now deadline eff);
                car1 = update car 1 0 0 dt;
                eff2 = eff1\<lparr>simTicks := simTicks eff1 + 1\<rparr>;
                t1 = t + dt;
                timer1 = sampleTimer + dt;
                speed = getSpeedMetersPerSecond car1 * 3.6;
                sampling = (samples \<noteq> None \<and> timer1 \<ge> interval);
                timer2 = (if sampling then 0 else timer1);
                samples1 = (if sampling
                            then pushSample samples (sampleOf car1 t1 speed ''zeroToHundred'' False)
                            else samples)
            in if speed \<ge> 100 then
                 (let deltaSpeed = speed - previousSpeed;
                      crossingTime =
                        (if deltaSpeed > 0.000001
                         then t1 - dt + clampToRange ((100 - previousSpeed) / deltaSpeed) 0 1 * dt
                         else t1)
                  in (\<lparr> timeSec = Some crossingTime, reached = True \<rparr>,
                      pushSample samples1 (sampleOf car1 crossingTime speed ''zeroToHundred'' False),
                      eff2))
               else zeroToHundredLoop now deadline interval car1 t1 speed timer2 samples1 eff2))
      else
        (\<lparr> timeSec = Some 15, reached = False \<rparr>,
         pushSample samples
           (sampleOf car t (getSpeedMetersPerSecond car * 3.6) ''zeroToHundred'' False),
         eff))"
  by pat_completeness auto
termination
  by (relation "measure (\<lambda>(now, deadline, interval, car, t, rest). nat \<lceil>(15 - t) * 200\<rceil>)")
     (auto simp add: algebra_simps, linarith)

declare zeroToHundredLoop.simps [simp del]

definition measureZeroToHundred ::
  "(nat \<Rightarrow> real) \<Rightarrow> CarConfig \<Rightarrow> MeasureOptions \<Rightarrow> Effects
     \<Rightarrow> ZeroToHundred \<times> Sample list option \<times> Effects" where
  "measureZeroToHundred now cfg options eff =
     (let interval = (case sampleInterval options of Some i \<Rightarrow> i | None \<Rightarrow> 0.02);
          car = resetState (createTestCar cfg) (Some (Vector 0 0)) (Some 0);
          eff1 = eff\<lparr>testCars := testCars eff + 1\<rparr>;
          samples = (case collectSamples options of
                       Some xs \<Rightarrow>
                         Some [\<lparr> sampleTimeSec = 0, sampleSpeedKph = 0, sampleDistanceM = 0,
                                  samplePhase = ''zeroToHundred'', sampleAborted = False \<rparr>]
                     | None \<Rightarrow> None)
      in zeroToHundredLoop now (deadlineMs options) interval car 0 0 0 samples eff1)"

record TopSpeed =
  maxSpeedKph :: "real option"
  durationSec :: real

text \<open>
  The loop of \<open>measureTopSpeed\<close>: at most 160 simulated seconds, left early once the top
  speed has been stable for 7 s after the first 5 s.
\<close>

function topSpeedLoop ::
  "(nat \<Rightarrow> real) \<Rightarrow> real option \<Rightarrow> real \<Rightarrow> Car \<Rightarrow> real \<Rightarrow> real \<Rightarrow> real \<Rightarrow> real
     \<Rightarrow> Sample list option \<Rightarrow> Effects \<Rightarrow> TopSpeed \<times> Sample list option \<times> Effects" where
  "topSpeedLoop now deadline interval car t maxSpeed stableTime sampleTimer samples eff =
     (if t < 160 then
        (if fst (deadlinePassed now deadline eff) then
           (\<lparr> maxSpeedKph = Some maxSpeed, durationSec = t \<rparr>,
            pushSample samples
              (sampleOf car t (getSpeedMetersPerSecond car * 3.6) ''topSpeed'' True),
            snd (deadlinePassed now deadline eff))
         else
           (let dt = 1 / 200;
                settleThreshold = 7;
                eff1 = snd (deadlinePassed now deadline eff);
                car1 = update car 1 0 0 dt;
                eff2 = eff1\<lparr>simTicks := simTicks eff1 + 1\<rparr>;
                t1 = t + dt;
                timer1 = sampleTimer + dt;
                speed = getSpeedMetersPerSecond car1 * 3.6;
                sampling = (samples \<noteq> None \<and> timer1 \<ge> interval);
                timer2 = (if sampling then 0 else timer1);
                samples1 = (if sampling
                            then pushSample samples (sampleOf car1 t1 speed ''topSpeed'' False)
                            else samples);
                maxSpeed1 = (if speed > maxSpeed + 0.05 then speed else maxSpeed);
                stableTime1 = (if speed > maxSpeed + 0.05 then 0
                               else if \<bar>speed - maxSpeed\<bar> < 0.1 then stableTime + dt
                               else stableTime + dt * 0.25)
            in if t1 > 5 \<and> stableTime1 \<ge> settleThreshold then
                 (\<lparr> maxSpeedKph = Some maxSpeed1, durationSec = t1 \<rparr>,
                  pushSample samples1
                    (sampleOf car1 t1 (getSpeedMetersPerSecond car1 * 3.6) ''topSpeed'' False),
                  eff2)
               else topSpeedLoop now deadline interval car1 t1 maxSpeed1 stableTime1 timer2
                      samples1 eff2))
      else
        (\<lparr> maxSpeedKph = Some maxSpeed, durationSec = t \<rparr>,
         pushSample samples
           (sampleOf car t (getSpeedMetersPerSecond car * 3.6) ''topSpeed'' False),
         eff))"
  by pat_completeness auto
termination
  by (relation "measure (\<lambda>(now, deadline, interval, car, t, rest). nat \<lceil>(160 - t) * 200\<rceil>)")
     (auto simp add: algebra_simps split: if_splits, linarith+)

declare topSpeedLoop.simps [simp del]

definition measureTopSpeed ::
  "(nat \<Rightarrow> real) \<Rightarrow> CarConfig \<Rightarrow> MeasureOptions \<Rightarrow> Effects
     \<Rightarrow> TopSpeed \<times> Sample list option \<times> Effects" where
  "measureTopSpeed now cfg options eff =
     (let interval = (case sampleInterval options of Some i \<Rightarrow> i | None \<Rightarrow> 0.04);
          car = resetState (createTestCar cfg) (Some (Vector 0 0)) (Some 0);
          eff1 = eff\<lparr>testCars := testCars eff + 1\<rparr>;
          samples = (case collectSamples options of
                       Some xs \<Rightarrow>
                         Some [\<lparr> sampleTimeSec = 0, sampleSpeedKph = 0, sampleDistanceM = 0,
                                  samplePhase = ''topSpeed'', sampleAborted = False \<rparr>]
                     | None \<Rightarrow> None)
      in topSpeedLoop now (deadlineMs options) interval car 0 0 0 0 samples eff1)"


section \<open>Performance targets (main.js, extractTargets)\<close>

text \<open>
  A property bag of a car spec maps a key to \<open>Number(value)\<close> of the value stored under
  it; a key that is absent is not an own property. The conversion of other values to
  numbers is not modelled.
\<close>

datatype jsnumber = Finite real | NaN | PosInfinity | NegInfinity

type_synonym container = "string \<Rightarrow> jsnumber option"

text \<open>
  A car spec: the verification flag (true exactly when \<open>performanceVerified === true\<close>),
  its own properties and the three nested bags that \<open>findNumeric\<close> probes.
\<close>

record CarSpec =
  performanceVerified :: bool
  specOwn :: container
  specPerformance :: "container option"
  specRealWorld :: "container option"
  specStats :: "container option"

text \<open>A catalog entry; \<open>carId = None\<close> is a missing id, and the empty string is falsy too.\<close>

record CatalogCar =
  carId :: "string option"
  specs :: "CarSpec option"

definition emptySpec :: CarSpec where
  "emptySpec = \<lparr> performanceVerified = False, specOwn = Map.empty, specPerformance = None,
                 specRealWorld = None, specStats = None \<rparr>"

definition probe :: "container option \<Rightarrow> string \<Rightarrow> real option" where
  "probe c key =
     (case c of
        None \<Rightarrow> None
      | Some m \<Rightarrow> (case m key of Some (Finite v) \<Rightarrow> (if v > 0 then Some v else None)
                             | _ \<Rightarrow> None))"

fun probeContainers :: "container option list \<Rightarrow> string \<Rightarrow> real option" where
  "probeContainers [] key = None"
| "probeContainers (c # cs) key =
     (case probe c key of Some v \<Rightarrow> Some v | None \<Rightarrow> probeContainers cs key)"

fun findNumericIn :: "container option list \<Rightarrow> string list \<Rightarrow> real option" where
  "findNumericIn containers [] = None"
| "findNumericIn containers (key # keys) =
     (case probeContainers containers key of
        Some v \<Rightarrow> Some v
      | None \<Rightarrow> findNumericIn containers keys)"

definition findNumeric :: "CarSpec \<Rightarrow> string list \<Rightarrow> real option" where
  "findNumeric spec keys =
     findNumericIn [Some (specOwn spec), specPerformance spec, specRealWorld spec, specStats spec]
       keys"

record Targets =
  targetTopSpeedKph :: "real option"
  targetZeroToHundredSec :: "real option"

definition extractTargets :: "CarSpec \<Rightarrow> Targets option" where
  "extractTargets spec =
     (let topSpeedKph =
            (case findNumeric spec
                    [''topSpeedKph'', ''topSpeedKmH'', ''topSpeed'', ''vMaxKph'', ''vMaxKmH''] of
               Some v \<Rightarrow> Some v
             | None \<Rightarrow>
                 (case findNumeric spec [''topSpeedMph'', ''topSpeedMPH''] of
                    Some mph \<Rightarrow> Some (mph * 1.60934)
                  | None \<Rightarrow> None));
          zeroToHundred =
            (case findNumeric spec
                    [''zeroToHundredSec'', ''zeroTo100Sec'', ''zeroToHundred'', ''zeroTo100'',
                     ''zeroToHundredKmH''] of
               Some v \<Rightarrow> Some v
             | None \<Rightarrow>
                 (case findNumeric spec
                         [''zeroToSixtySec'', ''zeroToSixty'', ''zeroTo60Sec'', ''zeroTo60'',
                          ''zeroToSixtyMph''] of
                    Some sixty \<Rightarrow> Some (sixty * 1.05)
                  | None \<Rightarrow> None))
      in if topSpeedKph = None \<and> zeroToHundred = None then None
         else Some \<lparr> targetTopSpeedKph = topSpeedKph, targetZeroToHundredSec = zeroToHundred \<rparr>)"

section \<open>Calibration (main.js, runCalibration)\<close>

record Measured =
  measuredZeroToHundredSec :: "real option"
  measuredZeroToHundredReached :: bool
  measuredTopSpeedKph :: "real option"
  measuredTopSpeedDurationSec :: real

text \<open>
  A calibration record. A field that a record does not carry is \<open>None\<close>; \<open>recVerified\<close>
  is true exactly when \<open>verified === true\<close>.
\<close>

record CalibrationRecord =
  recVersion :: int
  recVerified :: bool
  recOverrides :: "Overrides option"
  recCalibratedConfig :: "CarConfig option"
  recSamples :: "(Sample list \<times> Sample list) option"
  recMeasured :: "Measured option"
  recTarget :: "Targets option"
  recIterations :: "nat option"
  recUpdatedAt :: "real option"
  recNote :: "string option"
  recError :: "string option"

record CalibrationOptions =
  timeoutMs :: "real option"
  maxIterations :: "real option"


definition markSpecVerified :: "CatalogCar \<Rightarrow> bool \<Rightarrow> CatalogCar" where
  "markSpecVerified car flag =
     (case specs car of
        None \<Rightarrow> car
      | Some spec \<Rightarrow> car\<lparr>specs := Some (spec\<lparr>performanceVerified := flag\<rparr>)\<rparr>)"

text \<open>
  The two measurement blocks of one calibration round: measure, compare with the target
  within the tolerance, and adjust the working configuration when the comparison fails.
\<close>

definition accelerationRound ::
  "(nat \<Rightarrow> real) \<Rightarrow> real \<Rightarrow> real option \<Rightarrow> CarConfig \<Rightarrow> Effects
     \<Rightarrow> ZeroToHundred \<times> bool \<times> CarConfig \<times> Effects" where
  "accelerationRound now deadline targetSec workingConfig eff =
     (let (measuredZero, smp, eff1) =
            measureZeroToHundred now workingConfig
              \<lparr> collectSamples = None, sampleInterval = None, deadlineMs = Some deadline \<rparr> eff;
          accelClose = isWithinTolerance (timeSec measuredZero) targetSec 0.04
      in (measuredZero, accelClose,
          if \<not> accelClose then adjustAcceleration workingConfig (timeSec measuredZero) targetSec
          else workingConfig,
          eff1))"

definition topSpeedRound ::
  "(nat \<Rightarrow> real) \<Rightarrow> real \<Rightarrow> real option \<Rightarrow> CarConfig \<Rightarrow> Effects
     \<Rightarrow> TopSpeed \<times> bool \<times> CarConfig \<times> Effects" where
  "topSpeedRound now deadline targetKph workingConfig eff =
     (let (measuredTop, smp, eff1) =
            measureTopSpeed now workingConfig
              \<lparr> collectSamples = None, sampleInterval = None, deadlineMs = Some deadline \<rparr> eff;
          topClose = isWithinTolerance (maxSpeedKph measuredTop) targetKph 0.03
      in (measuredTop, topClose,
          if \<not> topClose then adjustTopSpeed workingConfig (maxSpeedKph measuredTop) targetKph
          else workingConfig,
          eff1))"

record CalibrationState =
  workingConfig :: CarConfig
  measuredZero :: ZeroToHundred
  measuredTop :: TopSpeed
  actualIterations :: nat
  timedOut :: bool
  loopEffects :: Effects

text \<open>
  The iteration loop; the first argument counts the iterations that remain and \<open>index\<close>
  is the loop index.
\<close>

fun calibrationLoop ::
  "(nat \<Rightarrow> real) \<Rightarrow> real \<Rightarrow> Targets \<Rightarrow> nat \<Rightarrow> nat \<Rightarrow> CalibrationState \<Rightarrow> CalibrationState" where
  "calibrationLoop now deadline targets 0 index st = st"
| "calibrationLoop now deadline targets (Suc remaining) index st =
     (let st1 = st\<lparr>actualIterations := index + 1\<rparr>;
          (t, eff1) = readClock now (loopEffects st1)
      in if t > deadline then st1\<lparr>timedOut := True, loopEffects := eff1\<rparr>
         else
           (let (mz, accelClose, cfg1, eff2) =
                  (if targetZeroToHundredSec targets \<noteq> None
                   then accelerationRound now deadline (targetZeroToHundredSec targets)
                          (workingConfig st1) eff1
                   else (measuredZero st1, True, workingConfig st1, eff1));
                (mt, topClose, cfg2, eff3) =
                  (if targetTopSpeedKph targets \<noteq> None
                   then topSpeedRound now deadline (targetTopSpeedKph targets) cfg1 eff2
                   else (measuredTop st1, True, cfg1, eff2));
                st2 = st1\<lparr>workingConfig := cfg2, measuredZero := mz, measuredTop := mt,
                          loopEffects := eff3\<rparr>
            in if accelClose \<and> topClose then st2
               else calibrationLoop now deadline targets remaining (index + 1) st2))"

text \<open>
  \<open>runCalibration\<close>. Two functions of the program are parameters here:
  \<open>createCarConfigFromSpec\<close>, which builds a configuration from a spec field by field
  and parses the text forms of the per-wheel arrays, and \<open>numberToString\<close>, the
  conversion of a number to text inside the timeout note. What is proved of
  \<open>runCalibration\<close> holds for every choice of the two. The result is the record, the
  car (whose spec flag the no-target branch sets) and the effects.
\<close>

definition runCalibration ::
  "(nat \<Rightarrow> real) \<Rightarrow> (CarSpec \<Rightarrow> CarConfig) \<Rightarrow> (real \<Rightarrow> string) \<Rightarrow> int
     \<Rightarrow> CatalogCar \<Rightarrow> CalibrationOptions \<Rightarrow> Effects
     \<Rightarrow> CalibrationRecord \<times> CatalogCar \<times> Effects" where
  "runCalibration now createCarConfigFromSpec numberToString version car options eff =
     (let spec = (case specs car of Some sp \<Rightarrow> sp | None \<Rightarrow> emptySpec) in
      case extractTargets spec of
        None \<Rightarrow>
          (let (t, eff1) = readClock now eff in
           (\<lparr> recVersion = version, recVerified = True, recOverrides = None,
               recCalibratedConfig = None, recSamples = None,
               recMeasured = Some \<lparr> measuredZeroToHundredSec = None,
                                      measuredZeroToHundredReached = False,
                                      measuredTopSpeedKph = None,
                                      measuredTopSpeedDurationSec = 0 \<rparr>,
               recTarget = None, recIterations = Some 0, recUpdatedAt = Some t,
               recNote = Some ''No performance targets provided; skipped calibration.'',
               recError = None \<rparr>,
            markSpecVerified car True, eff1))
      | Some targets \<Rightarrow>
          (let baseConfig = createCarConfigFromSpec spec;
               hasZeroToHundred = (targetZeroToHundredSec targets \<noteq> None);
               hasTopSpeed = (targetTopSpeedKph targets \<noteq> None);
               timeout = (case timeoutMs options of Some v \<Rightarrow> max 0 v | None \<Rightarrow> 120000);
               (start, eff1) = readClock now eff;
               deadline = start + timeout;
               iterations = (case maxIterations options of
                               Some v \<Rightarrow> nat (max 1 \<lfloor>v\<rfloor>) | None \<Rightarrow> 12);
               st = calibrationLoop now deadline targets iterations 0
                      \<lparr> workingConfig = baseConfig,
                        measuredZero = \<lparr> timeSec = None, reached = False \<rparr>,
                        measuredTop = \<lparr> maxSpeedKph = None, durationSec = 0 \<rparr>,
                        actualIterations = 0, timedOut = False, loopEffects = eff1 \<rparr>;
               (mz, zeroSamples, eff2) =
                 (if hasZeroToHundred
                  then measureZeroToHundred now (workingConfig st)
                         \<lparr> collectSamples = Some [], sampleInterval = None,
                           deadlineMs = Some deadline \<rparr> (loopEffects st)
                  else (measuredZero st, Some [], loopEffects st));
               (mt, topSamples, eff3) =
                 (if hasTopSpeed
                  then measureTopSpeed now (workingConfig st)
                         \<lparr> collectSamples = Some [], sampleInterval = None,
                           deadlineMs = Some deadline \<rparr> eff2
                  else (measuredTop st, Some [], eff2));
               (overrides, finalConfig) = computeOverrides (workingConfig st) baseConfig;
               (t, eff4) = readClock now eff3
           in (\<lparr> recVersion = version,
                  recVerified = (if timedOut st then False else True),
                  recOverrides = overrides,
                  recCalibratedConfig = Some finalConfig,
                  recSamples = Some (case zeroSamples of Some xs \<Rightarrow> xs | None \<Rightarrow> [],
                                     case topSamples of Some xs \<Rightarrow> xs | None \<Rightarrow> []),
                  recMeasured = Some \<lparr> measuredZeroToHundredSec = timeSec mz,
                                         measuredZeroToHundredReached = reached mz,
                                         measuredTopSpeedKph = maxSpeedKph mt,
                                         measuredTopSpeedDurationSec = durationSec mt \<rparr>,
                  recTarget = Some targets,
                  recIterations = Some (actualIterations st),
                  recUpdatedAt = Some t,
                  recNote = (if timedOut st
                             then Some (''Calibration timed out after '' @ numberToString timeout
                                          @ '' ms'')
                             else None),
                  recError = None \<rparr>,
               car, eff4)))"

section \<open>The calibration store (main.js, verifyAllCars)\<close>

record Manager =
  mgrVersion :: int
  mgrRecords :: "string \<Rightarrow> CalibrationRecord option"
  mgrOverrides :: "string \<Rightarrow> Overrides option"



text \<open>\<open>this.overrides.set\<close> when the record has overrides, \<open>delete\<close> otherwise.\<close>

definition storeOverrides :: "Manager \<Rightarrow> string \<Rightarrow> Overrides option \<Rightarrow> Manager" where
  "storeOverrides mgr cid ov = mgr\<lparr>mgrOverrides := (mgrOverrides mgr)(cid := ov)\<rparr>"








section \<open>Definitions used by the statements\<close>

text \<open>A car built with no constructor options.\<close>

definition noOptions :: CarOptions where
  "noOptions = \<lparr> optPixelsPerMeter = None, optPosition = None, optHeading = None, optManualMode = None \<rparr>"

text \<open>
  Side conditions under which real arithmetic is the arithmetic of the code: the car has its
  four tires, the per-wheel arrays have their four entries, and the unguarded divisors are
  not zero.
\<close>

definition car_wf :: "Car \<Rightarrow> bool" where
  "car_wf s \<longleftrightarrow>
     length (tires s) = 4 \<and> 4 \<le> length (longitudinalGripCoeffs s)
     \<and> 4 \<le> length (lateralGripCoeffs s) \<and> 4 \<le> length (brakeTorquePerWheelNm s)
     \<and> massKg (config s) \<noteq> 0 \<and> wheelRadiusM (config s) \<noteq> 0
     \<and> wheelRadiusM (config s) + 0.000001 \<noteq> 0 \<and> inertia s + 0.000001 \<noteq> 0"

text \<open>
  The torque curve as the specification words it: three ranges of the RPM, read without
  any precedence between them.
\<close>

definition torque_curve_as_claimed :: "Car \<Rightarrow> real \<Rightarrow> bool" where
  "torque_curve_as_claimed s rpm \<longleftrightarrow>
     (let T = peakTorqueNm (config s); t = torqueAtRpm s rpm in
      (idleRpm s \<le> rpm \<and> rpm \<le> peakRpm s \<longrightarrow>
         t = T * (0.65 + 0.35 * ((rpm - idleRpm s) / (peakRpm s - idleRpm s)) powr 1.25)) \<and>
      (peakRpm s < rpm \<and> rpm \<le> revLimiterRpm s \<longrightarrow>
         t = clamp (horsepower (config s) * 5252 / rpm) (0.45 * T) T) \<and>
      (revLimiterRpm s < rpm \<longrightarrow> 0.05 * T \<le> t \<and> t \<le> 0.12 * T))"

definition highRevConfig :: CarConfig where
  "highRevConfig = defaultCarConfig\<lparr>horsepower := 600, peakTorqueNm := 400\<rparr>"
definition lowRevConfig :: CarConfig where
  "lowRevConfig = defaultCarConfig\<lparr>horsepower := 200\<rparr>"

text \<open>
  The friction-ellipse bound as the specification words it, against the bare caps
  (grip coefficient times normal load). A quotient by a zero cap is undefined unless the
  force is zero as well, and an undefined quotient satisfies no bound.
\<close>

definition ratio_sq :: "real \<Rightarrow> real \<Rightarrow> real option" where
  "ratio_sq f cap = (if cap = 0 then (if f = 0 then Some 0 else None) else Some ((f / cap)\<^sup>2))"

definition friction_ellipse_as_claimed ::
  "real \<Rightarrow> Car \<Rightarrow> real \<Rightarrow> real \<Rightarrow> real \<Rightarrow> real \<Rightarrow> nat \<Rightarrow> bool" where
  "friction_ellipse_as_claimed eps s throttleInput brakeInput steerInput dt i \<longleftrightarrow>
     (let tire = tires (update s throttleInput brakeInput steerInput dt) ! i;
          bonus = demandBonus (tireDemand s throttleInput brakeInput steerInput dt);
          FlongMax = longitudinalGripCoeffs s ! i * normalLoad tire;
          FlatMax = lateralGripCoeffs s ! i * normalLoad tire
                      * (if i < 2 then 1 + max 0 bonus else 1)
      in case (ratio_sq (vec_x (combinedForce tire)) FlongMax,
               ratio_sq (vec_y (combinedForce tire)) FlatMax) of
           (Some p, Some q) \<Rightarrow> p + q \<le> 1 + eps
         | _ \<Rightarrow> False)"

definition liftedCar :: Car where
  "liftedCar = (newCar defaultCarConfig noOptions)\<lparr>lastLongitudinalAccel := 30\<rparr>"

text \<open>
  The default car rolling forward at 1 m/s with the front wheels steered by 0.06 rad and
  the brake fully applied.
\<close>

definition skiddingCar :: Car where
  "skiddingCar =
     (newCar defaultCarConfig noOptions)\<lparr>velocity := Vector 1 0, steerAngle := 0.06, brake := 1\<rparr>"

text \<open>The heading interval as the specification words it.\<close>

definition heading_as_claimed :: "Car \<Rightarrow> bool" where
  "heading_as_claimed s \<longleftrightarrow> - pi < heading s \<and> heading s \<le> pi"

definition turnedCar :: Car where
  "turnedCar = newCar defaultCarConfig (noOptions\<lparr>optHeading := Some (- pi)\<rparr>)"

text \<open>
  The default car at rest, headed 0.01 rad short of \<open>- pi\<close> and yawing clockwise at
  1.2 rad/s.
\<close>

definition spinningCar :: Car where
  "spinningCar =
     (newCar defaultCarConfig noOptions)\<lparr>heading := 1/100 - pi, angularVelocity := - (6/5)\<rparr>"

text \<open>
  The low-speed settle as the specification words it: speed, throttle magnitude and brake
  level all under their thresholds.
\<close>

definition settle_as_claimed :: "Car \<Rightarrow> real \<Rightarrow> real \<Rightarrow> real \<Rightarrow> real \<Rightarrow> bool" where
  "settle_as_claimed s throttleInput brakeInput steerInput dt \<longleftrightarrow>
     (let s1 = integrate s dt (tireDemand s throttleInput brakeInput steerInput dt);
          s2 = update s throttleInput brakeInput steerInput dt
      in length_vec (velocity s) < 0.2 \<and> \<bar>throttle s2\<bar> < 0.05 \<and> brake s2 < 0.1 \<longrightarrow>
           (if length_vec (scaleInPlace (velocity s1) 0.5) < 0.05
            then velocity s2 = Vector 0 0 \<and> angularVelocity s2 = 0
            else velocity s2 = scaleInPlace (velocity s1) 0.5))"

definition creepingCar :: Car where
  "creepingCar = (newCar defaultCarConfig noOptions)\<lparr>velocity := Vector 0.1 0\<rparr>"

text \<open>
  The vehicle state as \<open>serializeState\<close> reads it off a car, and the trajectory of a run
  of ticks.
\<close>

record SerializedState =
  savedPosition :: vector
  savedHeading :: real
  savedVelocity :: vector
  savedAngularVelocity :: real
  savedSteerAngle :: real
  savedEngineRpm :: real
  savedThrottle :: real
  savedBrake :: real
  savedGearIndex :: int
  savedReverseMode :: bool
  savedManualMode :: bool
  savedLastLongitudinalAccel :: real
  savedLastLateralAccel :: real

definition serializeState :: "Car \<Rightarrow> SerializedState" where
  "serializeState s =
     \<lparr> savedPosition = getWorldPosition s,
       savedHeading = heading s,
       savedVelocity = Vector (vec_x (velocity s)) (vec_y (velocity s)),
       savedAngularVelocity = angularVelocity s,
       savedSteerAngle = steerAngle s,
       savedEngineRpm = engineRpm s,
       savedThrottle = throttle s,
       savedBrake = brake s,
       savedGearIndex = gearIndex s,
       savedReverseMode = reverseMode s,
       savedManualMode = manualMode s,
       savedLastLongitudinalAccel = lastLongitudinalAccel s,
       savedLastLateralAccel = lastLateralAccel s \<rparr>"

fun trajectory :: "Car \<Rightarrow> (real \<times> real \<times> real \<times> real) list \<Rightarrow> Car list" where
  "trajectory s [] = []"
| "trajectory s ((throttleInput, brakeInput, steerInput, dt) # rest) =
     update s throttleInput brakeInput steerInput dt
       # trajectory (update s throttleInput brakeInput steerInput dt) rest"

text \<open>Inputs of the calibration witnesses.\<close>

definition onlyZeroToHundredSpec :: CarSpec where
  "onlyZeroToHundredSpec = emptySpec\<lparr>specOwn := [''zeroToHundredSec'' \<mapsto> Finite 4.2]\<rparr>"


definition tickingClock :: "nat \<Rightarrow> real" where
  "tickingClock k = real k"



definition noEffects :: Effects where
  "noEffects = \<lparr> clockReads = 0, testCars = 0, simTicks = 0 \<rparr>"

definition untargetedCar :: CatalogCar where
  "untargetedCar = \<lparr> carId = Some ''plain'', specs = Some emptySpec \<rparr>"

definition targetedCar :: CatalogCar where
  "targetedCar = \<lparr> carId = Some ''quick'', specs = Some onlyZeroToHundredSpec \<rparr>"

definition specOf :: "CatalogCar \<Rightarrow> CarSpec" where
  "specOf car = (case specs car of Some sp \<Rightarrow> sp | None \<Rightarrow> emptySpec)"

text \<open>The range of the gear index of a car in automatic mode.\<close>

definition gear_in_range :: "Car \<Rightarrow> bool" where
  "gear_in_range s \<longleftrightarrow> \<not> manualMode s \<and> 1 \<le> gearIndex s \<and> gearIndex s \<le> int (length (gearRatios (config s))) - 1"

text \<open>
  What two runs of a measurement are compared on: the returned value and the collected
  samples.
\<close>

definition outcome :: "'a \<times> Sample list option \<times> Effects \<Rightarrow> 'a \<times> Sample list option" where
  "outcome r = (fst r, fst (snd r))"

text \<open>The values of one iteration of the top-speed loop.\<close>

definition topSpeedStep ::
  "real \<Rightarrow> Car \<Rightarrow> real \<Rightarrow> real \<Rightarrow> real \<Rightarrow> real \<Rightarrow> Sample list option
     \<Rightarrow> Car \<times> real \<times> real \<times> real \<times> real \<times> Sample list option" where
  "topSpeedStep interval car t maxSpeed stableTime sampleTimer samples =
     (let dt = 1 / 200;
          car1 = update car 1 0 0 dt;
          t1 = t + dt;
          timer1 = sampleTimer + dt;
          speed = getSpeedMetersPerSecond car1 * 3.6;
          sampling = (samples \<noteq> None \<and> timer1 \<ge> interval);
          timer2 = (if sampling then 0 else timer1);
          samples1 = (if sampling
                      then pushSample samples (sampleOf car1 t1 speed ''topSpeed'' False)
                      else samples);
          maxSpeed1 = (if speed > maxSpeed + 0.05 then speed else maxSpeed);
          stableTime1 = (if speed > maxSpeed + 0.05 then 0
                         else if \<bar>speed - maxSpeed\<bar> < 0.1 then stableTime + dt
                         else stableTime + dt * 0.25)
      in (car1, t1, maxSpeed1, stableTime1, timer2, samples1))"

definition spareTires :: "Tire list" where
  "spareTires = replicate 4 (newTire ''Spare'' None)"

definition untimed :: MeasureOptions where
  "untimed = \<lparr> collectSamples = None, sampleInterval = None, deadlineMs = None \<rparr>"








section \<open>Fields a step leaves alone\<close>

lemma smoothThrottle_keeps [simp]:
  "config (smoothThrottle s a dt) = config s"
  "pixelsPerMeter (smoothThrottle s a dt) = pixelsPerMeter s"
  "position (smoothThrottle s a dt) = position s"
  "velocity (smoothThrottle s a dt) = velocity s"
  "heading (smoothThrottle s a dt) = heading s"
  "angularVelocity (smoothThrottle s a dt) = angularVelocity s"
  "steerAngle (smoothThrottle s a dt) = steerAngle s"
  "longitudinalGripCoeffs (smoothThrottle s a dt) = longitudinalGripCoeffs s"
  "lateralGripCoeffs (smoothThrottle s a dt) = lateralGripCoeffs s"
  "tires (smoothThrottle s a dt) = tires s"
  "gearIndex (smoothThrottle s a dt) = gearIndex s"
  "idleRpm (smoothThrottle s a dt) = idleRpm s"
  "peakRpm (smoothThrottle s a dt) = peakRpm s"
  "redlineRpm (smoothThrottle s a dt) = redlineRpm s"
  "upshiftRpm (smoothThrottle s a dt) = upshiftRpm s"
  "downshiftRpm (smoothThrottle s a dt) = downshiftRpm s"
  "engineRpm (smoothThrottle s a dt) = engineRpm s"
  "brake (smoothThrottle s a dt) = brake s"
  "driveSplitFront (smoothThrottle s a dt) = driveSplitFront s"
  "driveSplitRear (smoothThrottle s a dt) = driveSplitRear s"
  "lf (smoothThrottle s a dt) = lf s"
  "lr (smoothThrottle s a dt) = lr s"
  "inertia (smoothThrottle s a dt) = inertia s"
  "lastLongitudinalAccel (smoothThrottle s a dt) = lastLongitudinalAccel s"
  "lastLateralAccel (smoothThrottle s a dt) = lastLateralAccel s"
  "reverseMode (smoothThrottle s a dt) = reverseMode s"
  "manualMode (smoothThrottle s a dt) = manualMode s"
  "reverseGearRatio (smoothThrottle s a dt) = reverseGearRatio s"
  "revLimiterRpm (smoothThrottle s a dt) = revLimiterRpm s"
  "revLimiterActive (smoothThrottle s a dt) = revLimiterActive s"
  "brakeBiasFront (smoothThrottle s a dt) = brakeBiasFront s"
  "brakeTorquePerWheelNm (smoothThrottle s a dt) = brakeTorquePerWheelNm s"
  by (simp_all add: smoothThrottle_def Let_def)

lemma selectDirection_keeps [simp]:
  "config (selectDirection s v) = config s"
  "pixelsPerMeter (selectDirection s v) = pixelsPerMeter s"
  "position (selectDirection s v) = position s"
  "velocity (selectDirection s v) = velocity s"
  "heading (selectDirection s v) = heading s"
  "angularVelocity (selectDirection s v) = angularVelocity s"
  "steerAngle (selectDirection s v) = steerAngle s"
  "longitudinalGripCoeffs (selectDirection s v) = longitudinalGripCoeffs s"
  "lateralGripCoeffs (selectDirection s v) = lateralGripCoeffs s"
  "tires (selectDirection s v) = tires s"
  "idleRpm (selectDirection s v) = idleRpm s"
  "peakRpm (selectDirection s v) = peakRpm s"
  "redlineRpm (selectDirection s v) = redlineRpm s"
  "upshiftRpm (selectDirection s v) = upshiftRpm s"
  "downshiftRpm (selectDirection s v) = downshiftRpm s"
  "engineRpm (selectDirection s v) = engineRpm s"
  "brake (selectDirection s v) = brake s"
  "driveSplitFront (selectDirection s v) = driveSplitFront s"
  "driveSplitRear (selectDirection s v) = driveSplitRear s"
  "lf (selectDirection s v) = lf s"
  "lr (selectDirection s v) = lr s"
  "inertia (selectDirection s v) = inertia s"
  "lastLongitudinalAccel (selectDirection s v) = lastLongitudinalAccel s"
  "lastLateralAccel (selectDirection s v) = lastLateralAccel s"
  "manualMode (selectDirection s v) = manualMode s"
  "reverseGearRatio (selectDirection s v) = reverseGearRatio s"
  "revLimiterRpm (selectDirection s v) = revLimiterRpm s"
  "revLimiterActive (selectDirection s v) = revLimiterActive s"
  "brakeBiasFront (selectDirection s v) = brakeBiasFront s"
  "brakeTorquePerWheelNm (selectDirection s v) = brakeTorquePerWheelNm s"
  by (simp_all add: selectDirection_def)

lemma engineSpeed_keeps [simp]:
  "config (engineSpeed s v) = config s"
  "pixelsPerMeter (engineSpeed s v) = pixelsPerMeter s"
  "position (engineSpeed s v) = position s"
  "velocity (engineSpeed s v) = velocity s"
  "heading (engineSpeed s v) = heading s"
  "angularVelocity (engineSpeed s v) = angularVelocity s"
  "steerAngle (engineSpeed s v) = steerAngle s"
  "longitudinalGripCoeffs (engineSpeed s v) = longitudinalGripCoeffs s"
  "lateralGripCoeffs (engineSpeed s v) = lateralGripCoeffs s"
  "tires (engineSpeed s v) = tires s"
  "gearIndex (engineSpeed s v) = gearIndex s"
  "idleRpm (engineSpeed s v) = idleRpm s"
  "peakRpm (engineSpeed s v) = peakRpm s"
  "redlineRpm (engineSpeed s v) = redlineRpm s"
  "upshiftRpm (engineSpeed s v) = upshiftRpm s"
  "downshiftRpm (engineSpeed s v) = downshiftRpm s"
  "throttle (engineSpeed s v) = throttle s"
  "brake (engineSpeed s v) = brake s"
  "driveSplitFront (engineSpeed s v) = driveSplitFront s"
  "driveSplitRear (engineSpeed s v) = driveSplitRear s"
  "lf (engineSpeed s v) = lf s"
  "lr (engineSpeed s v) = lr s"
  "inertia (engineSpeed s v) = inertia s"
  "lastLongitudinalAccel (engineSpeed s v) = lastLongitudinalAccel s"
  "lastLateralAccel (engineSpeed s v) = lastLateralAccel s"
  "reverseMode (engineSpeed s v) = reverseMode s"
  "manualMode (engineSpeed s v) = manualMode s"
  "reverseGearRatio (engineSpeed s v) = reverseGearRatio s"
  "revLimiterRpm (engineSpeed s v) = revLimiterRpm s"
  "revLimiterActive (engineSpeed s v) = revLimiterActive s"
  "brakeBiasFront (engineSpeed s v) = brakeBiasFront s"
  "brakeTorquePerWheelNm (engineSpeed s v) = brakeTorquePerWheelNm s"
  by (simp_all add: engineSpeed_def Let_def split: option.split)

lemma revLimit_keeps [simp]:
  "config (revLimit s) = config s"
  "pixelsPerMeter (revLimit s) = pixelsPerMeter s"
  "position (revLimit s) = position s"
  "velocity (revLimit s) = velocity s"
  "heading (revLimit s) = heading s"
  "angularVelocity (revLimit s) = angularVelocity s"
  "steerAngle (revLimit s) = steerAngle s"
  "longitudinalGripCoeffs (revLimit s) = longitudinalGripCoeffs s"
  "lateralGripCoeffs (revLimit s) = lateralGripCoeffs s"
  "tires (revLimit s) = tires s"
  "gearIndex (revLimit s) = gearIndex s"
  "idleRpm (revLimit s) = idleRpm s"
  "peakRpm (revLimit s) = peakRpm s"
  "redlineRpm (revLimit s) = redlineRpm s"
  "upshiftRpm (revLimit s) = upshiftRpm s"
  "downshiftRpm (revLimit s) = downshiftRpm s"
  "brake (revLimit s) = brake s"
  "driveSplitFront (revLimit s) = driveSplitFront s"
  "driveSplitRear (revLimit s) = driveSplitRear s"
  "lf (revLimit s) = lf s"
  "lr (revLimit s) = lr s"
  "inertia (revLimit s) = inertia s"
  "lastLongitudinalAccel (revLimit s) = lastLongitudinalAccel s"
  "lastLateralAccel (revLimit s) = lastLateralAccel s"
  "reverseMode (revLimit s) = reverseMode s"
  "manualMode (revLimit s) = manualMode s"
  "reverseGearRatio (revLimit s) = reverseGearRatio s"
  "revLimiterRpm (revLimit s) = revLimiterRpm s"
  "brakeBiasFront (revLimit s) = brakeBiasFront s"
  "brakeTorquePerWheelNm (revLimit s) = brakeTorquePerWheelNm s"
  by (simp_all add: revLimit_def Let_def)

lemma autoShift_keeps [simp]:
  "config (autoShift s) = config s"
  "pixelsPerMeter (autoShift s) = pixelsPerMeter s"
  "position (autoShift s) = position s"
  "velocity (autoShift s) = velocity s"
  "heading (autoShift s) = heading s"
  "angularVelocity (autoShift s) = angularVelocity s"
  "steerAngle (autoShift s) = steerAngle s"
  "longitudinalGripCoeffs (autoShift s) = longitudinalGripCoeffs s"
  "lateralGripCoeffs (autoShift s) = lateralGripCoeffs s"
  "tires (autoShift s) = tires s"
  "idleRpm (autoShift s) = idleRpm s"
  "peakRpm (autoShift s) = peakRpm s"
  "redlineRpm (autoShift s) = redlineRpm s"
  "upshiftRpm (autoShift s) = upshiftRpm s"
  "downshiftRpm (autoShift s) = downshiftRpm s"
  "engineRpm (autoShift s) = engineRpm s"
  "throttle (autoShift s) = throttle s"
  "brake (autoShift s) = brake s"
  "driveSplitFront (autoShift s) = driveSplitFront s"
  "driveSplitRear (autoShift s) = driveSplitRear s"
  "lf (autoShift s) = lf s"
  "lr (autoShift s) = lr s"
  "inertia (autoShift s) = inertia s"
  "lastLongitudinalAccel (autoShift s) = lastLongitudinalAccel s"
  "lastLateralAccel (autoShift s) = lastLateralAccel s"
  "reverseMode (autoShift s) = reverseMode s"
  "manualMode (autoShift s) = manualMode s"
  "reverseGearRatio (autoShift s) = reverseGearRatio s"
  "revLimiterRpm (autoShift s) = revLimiterRpm s"
  "revLimiterActive (autoShift s) = revLimiterActive s"
  "brakeBiasFront (autoShift s) = brakeBiasFront s"
  "brakeTorquePerWheelNm (autoShift s) = brakeTorquePerWheelNm s"
  by (simp_all add: autoShift_def)

lemma steerStep_keeps [simp]:
  "config (steerStep s a v dt) = config s"
  "pixelsPerMeter (steerStep s a v dt) = pixelsPerMeter s"
  "position (steerStep s a v dt) = position s"
  "velocity (steerStep s a v dt) = velocity s"
  "heading (steerStep s a v dt) = heading s"
  "angularVelocity (steerStep s a v dt) = angularVelocity s"
  "longitudinalGripCoeffs (steerStep s a v dt) = longitudinalGripCoeffs s"
  "lateralGripCoeffs (steerStep s a v dt) = lateralGripCoeffs s"
  "tires (steerStep s a v dt) = tires s"
  "gearIndex (steerStep s a v dt) = gearIndex s"
  "idleRpm (steerStep s a v dt) = idleRpm s"
  "peakRpm (steerStep s a v dt) = peakRpm s"
  "redlineRpm (steerStep s a v dt) = redlineRpm s"
  "upshiftRpm (steerStep s a v dt) = upshiftRpm s"
  "downshiftRpm (steerStep s a v dt) = downshiftRpm s"
  "engineRpm (steerStep s a v dt) = engineRpm s"
  "throttle (steerStep s a v dt) = throttle s"
  "brake (steerStep s a v dt) = brake s"
  "driveSplitFront (steerStep s a v dt) = driveSplitFront s"
  "driveSplitRear (steerStep s a v dt) = driveSplitRear s"
  "lf (steerStep s a v dt) = lf s"
  "lr (steerStep s a v dt) = lr s"
  "inertia (steerStep s a v dt) = inertia s"
  "lastLongitudinalAccel (steerStep s a v dt) = lastLongitudinalAccel s"
  "lastLateralAccel (steerStep s a v dt) = lastLateralAccel s"
  "reverseMode (steerStep s a v dt) = reverseMode s"
  "manualMode (steerStep s a v dt) = manualMode s"
  "reverseGearRatio (steerStep s a v dt) = reverseGearRatio s"
  "revLimiterRpm (steerStep s a v dt) = revLimiterRpm s"
  "revLimiterActive (steerStep s a v dt) = revLimiterActive s"
  "brakeBiasFront (steerStep s a v dt) = brakeBiasFront s"
  "brakeTorquePerWheelNm (steerStep s a v dt) = brakeTorquePerWheelNm s"
  by (simp_all add: steerStep_def Let_def)

lemma smoothBrake_keeps [simp]:
  "config (smoothBrake s a dt) = config s"
  "pixelsPerMeter (smoothBrake s a dt) = pixelsPerMeter s"
  "position (smoothBrake s a dt) = position s"
  "velocity (smoothBrake s a dt) = velocity s"
  "heading (smoothBrake s a dt) = heading s"
  "angularVelocity (smoothBrake s a dt) = angularVelocity s"
  "steerAngle (smoothBrake s a dt) = steerAngle s"
  "longitudinalGripCoeffs (smoothBrake s a dt) = longitudinalGripCoeffs s"
  "lateralGripCoeffs (smoothBrake s a dt) = lateralGripCoeffs s"
  "tires (smoothBrake s a dt) = tires s"
  "gearIndex (smoothBrake s a dt) = gearIndex s"
  "idleRpm (smoothBrake s a dt) = idleRpm s"
  "peakRpm (smoothBrake s a dt) = peakRpm s"
  "redlineRpm (smoothBrake s a dt) = redlineRpm s"
  "upshiftRpm (smoothBrake s a dt) = upshiftRpm s"
  "downshiftRpm (smoothBrake s a dt) = downshiftRpm s"
  "engineRpm (smoothBrake s a dt) = engineRpm s"
  "throttle (smoothBrake s a dt) = throttle s"
  "driveSplitFront (smoothBrake s a dt) = driveSplitFront s"
  "driveSplitRear (smoothBrake s a dt) = driveSplitRear s"
  "lf (smoothBrake s a dt) = lf s"
  "lr (smoothBrake s a dt) = lr s"
  "inertia (smoothBrake s a dt) = inertia s"
  "lastLongitudinalAccel (smoothBrake s a dt) = lastLongitudinalAccel s"
  "lastLateralAccel (smoothBrake s a dt) = lastLateralAccel s"
  "reverseMode (smoothBrake s a dt) = reverseMode s"
  "manualMode (smoothBrake s a dt) = manualMode s"
  "reverseGearRatio (smoothBrake s a dt) = reverseGearRatio s"
  "revLimiterRpm (smoothBrake s a dt) = revLimiterRpm s"
  "revLimiterActive (smoothBrake s a dt) = revLimiterActive s"
  "brakeBiasFront (smoothBrake s a dt) = brakeBiasFront s"
  "brakeTorquePerWheelNm (smoothBrake s a dt) = brakeTorquePerWheelNm s"
  by (simp_all add: smoothBrake_def Let_def)

lemma settle_keeps [simp]:
  "config (settle v s) = config s"
  "pixelsPerMeter (settle v s) = pixelsPerMeter s"
  "position (settle v s) = position s"
  "heading (settle v s) = heading s"
  "steerAngle (settle v s) = steerAngle s"
  "longitudinalGripCoeffs (settle v s) = longitudinalGripCoeffs s"
  "lateralGripCoeffs (settle v s) = lateralGripCoeffs s"
  "tires (settle v s) = tires s"
  "gearIndex (settle v s) = gearIndex s"
  "idleRpm (settle v s) = idleRpm s"
  "peakRpm (settle v s) = peakRpm s"
  "redlineRpm (settle v s) = redlineRpm s"
  "upshiftRpm (settle v s) = upshiftRpm s"
  "downshiftRpm (settle v s) = downshiftRpm s"
  "engineRpm (settle v s) = engineRpm s"
  "throttle (settle v s) = throttle s"
  "brake (settle v s) = brake s"
  "driveSplitFront (settle v s) = driveSplitFront s"
  "driveSplitRear (settle v s) = driveSplitRear s"
  "lf (settle v s) = lf s"
  "lr (settle v s) = lr s"
  "inertia (settle v s) = inertia s"
  "lastLongitudinalAccel (settle v s) = lastLongitudinalAccel s"
  "lastLateralAccel (settle v s) = lastLateralAccel s"
  "reverseMode (settle v s) = reverseMode s"
  "manualMode (settle v s) = manualMode s"
  "reverseGearRatio (settle v s) = reverseGearRatio s"
  "revLimiterRpm (settle v s) = revLimiterRpm s"
  "revLimiterActive (settle v s) = revLimiterActive s"
  "brakeBiasFront (settle v s) = brakeBiasFront s"
  "brakeTorquePerWheelNm (settle v s) = brakeTorquePerWheelNm s"
  by (simp_all add: settle_def Let_def)

lemma integrate_keeps [simp]:
  "config (integrate s0 dt d) = config (demandCar d)"
  "pixelsPerMeter (integrate s0 dt d) = pixelsPerMeter (demandCar d)"
  "steerAngle (integrate s0 dt d) = steerAngle (demandCar d)"
  "longitudinalGripCoeffs (integrate s0 dt d) = longitudinalGripCoeffs (demandCar d)"
  "lateralGripCoeffs (integrate s0 dt d) = lateralGripCoeffs (demandCar d)"
  "gearIndex (integrate s0 dt d) = gearIndex (demandCar d)"
  "idleRpm (integrate s0 dt d) = idleRpm (demandCar d)"
  "peakRpm (integrate s0 dt d) = peakRpm (demandCar d)"
  "redlineRpm (integrate s0 dt d) = redlineRpm (demandCar d)"
  "upshiftRpm (integrate s0 dt d) = upshiftRpm (demandCar d)"
  "downshiftRpm (integrate s0 dt d) = downshiftRpm (demandCar d)"
  "engineRpm (integrate s0 dt d) = engineRpm (demandCar d)"
  "throttle (integrate s0 dt d) = throttle (demandCar d)"
  "brake (integrate s0 dt d) = brake (demandCar d)"
  "driveSplitFront (integrate s0 dt d) = driveSplitFront (demandCar d)"
  "driveSplitRear (integrate s0 dt d) = driveSplitRear (demandCar d)"
  "lf (integrate s0 dt d) = lf (demandCar d)"
  "lr (integrate s0 dt d) = lr (demandCar d)"
  "inertia (integrate s0 dt d) = inertia (demandCar d)"
  "reverseMode (integrate s0 dt d) = reverseMode (demandCar d)"
  "manualMode (integrate s0 dt d) = manualMode (demandCar d)"
  "reverseGearRatio (integrate s0 dt d) = reverseGearRatio (demandCar d)"
  "revLimiterRpm (integrate s0 dt d) = revLimiterRpm (demandCar d)"
  "revLimiterActive (integrate s0 dt d) = revLimiterActive (demandCar d)"
  "brakeBiasFront (integrate s0 dt d) = brakeBiasFront (demandCar d)"
  "brakeTorquePerWheelNm (integrate s0 dt d) = brakeTorquePerWheelNm (demandCar d)"
  by (simp_all add: integrate_def Let_def split: prod.split)

lemma updatePowertrain_keeps [simp]:
  "config (updatePowertrain s a v dt) = config s"
  "pixelsPerMeter (updatePowertrain s a v dt) = pixelsPerMeter s"
  "position (updatePowertrain s a v dt) = position s"
  "velocity (updatePowertrain s a v dt) = velocity s"
  "heading (updatePowertrain s a v dt) = heading s"
  "angularVelocity (updatePowertrain s a v dt) = angularVelocity s"
  "steerAngle (updatePowertrain s a v dt) = steerAngle s"
  "longitudinalGripCoeffs (updatePowertrain s a v dt) = longitudinalGripCoeffs s"
  "lateralGripCoeffs (updatePowertrain s a v dt) = lateralGripCoeffs s"
  "tires (updatePowertrain s a v dt) = tires s"
  "idleRpm (updatePowertrain s a v dt) = idleRpm s"
  "peakRpm (updatePowertrain s a v dt) = peakRpm s"
  "redlineRpm (updatePowertrain s a v dt) = redlineRpm s"
  "upshiftRpm (updatePowertrain s a v dt) = upshiftRpm s"
  "downshiftRpm (updatePowertrain s a v dt) = downshiftRpm s"
  "brake (updatePowertrain s a v dt) = brake s"
  "driveSplitFront (updatePowertrain s a v dt) = driveSplitFront s"
  "driveSplitRear (updatePowertrain s a v dt) = driveSplitRear s"
  "lf (updatePowertrain s a v dt) = lf s"
  "lr (updatePowertrain s a v dt) = lr s"
  "inertia (updatePowertrain s a v dt) = inertia s"
  "lastLongitudinalAccel (updatePowertrain s a v dt) = lastLongitudinalAccel s"
  "lastLateralAccel (updatePowertrain s a v dt) = lastLateralAccel s"
  "manualMode (updatePowertrain s a v dt) = manualMode s"
  "reverseGearRatio (updatePowertrain s a v dt) = reverseGearRatio s"
  "revLimiterRpm (updatePowertrain s a v dt) = revLimiterRpm s"
  "brakeBiasFront (updatePowertrain s a v dt) = brakeBiasFront s"
  "brakeTorquePerWheelNm (updatePowertrain s a v dt) = brakeTorquePerWheelNm s"
  by (simp_all add: updatePowertrain_def Let_def)

lemma demandCar_tireDemand:
  "demandCar (tireDemand s a b c dt) =
     smoothBrake (steerStep (updatePowertrain s a (dot (velocity s) (forwardVector s)) dt) c
                    (length_vec (velocity s)) dt) b dt"
  by (simp add: tireDemand_def Let_def computeLongitudinalForces_def split: prod.split)
lemma clamp_bounds: "mn \<le> mx \<Longrightarrow> mn \<le> clamp v mn mx \<and> clamp v mn mx \<le> mx"
  by (simp add: clamp_def)

lemma clamp_id: "mn \<le> v \<Longrightarrow> v \<le> mx \<Longrightarrow> clamp v mn mx = v"
  by (simp add: clamp_def)

lemma computeAeroForces_config:
  "config s' = config s \<Longrightarrow> computeAeroForces s' v bw = computeAeroForces s v bw"
  by (simp add: computeAeroForces_def)

lemma tireDemand_fields:
  "demandNormals (tireDemand s a b c dt) =
     tireNormalsOf (demandCar (tireDemand s a b c dt))
       (snd (computeAeroForces s (length_vec (velocity s)) (dot (velocity s) (forwardVector s) < -0.2)))"
  "demandLong (tireDemand s a b c dt) =
     tireForcesLongOf (demandCar (tireDemand s a b c dt))
       (driveForceOf (demandCar (tireDemand s a b c dt)))
       (brakeForcesOf (demandCar (tireDemand s a b c dt))) (dot (velocity s) (forwardVector s))"
  "demandLat (tireDemand s a b c dt) =
     tireForcesLatOf (demandCar (tireDemand s a b c dt)) (demandNormals (tireDemand s a b c dt))
       (dot (velocity s) (forwardVector s)) (dot (velocity s) (rightVector s)) (length_vec (velocity s))"
  "demandBonus (tireDemand s a b c dt) =
     frontGripBonusOf (demandCar (tireDemand s a b c dt)) (length_vec (velocity s))
       (dot (velocity s) (forwardVector s))"
  "demandDrag (tireDemand s a b c dt) =
     fst (computeAeroForces s (length_vec (velocity s)) (dot (velocity s) (forwardVector s) < -0.2))"
  by (simp_all add: tireDemand_def Let_def computeLongitudinalForces_def
        computeAeroForces_config[of "steerStep _ _ _ _" s] split: prod.split)
lemma demandCar_keeps [simp]:
  "tires (demandCar (tireDemand s a b c dt)) = tires s"
  "config (demandCar (tireDemand s a b c dt)) = config s"
  "longitudinalGripCoeffs (demandCar (tireDemand s a b c dt)) = longitudinalGripCoeffs s"
  "lateralGripCoeffs (demandCar (tireDemand s a b c dt)) = lateralGripCoeffs s"
  "brakeTorquePerWheelNm (demandCar (tireDemand s a b c dt)) = brakeTorquePerWheelNm s"
  "velocity (demandCar (tireDemand s a b c dt)) = velocity s"
  "position (demandCar (tireDemand s a b c dt)) = position s"
  "heading (demandCar (tireDemand s a b c dt)) = heading s"
  "angularVelocity (demandCar (tireDemand s a b c dt)) = angularVelocity s"
  "inertia (demandCar (tireDemand s a b c dt)) = inertia s"
  "lastLongitudinalAccel (demandCar (tireDemand s a b c dt)) = lastLongitudinalAccel s"
  "lastLateralAccel (demandCar (tireDemand s a b c dt)) = lastLateralAccel s"
  "manualMode (demandCar (tireDemand s a b c dt)) = manualMode s"
  "lf (demandCar (tireDemand s a b c dt)) = lf s"
  "lr (demandCar (tireDemand s a b c dt)) = lr s"
  "driveSplitFront (demandCar (tireDemand s a b c dt)) = driveSplitFront s"
  "driveSplitRear (demandCar (tireDemand s a b c dt)) = driveSplitRear s"
  by (simp_all add: demandCar_tireDemand)

subsection \<open>The wheel loop on four tires\<close>

lemma upt_4: "[0..<4] = [0, 1, 2, 3]"
  by (simp add: upt_rec)

lemma tireLoop_tire:
  assumes "length (tires s) = 4" and "i < 4"
  shows "fst (tireLoop s N L T b) ! i =
           (tires s ! i)\<lparr>hasTraction :=
                            snd (snd (saturate (L ! i) (T ! i) (longitudinalCapOf s N i)
                                        (lateralCapOf s N b i))),
                        normalLoad := N ! i,
                        combinedForce :=
                          Vector (fst (saturate (L ! i) (T ! i) (longitudinalCapOf s N i)
                                         (lateralCapOf s N b i)))
                                 (fst (snd (saturate (L ! i) (T ! i) (longitudinalCapOf s N i)
                                              (lateralCapOf s N b i))))\<rparr>"
proof -
  have "i = 0 \<or> i = 1 \<or> i = 2 \<or> i = 3" using assms(2) by arith
  then show ?thesis
    using assms(1)
    by (auto simp add: tireLoop_def upt_4 tireStep_def Let_def split: prod.split)
qed


lemma saturate_zero: "saturate 0 0 capL capT = (0, 0, True)"
  by (simp add: saturate_def loadRatioOf_def Let_def)

lemma tireLoop_zero_totals:
  assumes "length (tires s) = 4" and "L = [0, 0, 0, 0]" and "T = [0, 0, 0, 0]"
  shows "snd (tireLoop s N L T b) = (0, 0, 0)"
  using assms
  by (simp add: tireLoop_def upt_4 tireStep_def saturate_zero Let_def split: prod.split)
lemma integrate_tires:
  "tires (integrate s0 dt d) =
     fst (tireLoop (demandCar d) (demandNormals d) (demandLong d) (demandLat d) (demandBonus d))"
  by (simp add: integrate_def Let_def split: prod.split)

lemma update_tires:
  "tires (update s a b c dt) =
     fst (tireLoop (demandCar (tireDemand s a b c dt)) (demandNormals (tireDemand s a b c dt))
            (demandLong (tireDemand s a b c dt)) (demandLat (tireDemand s a b c dt))
            (demandBonus (tireDemand s a b c dt)))"
  by (simp add: update_def integrate_tires)
lemma tireNormalsOf_length [simp]: "length (tireNormalsOf s df) = 4"
  by (simp add: tireNormalsOf_def Let_def)

subsection \<open>The default car\<close>

lemma defaultCar_fields:
  "config (newCar defaultCarConfig noOptions) = defaultCarConfig"
  "velocity (newCar defaultCarConfig noOptions) = Vector 0 0"
  "position (newCar defaultCarConfig noOptions) = Vector 0 0"
  "heading (newCar defaultCarConfig noOptions) = 0"
  "angularVelocity (newCar defaultCarConfig noOptions) = 0"
  "steerAngle (newCar defaultCarConfig noOptions) = 0"
  "throttle (newCar defaultCarConfig noOptions) = 0"
  "brake (newCar defaultCarConfig noOptions) = 0"
  "length (tires (newCar defaultCarConfig noOptions)) = 4"
  "longitudinalGripCoeffs (newCar defaultCarConfig noOptions) = [1.05, 1.05, 1.1, 1.1]"
  "lateralGripCoeffs (newCar defaultCarConfig noOptions) = [1.176, 1.176, 1.232, 1.232]"
  "brakeTorquePerWheelNm (newCar defaultCarConfig noOptions) = [4200, 4200, 3200, 3200]"
  "lastLongitudinalAccel (newCar defaultCarConfig noOptions) = 0"
  "lastLateralAccel (newCar defaultCarConfig noOptions) = 0"
  "reverseMode (newCar defaultCarConfig noOptions) = False"
  "manualMode (newCar defaultCarConfig noOptions) = False"
  "gearIndex (newCar defaultCarConfig noOptions) = 1"
  "inertia (newCar defaultCarConfig noOptions) = 1450 * (2.8\<^sup>2 + 1.55\<^sup>2) / 12"
  "driveSplitFront (newCar defaultCarConfig noOptions) = 0"
  "driveSplitRear (newCar defaultCarConfig noOptions) = 1"
  by (simp_all add: newCar_def Let_def noOptions_def defaultCarConfig_def createVector_def
        lateralGripsOf_def toUpperCase_def toUpperChar_def)

lemma defaultCar_wf: "car_wf (newCar defaultCarConfig noOptions)"
  by (simp add: car_wf_def defaultCar_fields) (simp add: defaultCarConfig_def power2_eq_square)

subsection \<open>Ticks without drive, brake or lateral demand\<close>

lemma smoothThrottle_zero: "throttle s = 0 \<Longrightarrow> throttle (smoothThrottle s 0 dt) = 0"
  by (simp add: smoothThrottle_def Let_def clamp_def)

lemma selectDirection_zero: "throttle s = 0 \<Longrightarrow> throttle (selectDirection s v) = 0"
  by (simp add: selectDirection_def clamp_def)

lemma revLimit_zero: "throttle s = 0 \<Longrightarrow> throttle (revLimit s) = 0"
  by (simp add: revLimit_def Let_def)

lemma updatePowertrain_throttle_zero:
  "throttle s = 0 \<Longrightarrow> throttle (updatePowertrain s 0 v dt) = 0"
  by (simp add: updatePowertrain_def Let_def revLimit_zero selectDirection_zero smoothThrottle_zero)

lemma driveForceOf_throttle_zero: "throttle s = 0 \<Longrightarrow> driveForceOf s = 0"
  by (simp add: driveForceOf_def Let_def split: option.split)

lemma tireNormalsOf_nonneg: "i < 4 \<Longrightarrow> 0 \<le> tireNormalsOf s df ! i"
proof -
  assume "i < 4"
  then have "i = 0 \<or> i = 1 \<or> i = 2 \<or> i = 3" by arith
  then show ?thesis by (auto simp add: tireNormalsOf_def Let_def)
qed

lemma tireForcesLongOf_idle:
  assumes "4 \<le> length (brakeTorquePerWheelNm s)" and "brake s = 0"
  shows "tireForcesLongOf s 0 (brakeForcesOf s) v = [0, 0, 0, 0]"
proof -
  have l: "0 < length (brakeTorquePerWheelNm s)" "1 < length (brakeTorquePerWheelNm s)"
    "2 < length (brakeTorquePerWheelNm s)" "3 < length (brakeTorquePerWheelNm s)"
    using assms(1) by linarith+
  show ?thesis
    using assms l by (simp add: tireForcesLongOf_def brakeForcesOf_def Let_def)
qed

lemma tireForcesLatOf_slow:
  assumes "\<bar>vLong\<bar> \<le> 0.5" and "speed \<le> 0.5"
    and "0 \<le> lateralGripCoeffs s ! 0 * N ! 0 + lateralGripCoeffs s ! 1 * N ! 1"
    and "0 \<le> lateralGripCoeffs s ! 2 * N ! 2 + lateralGripCoeffs s ! 3 * N ! 3"
  shows "tireForcesLatOf s N vLong vLat speed = [0, 0, 0, 0]"
  using assms by (simp add: tireForcesLatOf_def slipAngles_def Let_def clamp_def)
lemma dot_zero_left [simp]: "dot (Vector 0 0) v = 0"
  by (simp add: dot_def)

lemma length_vec_zero [simp]: "length_vec (Vector 0 0) = 0"
  by (simp add: length_vec_def hypot_def)

section \<open>C3: the torque curve\<close>

lemma newCar_fields:
  "config (newCar cfg opts) = cfg"
  "idleRpm (newCar cfg opts) = 900"
  "peakRpm (newCar cfg opts) = max 2500 (((horsepower cfg * 745.7) / (peakTorqueNm cfg + 0.000001)) * (60 / (2 * pi)))"
  "revLimiterRpm (newCar cfg opts) = (case cfgRevLimiterRpm cfg of Some l \<Rightarrow> l | None \<Rightarrow> 7000)"
  by (simp_all add: newCar_def Let_def)
lemma torque_low_branch:
  assumes "idleRpm s + 1 \<le> peakRpm s" "idleRpm s \<le> rpm" "rpm \<le> peakRpm s" "rpm \<le> revLimiterRpm s + 600"
  shows "torqueAtRpm s rpm = peakTorqueNm (config s) * (0.65 + 0.35 * ((rpm - idleRpm s) / (peakRpm s - idleRpm s)) powr 1.25)"
proof -
  let ?r = "(rpm - idleRpm s) / (peakRpm s - idleRpm s)"
  have e: "clamp rpm (idleRpm s) (revLimiterRpm s + 600) = rpm"
    using assms by (simp add: clamp_def)
  have r0: "0 \<le> ?r" and r1: "?r \<le> 1" using assms by simp_all
  have m: "max 1 (peakRpm s - idleRpm s) = peakRpm s - idleRpm s" using assms by simp
  have p0: "0 \<le> ?r powr 1.25" by simp
  have ab: "\<bar>?r\<bar> \<le> 1" using r0 r1 by linarith
  have p1: "?r powr 1.25 \<le> 1" by (rule powr_le1[OF _ ab]) simp
  have c1: "clamp ?r 0 1 = ?r" using r0 r1 by (simp add: clamp_def)
  have c2: "clamp (0.65 + 0.35 * ?r powr 1.25) 0.45 1.05 = 0.65 + 0.35 * ?r powr 1.25"
    using p0 p1 by (simp add: clamp_def)
  show ?thesis
    unfolding torqueAtRpm_def Let_def e m using assms(3) c1 c2 by simp
qed

lemma torque_mid_branch:
  assumes "1 \<le> idleRpm s" "idleRpm s \<le> peakRpm s" "peakRpm s < rpm" "rpm \<le> revLimiterRpm s"
  shows "torqueAtRpm s rpm = clamp (horsepower (config s) * 5252 / rpm) (peakTorqueNm (config s) * 0.45) (peakTorqueNm (config s))"
proof -
  have e: "clamp rpm (idleRpm s) (revLimiterRpm s + 600) = rpm"
    using assms by (simp add: clamp_def)
  have m: "max rpm 1 = rpm" using assms by simp
  show ?thesis
    unfolding torqueAtRpm_def Let_def e m using assms by simp
qed

lemma torque_high_branch:
  assumes "idleRpm s \<le> peakRpm s" "peakRpm s < rpm" "peakRpm s < revLimiterRpm s + 600" "revLimiterRpm s < rpm"
  shows "\<exists>k. torqueAtRpm s rpm = peakTorqueNm (config s) * k \<and> 0.05 \<le> k \<and> k \<le> 0.12 \<and>
     k = clamp (0.12 * (1 - clamp ((min rpm (revLimiterRpm s + 600) - revLimiterRpm s) / 600) 0 1)) 0.05 0.12"
proof -
  have e: "clamp rpm (idleRpm s) (revLimiterRpm s + 600) = min rpm (revLimiterRpm s + 600)"
    using assms by (simp add: clamp_def)
  have g1: "\<not> min rpm (revLimiterRpm s + 600) \<le> peakRpm s" using assms by simp
  have g2: "\<not> min rpm (revLimiterRpm s + 600) \<le> revLimiterRpm s" using assms by simp
  show ?thesis
    unfolding torqueAtRpm_def Let_def e using g1 g2 clamp_bounds[of "0.05" "0.12"] by simp
qed
lemma inv_two_pi_bounds: "60 / (2 * pi) \<le> 15" "15 / 2 < 60 / (2 * pi)"
proof -
  have a: "2 \<le> pi" by (rule pi_ge_two)
  have b: "pi < 4" by (rule pi_less_4)
  show "60 / (2 * pi) \<le> 15" using a by (simp add: field_simps)
  show "15 / 2 < 60 / (2 * pi)" using b by (simp add: field_simps)
qed

lemma highRev_peak: "8000 < peakRpm (newCar highRevConfig noOptions)"
proof -
  have "(8000::real) < ((600 * 745.7) / (400 + 0.000001)) * (15 / 2)" by simp
  also have "\<dots> < ((600 * 745.7) / (400 + 0.000001)) * (60 / (2 * pi))"
    by (rule mult_strict_left_mono[OF inv_two_pi_bounds(2)]) simp
  finally show ?thesis
    by (simp add: newCar_fields highRevConfig_def defaultCarConfig_def)
qed

lemma lowRev_peak: "peakRpm (newCar lowRevConfig noOptions) < 4500"
proof -
  have "((200 * 745.7) / (530 + 0.000001)) * (60 / (2 * pi)) \<le> ((200 * 745.7) / (530 + 0.000001)) * (15::real)"
    by (rule mult_left_mono[OF inv_two_pi_bounds(1)]) simp
  also have "\<dots> < 4500" by simp
  finally show ?thesis
    by (simp add: newCar_fields lowRevConfig_def defaultCarConfig_def)
qed
text \<open>
  C3 (amended). For a constructed car the torque is piecewise in the RPM, with the first
  test taking precedence: for an RPM from idle (900) up to the peak RPM, and at most 600
  above the rev limiter, it is the peak torque times \<open>0.65 + 0.35 * r powr 1.25\<close> with
  \<open>r\<close> the position between idle and peak; for an RPM above the peak and up to the limiter
  it is \<open>hp * 5252 / rpm\<close> clamped between 45% and 100% of the peak torque; for an RPM
  above both the limiter and the peak (the peak lying below limiter + 600) it is the peak
  torque times a factor between 0.05 and 0.12 that falls with the overshoot.
\<close>

theorem torqueAtRpm_piecewise:
  assumes "s = newCar cfg opts"
  shows "(900 \<le> rpm \<and> rpm \<le> peakRpm s \<and> rpm \<le> revLimiterRpm s + 600 \<longrightarrow>
            torqueAtRpm s rpm =
              peakTorqueNm cfg * (0.65 + 0.35 * ((rpm - 900) / (peakRpm s - 900)) powr 1.25))
       \<and> (peakRpm s < rpm \<and> rpm \<le> revLimiterRpm s \<longrightarrow>
            torqueAtRpm s rpm =
              clamp (horsepower cfg * 5252 / rpm) (peakTorqueNm cfg * 0.45) (peakTorqueNm cfg))
       \<and> (revLimiterRpm s < rpm \<and> peakRpm s < rpm \<and> peakRpm s < revLimiterRpm s + 600 \<longrightarrow>
            (\<exists>k. torqueAtRpm s rpm = peakTorqueNm cfg * k \<and> 0.05 \<le> k \<and> k \<le> 0.12 \<and>
               k = clamp (0.12 * (1 - clamp ((min rpm (revLimiterRpm s + 600) - revLimiterRpm s) / 600) 0 1))
                     0.05 0.12))"
proof -
  have i: "idleRpm s = 900" and c: "config s = cfg" and p: "2500 \<le> peakRpm s"
    using assms by (simp_all add: newCar_fields)
  have "900 \<le> rpm \<Longrightarrow> rpm \<le> peakRpm s \<Longrightarrow> rpm \<le> revLimiterRpm s + 600 \<Longrightarrow>
          torqueAtRpm s rpm =
              peakTorqueNm cfg * (0.65 + 0.35 * ((rpm - 900) / (peakRpm s - 900)) powr 1.25)"
    using torque_low_branch[of s rpm] i c p by simp
  moreover have "peakRpm s < rpm \<Longrightarrow> rpm \<le> revLimiterRpm s \<Longrightarrow>
          torqueAtRpm s rpm =
              clamp (horsepower cfg * 5252 / rpm) (peakTorqueNm cfg * 0.45) (peakTorqueNm cfg)"
    using torque_mid_branch[of s rpm] i c p by simp
  moreover have "revLimiterRpm s < rpm \<Longrightarrow> peakRpm s < rpm \<Longrightarrow> peakRpm s < revLimiterRpm s + 600 \<Longrightarrow>
            (\<exists>k. torqueAtRpm s rpm = peakTorqueNm cfg * k \<and> 0.05 \<le> k \<and> k \<le> 0.12 \<and>
               k = clamp (0.12 * (1 - clamp ((min rpm (revLimiterRpm s + 600) - revLimiterRpm s) / 600) 0 1))
                     0.05 0.12)"
    using torque_high_branch[of s rpm] i c p by simp
  ultimately show ?thesis by blast
qed
text \<open>The witness: an engine of 200 hp, read at 2000, 5000 and 8000 RPM.\<close>

theorem torqueAtRpm_piecewise_witness:
  "(900 \<le> (2000::real) \<and> 2000 \<le> peakRpm (newCar lowRevConfig noOptions)
      \<and> 2000 \<le> revLimiterRpm (newCar lowRevConfig noOptions) + 600)
   \<and> torqueAtRpm (newCar lowRevConfig noOptions) 2000 =
        530 * (0.65 + 0.35 * ((2000 - 900) / (peakRpm (newCar lowRevConfig noOptions) - 900)) powr 1.25)
   \<and> (peakRpm (newCar lowRevConfig noOptions) < 5000
      \<and> 5000 \<le> revLimiterRpm (newCar lowRevConfig noOptions))
   \<and> torqueAtRpm (newCar lowRevConfig noOptions) 5000 = 238.5
   \<and> (revLimiterRpm (newCar lowRevConfig noOptions) < 8000
      \<and> peakRpm (newCar lowRevConfig noOptions) < 8000
      \<and> peakRpm (newCar lowRevConfig noOptions) < revLimiterRpm (newCar lowRevConfig noOptions) + 600)
   \<and> torqueAtRpm (newCar lowRevConfig noOptions) 8000 = 26.5"
proof -
  let ?s = "newCar lowRevConfig noOptions"
  have l: "revLimiterRpm ?s = 7000" and p0: "2500 \<le> peakRpm ?s"
    and cf: "peakTorqueNm lowRevConfig = 530" "horsepower lowRevConfig = 200"
    by (simp_all add: newCar_fields lowRevConfig_def defaultCarConfig_def)
  note p1 = lowRev_peak
  note t = torqueAtRpm_piecewise[where s="newCar lowRevConfig noOptions" and cfg=lowRevConfig and opts=noOptions, OF refl]
  have a: "torqueAtRpm ?s 2000 =
        530 * (0.65 + 0.35 * ((2000 - 900) / (peakRpm ?s - 900)) powr 1.25)"
    using t[of 2000] l p0 cf by simp
  have b: "torqueAtRpm ?s 5000 = 238.5"
    using t[of 5000] l p1 cf by (simp add: clamp_def)
  have c: "torqueAtRpm ?s 8000 = 26.5"
    using t[of 8000] l p1 cf by (auto simp add: clamp_def)
  show ?thesis using a b c l p0 p1 by simp
qed
text \<open>
  C3 as stated fails for an engine whose peak RPM lies above the rev limiter: with 600 hp
  and 400 N m the peak RPM exceeds 8000 while the limiter is 7000, and at 7300 RPM, above
  the limiter, the torque is at least 65% of the peak torque rather than at most 12%.
\<close>

theorem torqueAtRpm_above_limiter_counterexample:
  "\<not> torque_curve_as_claimed (newCar highRevConfig noOptions) 7300"
proof -
  let ?s = "newCar highRevConfig noOptions"
  have l: "revLimiterRpm ?s = 7000" and i: "idleRpm ?s = 900" and T: "peakTorqueNm (config ?s) = 400"
    by (simp_all add: newCar_fields highRevConfig_def defaultCarConfig_def)
  have p: "8000 < peakRpm ?s" by (rule highRev_peak)
  have "torqueAtRpm ?s 7300 = peakTorqueNm (config ?s) *
          (0.65 + 0.35 * ((7300 - idleRpm ?s) / (peakRpm ?s - idleRpm ?s)) powr 1.25)"
    by (rule torque_low_branch) (use l i p in simp_all)
  moreover have "0 \<le> ((7300 - idleRpm ?s) / (peakRpm ?s - idleRpm ?s)) powr 1.25" by simp
  ultimately have "260 \<le> torqueAtRpm ?s 7300" using T by simp
  then show ?thesis using l T by (simp add: torque_curve_as_claimed_def Let_def)
qed

section \<open>C10: the gear index in automatic mode\<close>

lemma selectDirection_gear: "gear_in_range s \<Longrightarrow> gear_in_range (selectDirection s v)"
  by (auto simp add: gear_in_range_def selectDirection_def)

lemma autoShift_gear: "gear_in_range s \<Longrightarrow> gear_in_range (autoShift s)"
  by (auto simp add: gear_in_range_def autoShift_def)
lemma updatePowertrain_gear:
  assumes g: "gear_in_range s"
  shows "gear_in_range (updatePowertrain s t v dt)"
proof -
  have a: "gear_in_range (smoothThrottle s t dt)"
    using g by (simp add: gear_in_range_def)
  have b: "gear_in_range (selectDirection (smoothThrottle s t dt) \<bar>v\<bar>)"
    by (rule selectDirection_gear[OF a])
  have c: "gear_in_range (engineSpeed (selectDirection (smoothThrottle s t dt) \<bar>v\<bar>) \<bar>v\<bar>)"
    using b by (simp add: gear_in_range_def)
  have d: "gear_in_range (revLimit (engineSpeed (selectDirection (smoothThrottle s t dt) \<bar>v\<bar>) \<bar>v\<bar>))"
    using c by (simp add: gear_in_range_def)
  show ?thesis
    unfolding updatePowertrain_def Let_def by (rule autoShift_gear[OF d])
qed
lemma update_gear: "gear_in_range s \<Longrightarrow> gear_in_range (update s t b st dt)"
proof -
  assume g: "gear_in_range s"
  have "gear_in_range (updatePowertrain s t (dot (velocity s) (forwardVector s)) dt)"
    by (rule updatePowertrain_gear[OF g])
  then show ?thesis
    by (simp add: gear_in_range_def update_def demandCar_tireDemand)
qed

lemma update_config [simp]: "config (update s t b st dt) = config s"
  by (simp add: update_def)

lemma updates_gear: "gear_in_range s \<Longrightarrow> gear_in_range (updates s inputs)"
  by (induction s inputs rule: updates.induct) (simp_all add: update_gear)

lemma updates_config [simp]: "config (updates s inputs) = config s"
  by (induction s inputs rule: updates.induct) simp_all

lemma newCar_gear:
  "2 \<le> length (gearRatios cfg) \<Longrightarrow> optManualMode opts \<noteq> Some True \<Longrightarrow> gear_in_range (newCar cfg opts)"
  by (auto simp add: gear_in_range_def newCar_def Let_def split: option.split)
text \<open>
  C10. A car constructed in automatic mode with at least two gear ratios keeps, after any
  run of ticks, a gear index between 1 and the number of ratios minus one: it is never 0
  and never -1, whatever the reverse flag is.
\<close>

theorem automatic_gearIndex_stays_forward:
  assumes "2 \<le> length (gearRatios cfg)" and "optManualMode opts \<noteq> Some True"
  shows "1 \<le> gearIndex (updates (newCar cfg opts) inputs)
       \<and> gearIndex (updates (newCar cfg opts) inputs) \<le> int (length (gearRatios cfg)) - 1
       \<and> gearIndex (updates (newCar cfg opts) inputs) \<noteq> 0
       \<and> gearIndex (updates (newCar cfg opts) inputs) \<noteq> -1"
proof -
  have "gear_in_range (updates (newCar cfg opts) inputs)"
    by (rule updates_gear[OF newCar_gear[OF assms]])
  moreover have "config (newCar cfg opts) = cfg" by (simp add: newCar_def Let_def)
  ultimately show ?thesis by (simp add: gear_in_range_def)
qed

theorem automatic_gearIndex_stays_forward_witness:
  "2 \<le> length (gearRatios defaultCarConfig) \<and> optManualMode noOptions \<noteq> Some True
   \<and> 1 \<le> gearIndex (updates (newCar defaultCarConfig noOptions) [(-1, 0, 0, 1/60), (1, 0, 0, 1/60)])
   \<and> gearIndex (updates (newCar defaultCarConfig noOptions) [(-1, 0, 0, 1/60), (1, 0, 0, 1/60)]) \<le> 6"
proof -
  have a: "2 \<le> length (gearRatios defaultCarConfig)" by (simp add: defaultCarConfig_def)
  have b: "optManualMode noOptions \<noteq> Some True" by (simp add: noOptions_def)
  have c: "int (length (gearRatios defaultCarConfig)) - 1 = 6" by (simp add: defaultCarConfig_def)
  show ?thesis
    using automatic_gearIndex_stays_forward[OF a b, of "[(-1, 0, 0, 1/60), (1, 0, 0, 1/60)]"] a b c
    by simp
qed

section \<open>C1: friction-ellipse saturation\<close>

lemma loadRatioOf_nonneg: "0 \<le> loadRatioOf fL fT cL cT"
  by (simp add: loadRatioOf_def Let_def)

lemma loadRatioOf_scale:
  assumes "0 < k"
  shows "loadRatioOf (fL * k) (fT * k) cL cT = k * loadRatioOf fL fT cL cT"
proof -
  have "\<And>f c::real. (f * k / c)\<^sup>2 = k\<^sup>2 * (f / c)\<^sup>2"
    by (simp add: power_mult_distrib power_divide)
  then have "loadRatioOf (fL * k) (fT * k) cL cT =
          sqrt (k\<^sup>2 * ((if cL > 0.000001 then (fL / (cL + 0.000001))\<^sup>2 else 0)
                       + (if cT > 0.000001 then (fT / (cT + 0.000001))\<^sup>2 else 0)))"
    by (simp add: loadRatioOf_def Let_def distrib_left)
  also have "\<dots> = k * loadRatioOf fL fT cL cT"
    using assms by (simp add: loadRatioOf_def Let_def real_sqrt_mult)
  finally show ?thesis .
qed

lemma loadRatioOf_gt_one_caps:
  assumes "1 < loadRatioOf fL fT cL cT"
  shows "cL > 0 \<or> cT > 0"
proof (rule ccontr)
  assume "\<not> (cL > 0 \<or> cT > 0)"
  then have "loadRatioOf fL fT cL cT = 0" by (simp add: loadRatioOf_def Let_def)
  with assms show False by simp
qed

lemma saturate_eq:
  "saturate fL fT cL cT =
     (if 1 < loadRatioOf fL fT cL cT
      then (fL / loadRatioOf fL fT cL cT, fT / loadRatioOf fL fT cL cT, False)
      else (fL, fT, True))"
  using loadRatioOf_gt_one_caps[of fL fT cL cT]
  by (auto simp add: saturate_def Let_def)

lemma saturate_within:
  "loadRatioOf (fst (saturate fL fT cL cT)) (fst (snd (saturate fL fT cL cT))) cL cT \<le> 1"
proof (cases "1 < loadRatioOf fL fT cL cT")
  case True
  let ?r = "loadRatioOf fL fT cL cT"
  have "loadRatioOf (fL * (1 / ?r)) (fT * (1 / ?r)) cL cT = (1 / ?r) * ?r"
    by (rule loadRatioOf_scale) (use True in simp)
  then show ?thesis using True by (simp add: saturate_eq)
next
  case False
  then show ?thesis by (simp add: saturate_eq)
qed

lemma within_guarded_ellipse:
  assumes "loadRatioOf x y cL cT \<le> 1" and "cL > 0.000001" and "cT > 0.000001"
  shows "(x / (cL + 0.000001))\<^sup>2 + (y / (cT + 0.000001))\<^sup>2 \<le> 1"
proof -
  have "sqrt ((x / (cL + 0.000001))\<^sup>2 + (y / (cT + 0.000001))\<^sup>2) \<le> 1"
    using assms by (simp add: loadRatioOf_def Let_def)
  then show ?thesis by simp
qed

lemma bare_ratio_le:
  assumes "1 \<le> (c::real)"
  shows "(x / c)\<^sup>2 \<le> (x / (c + 0.000001))\<^sup>2 * (1 + 0.000001)\<^sup>2"
proof -
  have "x / c = (x / (c + 0.000001)) * ((c + 0.000001) / c)"
    using assms by simp
  then have "(x / c)\<^sup>2 = (x / (c + 0.000001))\<^sup>2 * ((c + 0.000001) / c)\<^sup>2"
    by (metis power_mult_distrib)
  moreover have "((c + 0.000001) / c)\<^sup>2 \<le> (1 + 0.000001)\<^sup>2"
  proof (rule power_mono)
    show "(c + 0.000001) / c \<le> 1 + 0.000001" using assms by (simp add: field_simps)
    show "0 \<le> (c + 0.000001) / c" using assms by simp
  qed
  ultimately show ?thesis
    by (simp add: mult_left_mono)
qed

lemma within_bare_ellipse:
  assumes "loadRatioOf x y cL cT \<le> 1" and "1 \<le> cL" and "1 \<le> cT"
  shows "(x / cL)\<^sup>2 + (y / cT)\<^sup>2 \<le> 1 + 0.000003"
proof -
  let ?a = "(x / (cL + 0.000001))\<^sup>2" and ?b = "(y / (cT + 0.000001))\<^sup>2"
  have g: "?a + ?b \<le> 1"
    by (rule within_guarded_ellipse[OF assms(1)]) (use assms in simp_all)
  have "(x / cL)\<^sup>2 + (y / cT)\<^sup>2 \<le> ?a * (1 + 0.000001)\<^sup>2 + ?b * (1 + 0.000001)\<^sup>2"
    using bare_ratio_le[OF assms(2), of x] bare_ratio_le[OF assms(3), of y] by linarith
  also have "\<dots> = (?a + ?b) * (1 + 0.000001)\<^sup>2" by (simp add: distrib_right)
  also have "\<dots> \<le> 1 * (1 + 0.000001)\<^sup>2"
    by (rule mult_right_mono[OF g]) simp
  also have "\<dots> \<le> 1 + 0.000003" by (simp add: power2_eq_square)
  finally show ?thesis .
qed

subsection \<open>A car that brakes while it steers\<close>

lemma skiddingCar_fields:
  "config skiddingCar = defaultCarConfig"
  "velocity skiddingCar = Vector 1 0"
  "throttle skiddingCar = 0"
  "brake skiddingCar = 1"
  "heading skiddingCar = 0"
  "angularVelocity skiddingCar = 0"
  "steerAngle skiddingCar = 0.06"
  "length (tires skiddingCar) = 4"
  "longitudinalGripCoeffs skiddingCar = [1.05, 1.05, 1.1, 1.1]"
  "lateralGripCoeffs skiddingCar = [1.176, 1.176, 1.232, 1.232]"
  "brakeTorquePerWheelNm skiddingCar = [4200, 4200, 3200, 3200]"
  "lastLongitudinalAccel skiddingCar = 0"
  "lastLateralAccel skiddingCar = 0"
  by (simp_all add: skiddingCar_def defaultCar_fields)

lemma skiddingCar_wf: "car_wf skiddingCar"
  using defaultCar_wf by (simp add: car_wf_def skiddingCar_def)

lemma skiddingCar_motion:
  "dot (velocity skiddingCar) (forwardVector skiddingCar) = 1"
  "dot (velocity skiddingCar) (rightVector skiddingCar) = 0"
  "length_vec (velocity skiddingCar) = 1"
  by (simp_all add: skiddingCar_fields dot_def forwardVector_def rightVector_def Let_def
        length_vec_def hypot_def)

lemma skiddingCar_motion_unfolded:
  "dot (Vector 1 0) (forwardVector skiddingCar) = 1"
  "dot (Vector 1 0) (rightVector skiddingCar) = 0"
  "length_vec (Vector 1 0) = 1"
  using skiddingCar_motion by (simp_all add: skiddingCar_fields)

lemma skiddingCar_demand:
  "brake (demandCar (tireDemand skiddingCar 0 1 0 (1/60))) = 1"
  "throttle (demandCar (tireDemand skiddingCar 0 1 0 (1/60))) = 0"
  "steerAngle (demandCar (tireDemand skiddingCar 0 1 0 (1/60))) = 0.055"
  by (simp_all add: demandCar_tireDemand smoothBrake_def steerStep_def Let_def clamp_def
        skiddingCar_fields updatePowertrain_throttle_zero skiddingCar_motion_unfolded)

lemma skiddingCar_normal0:
  "demandNormals (tireDemand skiddingCar 0 1 0 (1/60)) ! 0
     = (7396.74 + 1.48225 * 0.055925 * 0.52) / 2"
  by (simp add: tireDemand_fields tireNormalsOf_def Let_def skiddingCar_fields computeAeroForces_def
        lateralBiasOf_def clamp_def G_def AIR_DENSITY_def skiddingCar_motion_unfolded)
     (simp add: defaultCarConfig_def)

lemma skiddingCar_normal1:
  "demandNormals (tireDemand skiddingCar 0 1 0 (1/60)) ! Suc 0
     = (7396.74 + 1.48225 * 0.055925 * 0.52) / 2"
  by (simp add: tireDemand_fields tireNormalsOf_def Let_def skiddingCar_fields computeAeroForces_def
        lateralBiasOf_def clamp_def G_def AIR_DENSITY_def skiddingCar_motion_unfolded)
     (simp add: defaultCarConfig_def)

lemma skiddingCar_long0:
  "demandLong (tireDemand skiddingCar 0 1 0 (1/60)) ! 0 = - (4200 / 0.320001)"
  by (simp add: tireDemand_fields(2) tireForcesLongOf_def Let_def skiddingCar_demand
        driveForceOf_throttle_zero brakeForcesOf_def skiddingCar_fields sign_def
        skiddingCar_motion_unfolded)
     (simp add: defaultCarConfig_def)

lemma skiddingCar_lat0: "demandLat (tireDemand skiddingCar 0 1 0 (1/60)) ! 0 = 2200"
  unfolding tireDemand_fields(3) skiddingCar_motion
  by (simp add: tireForcesLatOf_def slipAngles_def Let_def atan2_def sign_def clamp_def
        lateralBiasOf_def skiddingCar_demand skiddingCar_fields skiddingCar_normal0
        skiddingCar_normal1)

lemma skiddingCar_bonus:
  "demandBonus (tireDemand skiddingCar 0 1 0 (1/60)) = cos 0.055 * 0.8 + 0.55"
proof -
  have p: "2 \<le> pi" by (rule pi_ge_two)
  have "0 \<le> cos (0.055::real)" by (rule cos_ge_zero) (use p in simp_all)
  moreover have "cos (0.055::real) \<le> 1" by simp
  ultimately have c: "clamp (cos 0.055) 0 1 = cos 0.055" by (simp add: clamp_def)
  show ?thesis
    unfolding tireDemand_fields(4) skiddingCar_motion
    by (simp add: frontGripBonusOf_def Let_def skiddingCar_fields skiddingCar_demand dot_def)
       (use c in \<open>simp add: clamp_def\<close>)
qed

lemma loadRatioOf_ge_long:
  assumes "0.000001 < cL"
  shows "\<bar>fL\<bar> / (cL + 0.000001) \<le> loadRatioOf fL fT cL cT"
proof -
  have p: "0 < cL + 0.000001" using assms by simp
  have "\<bar>fL\<bar> / (cL + 0.000001) = sqrt ((fL / (cL + 0.000001))\<^sup>2)"
    using p by simp
  also have "\<dots> \<le> sqrt ((fL / (cL + 0.000001))\<^sup>2
                         + (if cT > 0.000001 then (fT / (cT + 0.000001))\<^sup>2 else 0))"
    by (rule real_sqrt_le_mono) simp
  also have "\<dots> = loadRatioOf fL fT cL cT"
    using assms by (simp add: loadRatioOf_def Let_def)
  finally show ?thesis .
qed

lemma skiddingCar_caps:
  "longitudinalCapOf (demandCar (tireDemand skiddingCar 0 1 0 (1/60)))
     (demandNormals (tireDemand skiddingCar 0 1 0 (1/60))) 0
   = 1.05 * ((7396.74 + 1.48225 * 0.055925 * 0.52) / 2)"
  "lateralCapOf (demandCar (tireDemand skiddingCar 0 1 0 (1/60)))
     (demandNormals (tireDemand skiddingCar 0 1 0 (1/60)))
     (demandBonus (tireDemand skiddingCar 0 1 0 (1/60))) 0
   = 1.176 * ((7396.74 + 1.48225 * 0.055925 * 0.52) / 2) * (1 + (cos 0.055 * 0.8 + 0.55))"
proof -
  have p: "2 \<le> pi" by (rule pi_ge_two)
  have c: "0 \<le> cos (0.055::real)" by (rule cos_ge_zero) (use p in simp_all)
  show "longitudinalCapOf (demandCar (tireDemand skiddingCar 0 1 0 (1/60)))
     (demandNormals (tireDemand skiddingCar 0 1 0 (1/60))) 0
   = 1.05 * ((7396.74 + 1.48225 * 0.055925 * 0.52) / 2)"
    by (simp add: longitudinalCapOf_def skiddingCar_normal0 skiddingCar_fields)
  show "lateralCapOf (demandCar (tireDemand skiddingCar 0 1 0 (1/60)))
     (demandNormals (tireDemand skiddingCar 0 1 0 (1/60)))
     (demandBonus (tireDemand skiddingCar 0 1 0 (1/60))) 0
   = 1.176 * ((7396.74 + 1.48225 * 0.055925 * 0.52) / 2) * (1 + (cos 0.055 * 0.8 + 0.55))"
    using c
    by (simp add: lateralCapOf_def Let_def skiddingCar_normal0 skiddingCar_bonus skiddingCar_fields
          max_def)
qed

lemma skiddingCar_caps_large:
  "1 \<le> longitudinalCapOf (demandCar (tireDemand skiddingCar 0 1 0 (1/60)))
          (demandNormals (tireDemand skiddingCar 0 1 0 (1/60))) 0"
  "1 \<le> lateralCapOf (demandCar (tireDemand skiddingCar 0 1 0 (1/60)))
          (demandNormals (tireDemand skiddingCar 0 1 0 (1/60)))
          (demandBonus (tireDemand skiddingCar 0 1 0 (1/60))) 0"
proof -
  have p: "2 \<le> pi" by (rule pi_ge_two)
  have c: "0 \<le> cos (0.055::real)" by (rule cos_ge_zero) (use p in simp_all)
  show "1 \<le> longitudinalCapOf (demandCar (tireDemand skiddingCar 0 1 0 (1/60)))
          (demandNormals (tireDemand skiddingCar 0 1 0 (1/60))) 0"
    unfolding skiddingCar_caps by simp
  have "(1::real) \<le> 1.176 * ((7396.74 + 1.48225 * 0.055925 * 0.52) / 2) * 1" by simp
  also have "\<dots> \<le> 1.176 * ((7396.74 + 1.48225 * 0.055925 * 0.52) / 2)
                       * (1 + (cos 0.055 * 0.8 + 0.55))"
    by (rule mult_left_mono) (use c in simp_all)
  finally show "1 \<le> lateralCapOf (demandCar (tireDemand skiddingCar 0 1 0 (1/60)))
          (demandNormals (tireDemand skiddingCar 0 1 0 (1/60)))
          (demandBonus (tireDemand skiddingCar 0 1 0 (1/60))) 0"
    unfolding skiddingCar_caps .
qed

lemma skiddingCar_ratio:
  "1 < loadRatioOf (demandLong (tireDemand skiddingCar 0 1 0 (1/60)) ! 0)
         (demandLat (tireDemand skiddingCar 0 1 0 (1/60)) ! 0)
         (longitudinalCapOf (demandCar (tireDemand skiddingCar 0 1 0 (1/60)))
            (demandNormals (tireDemand skiddingCar 0 1 0 (1/60))) 0)
         (lateralCapOf (demandCar (tireDemand skiddingCar 0 1 0 (1/60)))
            (demandNormals (tireDemand skiddingCar 0 1 0 (1/60)))
            (demandBonus (tireDemand skiddingCar 0 1 0 (1/60))) 0)"
proof -
  let ?d = "tireDemand skiddingCar 0 1 0 (1/60)"
  let ?capL = "longitudinalCapOf (demandCar ?d) (demandNormals ?d) 0"
  have e: "(0.000001::real) < 1" by simp
  have g: "0.000001 < ?capL" by (rule less_le_trans[OF e skiddingCar_caps_large(1)])
  have "1 < \<bar>demandLong ?d ! 0\<bar> / (?capL + 0.000001)"
    unfolding skiddingCar_caps(1) skiddingCar_long0 by simp
  also have "\<dots> \<le> loadRatioOf (demandLong ?d ! 0) (demandLat ?d ! 0) ?capL
                       (lateralCapOf (demandCar ?d) (demandNormals ?d) (demandBonus ?d) 0)"
    by (rule loadRatioOf_ge_long[OF g])
  finally show ?thesis .
qed

text \<open>
  C1 (amended). After the wheel loop of a tick of a well-formed car, each of the four tires
  carries the normal load of the tick and the demanded force pair scaled by one common
  factor: both components are divided by the load ratio when that exceeds 1 and are left
  alone otherwise. For a wheel whose two caps exceed 0.000001 N, the squares of
  Flong / (FlongMax + 0.000001) and of Flat / (FlatMax + 0.000001) sum to at most 1 after
  saturation; once both caps are at least 1 N, the squares of Flong / FlongMax and of
  Flat / FlatMax sum to at most 1.000003.
\<close>

theorem friction_ellipse_after_saturation:
  assumes "car_wf s" and "i < 4"
  shows "let d = tireDemand s throttleInput brakeInput steerInput dt;
             tire = tires (update s throttleInput brakeInput steerInput dt) ! i;
             capL = longitudinalCapOf (demandCar d) (demandNormals d) i;
             capT = lateralCapOf (demandCar d) (demandNormals d) (demandBonus d) i;
             ratio = loadRatioOf (demandLong d ! i) (demandLat d ! i) capL capT
         in normalLoad tire = demandNormals d ! i
          \<and> capL = max 0 (longitudinalGripCoeffs s ! i * normalLoad tire)
          \<and> capT = max 0 (lateralGripCoeffs s ! i * normalLoad tire)
                     * (if i < 2 then 1 + max 0 (demandBonus d) else 1)
          \<and> combinedForce tire =
               (if 1 < ratio then Vector (demandLong d ! i / ratio) (demandLat d ! i / ratio)
                else Vector (demandLong d ! i) (demandLat d ! i))
          \<and> (0.000001 < capL \<and> 0.000001 < capT \<longrightarrow>
               (vec_x (combinedForce tire) / (capL + 0.000001))\<^sup>2
                 + (vec_y (combinedForce tire) / (capT + 0.000001))\<^sup>2 \<le> 1)
          \<and> (1 \<le> capL \<and> 1 \<le> capT \<longrightarrow>
               (vec_x (combinedForce tire) / capL)\<^sup>2
                 + (vec_y (combinedForce tire) / capT)\<^sup>2 \<le> 1 + 0.000003)"
proof -
  define d where "d = tireDemand s throttleInput brakeInput steerInput dt"
  define tire where "tire = tires (update s throttleInput brakeInput steerInput dt) ! i"
  define capL where "capL = longitudinalCapOf (demandCar d) (demandNormals d) i"
  define capT where "capT = lateralCapOf (demandCar d) (demandNormals d) (demandBonus d) i"
  define ratio where "ratio = loadRatioOf (demandLong d ! i) (demandLat d ! i) capL capT"
  define sat where "sat = saturate (demandLong d ! i) (demandLat d ! i) capL capT"
  have len: "length (tires (demandCar d)) = 4"
    using assms(1) by (simp add: car_wf_def d_def)
  have tire_eq: "tire = (tires (demandCar d) ! i)\<lparr>hasTraction := snd (snd sat),
                          normalLoad := demandNormals d ! i,
                          combinedForce := Vector (fst sat) (fst (snd sat))\<rparr>"
    unfolding tire_def update_tires d_def[symmetric] sat_def capL_def capT_def
    by (rule tireLoop_tire[OF len assms(2)])
  have n: "normalLoad tire = demandNormals d ! i" by (simp add: tire_eq)
  have f: "combinedForce tire = Vector (fst sat) (fst (snd sat))" by (simp add: tire_eq)
  have cl: "capL = max 0 (longitudinalGripCoeffs s ! i * normalLoad tire)"
    by (simp add: capL_def longitudinalCapOf_def n d_def)
  have ct: "capT = max 0 (lateralGripCoeffs s ! i * normalLoad tire)
                     * (if i < 2 then 1 + max 0 (demandBonus d) else 1)"
    by (simp add: capT_def lateralCapOf_def Let_def n d_def)
  have sc: "combinedForce tire =
               (if 1 < ratio then Vector (demandLong d ! i / ratio) (demandLat d ! i / ratio)
                else Vector (demandLong d ! i) (demandLat d ! i))"
    by (simp add: f sat_def saturate_eq ratio_def)
  have w: "loadRatioOf (vec_x (combinedForce tire)) (vec_y (combinedForce tire)) capL capT \<le> 1"
    unfolding f sat_def using saturate_within[of "demandLong d ! i" "demandLat d ! i" capL capT]
    by simp
  have g: "0.000001 < capL \<and> 0.000001 < capT \<longrightarrow>
               (vec_x (combinedForce tire) / (capL + 0.000001))\<^sup>2
                 + (vec_y (combinedForce tire) / (capT + 0.000001))\<^sup>2 \<le> 1"
    using within_guarded_ellipse[OF w] by blast
  have h: "1 \<le> capL \<and> 1 \<le> capT \<longrightarrow>
               (vec_x (combinedForce tire) / capL)\<^sup>2
                 + (vec_y (combinedForce tire) / capT)\<^sup>2 \<le> 1 + 0.000003"
    using within_bare_ellipse[OF w] by blast
  show ?thesis
    using n cl ct sc g h
    unfolding Let_def d_def[symmetric] tire_def[symmetric] capL_def[symmetric]
      capT_def[symmetric] ratio_def[symmetric]
    by blast
qed

text \<open>
  The witness: the front-left wheel of the default car rolling at 1 m/s, steered by 0.06 rad
  and under full braking. The wheel is asked for a brake force of 4200 / 0.320001 N and a
  lateral force of 2200 N; the brake force alone exceeds the longitudinal cap, so the load
  ratio is above 1 and both components are divided by it.
\<close>

theorem friction_ellipse_after_saturation_witness:
  "car_wf skiddingCar \<and> (0::nat) < 4 \<and>
   (let d = tireDemand skiddingCar 0 1 0 (1/60);
        tire = tires (update skiddingCar 0 1 0 (1/60)) ! 0;
        capL = longitudinalCapOf (demandCar d) (demandNormals d) 0;
        capT = lateralCapOf (demandCar d) (demandNormals d) (demandBonus d) 0;
        ratio = loadRatioOf (demandLong d ! 0) (demandLat d ! 0) capL capT
    in demandLong d ! 0 = - (4200 / 0.320001) \<and> demandLat d ! 0 = 2200
       \<and> 1 \<le> capL \<and> 1 \<le> capT \<and> 1 < ratio
       \<and> combinedForce tire = Vector (- (4200 / 0.320001) / ratio) (2200 / ratio)
       \<and> (vec_x (combinedForce tire) / (capL + 0.000001))\<^sup>2
            + (vec_y (combinedForce tire) / (capT + 0.000001))\<^sup>2 \<le> 1
       \<and> (vec_x (combinedForce tire) / capL)\<^sup>2
            + (vec_y (combinedForce tire) / capT)\<^sup>2 \<le> 1 + 0.000003)"
proof -
  let ?d = "tireDemand skiddingCar 0 1 0 (1/60)"
  let ?tire = "tires (update skiddingCar 0 1 0 (1/60)) ! 0"
  let ?capL = "longitudinalCapOf (demandCar ?d) (demandNormals ?d) 0"
  let ?capT = "lateralCapOf (demandCar ?d) (demandNormals ?d) (demandBonus ?d) 0"
  let ?ratio = "loadRatioOf (demandLong ?d ! 0) (demandLat ?d ! 0) ?capL ?capT"
  have i: "(0::nat) < 4" by simp
  note h = friction_ellipse_after_saturation[OF skiddingCar_wf i, of 0 1 0 "1/60", unfolded Let_def]
  have r: "1 < ?ratio" by (rule skiddingCar_ratio)
  have e: "(0.000001::real) < 1" by simp
  have c1: "0.000001 < ?capL \<and> 0.000001 < ?capT"
    using less_le_trans[OF e skiddingCar_caps_large(1)] less_le_trans[OF e skiddingCar_caps_large(2)]
    by blast
  have c2: "1 \<le> ?capL \<and> 1 \<le> ?capT"
    using skiddingCar_caps_large by blast
  have f: "combinedForce ?tire = Vector (demandLong ?d ! 0 / ?ratio) (demandLat ?d ! 0 / ?ratio)"
    using h r by simp
  have f2: "combinedForce ?tire = Vector (- (4200 / 0.320001) / ?ratio) (2200 / ?ratio)"
    using f by (simp only: skiddingCar_long0[symmetric] skiddingCar_lat0[symmetric])
  have g: "(vec_x (combinedForce ?tire) / (?capL + 0.000001))\<^sup>2
            + (vec_y (combinedForce ?tire) / (?capT + 0.000001))\<^sup>2 \<le> 1"
    using h c1 by blast
  have b: "(vec_x (combinedForce ?tire) / ?capL)\<^sup>2
            + (vec_y (combinedForce ?tire) / ?capT)\<^sup>2 \<le> 1 + 0.000003"
    using h c2 by blast
  show ?thesis
    unfolding Let_def
    using skiddingCar_wf i skiddingCar_long0 skiddingCar_lat0 c2 r f2 g b by blast
qed

subsection \<open>A wheel without load\<close>

lemma liftedCar_fields:
  "config liftedCar = defaultCarConfig"
  "velocity liftedCar = Vector 0 0"
  "throttle liftedCar = 0"
  "brake liftedCar = 0"
  "length (tires liftedCar) = 4"
  "longitudinalGripCoeffs liftedCar = [1.05, 1.05, 1.1, 1.1]"
  "lateralGripCoeffs liftedCar = [1.176, 1.176, 1.232, 1.232]"
  "brakeTorquePerWheelNm liftedCar = [4200, 4200, 3200, 3200]"
  "lastLongitudinalAccel liftedCar = 30"
  "lastLateralAccel liftedCar = 0"
  by (simp_all add: liftedCar_def defaultCar_fields)

lemma liftedCar_wf: "car_wf liftedCar"
  using defaultCar_wf by (simp add: car_wf_def liftedCar_def)

lemma liftedCar_demand:
  "brake (demandCar (tireDemand liftedCar 0 1 0 (1/60))) = 1/10"
  "throttle (demandCar (tireDemand liftedCar 0 1 0 (1/60))) = 0"
  by (simp_all add: demandCar_tireDemand smoothBrake_def Let_def clamp_def liftedCar_fields
        updatePowertrain_throttle_zero)

lemma liftedCar_normal0: "demandNormals (tireDemand liftedCar 0 1 0 (1/60)) ! 0 = 0"
  by (simp add: tireDemand_fields tireNormalsOf_def Let_def liftedCar_fields computeAeroForces_def
        lateralBiasOf_def clamp_def G_def)
     (simp add: defaultCarConfig_def)

lemma liftedCar_long0:
  "demandLong (tireDemand liftedCar 0 1 0 (1/60)) ! 0 = - (420 / 0.320001)"
  by (simp add: tireDemand_fields(2) tireForcesLongOf_def Let_def liftedCar_demand
        driveForceOf_throttle_zero brakeForcesOf_def liftedCar_fields sign_def)
     (simp add: defaultCarConfig_def)

lemma liftedCar_lat0: "demandLat (tireDemand liftedCar 0 1 0 (1/60)) ! 0 = 0"
proof -
  let ?d = "tireDemand liftedCar 0 1 0 (1/60)"
  have n: "\<And>i. i < 4 \<Longrightarrow> 0 \<le> demandNormals ?d ! i"
    by (simp add: tireDemand_fields(1) tireNormalsOf_nonneg)
  have "tireForcesLatOf (demandCar ?d) (demandNormals ?d) 0 0 0 = [0, 0, 0, 0]"
    by (rule tireForcesLatOf_slow) (simp_all add: liftedCar_fields n)
  then show ?thesis by (simp add: tireDemand_fields(3) liftedCar_fields)
qed
text \<open>
  C1 as stated fails on a wheel that carries no load. The default car at rest, whose last
  longitudinal acceleration is 30 m/s/s, has its front axle unloaded; with the brake
  pressed for one tick of 1/60 s the front-left tire keeps its whole brake force of
  420 / 0.320001 N although its caps are zero, so the force is outside the ellipse for
  every tolerance; the statement takes the tolerance 1.
\<close>

theorem unloaded_wheel_counterexample:
  "\<not> friction_ellipse_as_claimed 1 liftedCar 0 1 0 (1/60) 0"
proof -
  let ?d = "tireDemand liftedCar 0 1 0 (1/60)"
  let ?tire = "tires (update liftedCar 0 1 0 (1/60)) ! 0"
  have len: "length (tires (demandCar ?d)) = 4" by (simp add: liftedCar_fields)
  have capL: "longitudinalCapOf (demandCar ?d) (demandNormals ?d) 0 = 0"
    by (simp add: longitudinalCapOf_def liftedCar_normal0)
  have capT: "lateralCapOf (demandCar ?d) (demandNormals ?d) (demandBonus ?d) 0 = 0"
    by (simp add: lateralCapOf_def Let_def liftedCar_normal0)
  have sat: "\<And>fL fT. saturate fL fT 0 0 = (fL, fT, True)"
    by (simp add: saturate_def loadRatioOf_def Let_def)
  have t: "?tire = (tires (demandCar ?d) ! 0)\<lparr>hasTraction := True, normalLoad := 0,
                       combinedForce := Vector (- (420 / 0.320001)) 0\<rparr>"
    unfolding update_tires
    using tireLoop_tire[OF len, of 0 "demandNormals ?d" "demandLong ?d" "demandLat ?d" "demandBonus ?d"]
    by (simp add: capL capT liftedCar_long0 liftedCar_lat0 liftedCar_normal0 sat)
  have "normalLoad ?tire = 0" and "combinedForce ?tire = Vector (- (420 / 0.320001)) 0"
    by (simp_all add: t)
  then show ?thesis
    by (simp add: friction_ellipse_as_claimed_def Let_def ratio_sq_def)
qed

section \<open>C8: the heading after a tick\<close>

lemma js_rem_nonneg:
  assumes "0 \<le> a" and "0 < b"
  shows "0 \<le> js_rem a b \<and> js_rem a b < b"
proof -
  have q: "0 \<le> a / b" using assms by simp
  have lo: "of_int \<lfloor>a / b\<rfloor> * b \<le> a" by (rule floor_divide_lower[OF assms(2)])
  have hi: "a < (of_int \<lfloor>a / b\<rfloor> + 1) * b" by (rule floor_divide_upper[OF assms(2)])
  have "js_rem a b = a - b * of_int \<lfloor>a / b\<rfloor>" using q by (simp add: js_rem_def js_trunc_def)
  then show ?thesis using lo hi by (simp add: algebra_simps)
qed

lemma js_rem_negative:
  assumes "a < 0" and "0 < b"
  shows "- b < js_rem a b \<and> js_rem a b \<le> 0"
proof -
  have "a / b < 0" using assms by (rule divide_neg_pos)
  then have q: "\<not> 0 \<le> a / b" by simp
  have lo: "a / b \<le> of_int \<lceil>a / b\<rceil>" by (rule le_of_int_ceiling)
  have hi: "of_int \<lceil>a / b\<rceil> < a / b + 1" using ceiling_correct[of "a / b"] by linarith
  have l2: "a \<le> b * of_int \<lceil>a / b\<rceil>"
    using lo unfolding pos_divide_le_eq[OF assms(2)] by (simp only: mult.commute)
  have "of_int \<lceil>a / b\<rceil> * b < (a / b + 1) * b"
    using hi assms(2) by (rule mult_strict_right_mono)
  then have h2: "b * of_int \<lceil>a / b\<rceil> < a + b"
    using assms(2) by (simp add: algebra_simps)
  have "js_rem a b = a - b * of_int \<lceil>a / b\<rceil>" using q by (simp add: js_rem_def js_trunc_def)
  then show ?thesis using l2 h2 by simp
qed

lemma js_rem_small_negative:
  assumes "- b < a" and "a < 0"
  shows "js_rem a b = a"
proof -
  have b: "0 < b" using assms by linarith
  have n: "a / b < 0" using assms(2) b by (rule divide_neg_pos)
  then have q: "\<not> 0 \<le> a / b" by simp
  have m: "- 1 < a / b" using assms b by (simp add: field_simps)
  have "\<lceil>a / b\<rceil> = 0" using n m by (simp add: ceiling_eq_iff)
  then show ?thesis using q by (simp add: js_rem_def js_trunc_def)
qed

lemma integrate_heading:
  "heading (integrate s0 dt d) =
     js_rem (heading (demandCar d) + angularVelocity (integrate s0 dt d) * dt + pi) (2 * pi) - pi"
  by (simp add: integrate_def Let_def split: prod.split)

lemma update_heading:
  "heading (update s a b c dt) =
     js_rem (heading s + angularVelocity (integrate s dt (tireDemand s a b c dt)) * dt + pi) (2 * pi) - pi"
  by (simp add: update_def integrate_heading)

lemma integrate_angularVelocity:
  "angularVelocity (integrate s0 dt d) =
     angularVelocity (demandCar d)
       + snd (snd (snd (tireLoop (demandCar d) (demandNormals d) (demandLong d) (demandLat d)
                          (demandBonus d)))) / (inertia (demandCar d) + 0.000001) * dt"
  by (simp add: integrate_def Let_def split: prod.split)

text \<open>A tick with no throttle, no brake and a speed of at most 0.5 m/s demands no tire force.\<close>

lemma idle_tick_demand:
  assumes "throttle s = 0" and "brake s = 0" and "4 \<le> length (brakeTorquePerWheelNm s)"
    and "\<bar>dot (velocity s) (forwardVector s)\<bar> \<le> 0.5" and "length_vec (velocity s) \<le> 0.5"
    and "0 \<le> lateralGripCoeffs s ! 0 \<and> 0 \<le> lateralGripCoeffs s ! 1
         \<and> 0 \<le> lateralGripCoeffs s ! 2 \<and> 0 \<le> lateralGripCoeffs s ! 3"
  shows "demandLong (tireDemand s 0 0 c dt) = [0, 0, 0, 0]"
    and "demandLat (tireDemand s 0 0 c dt) = [0, 0, 0, 0]"
proof -
  let ?d = "tireDemand s 0 0 c dt"
  have t: "throttle (demandCar ?d) = 0"
    by (simp add: demandCar_tireDemand updatePowertrain_throttle_zero assms(1))
  have b: "brake (demandCar ?d) = 0"
    by (simp add: demandCar_tireDemand smoothBrake_def Let_def clamp_def assms(2))
  show "demandLong ?d = [0, 0, 0, 0]"
    unfolding tireDemand_fields(2) driveForceOf_throttle_zero[OF t]
    by (rule tireForcesLongOf_idle) (simp_all add: assms(3) b)
  have n: "\<And>i. i < 4 \<Longrightarrow> 0 \<le> demandNormals ?d ! i"
    by (simp add: tireDemand_fields(1) tireNormalsOf_nonneg)
  show "demandLat ?d = [0, 0, 0, 0]"
    unfolding tireDemand_fields(3)
  proof (rule tireForcesLatOf_slow)
    show "\<bar>dot (velocity s) (forwardVector s)\<bar> \<le> 0.5" by (rule assms(4))
    show "length_vec (velocity s) \<le> 0.5" by (rule assms(5))
    show "0 \<le> lateralGripCoeffs (demandCar ?d) ! 0 * demandNormals ?d ! 0
               + lateralGripCoeffs (demandCar ?d) ! 1 * demandNormals ?d ! 1"
      using assms(6) n[of 0] n[of 1] by simp
    show "0 \<le> lateralGripCoeffs (demandCar ?d) ! 2 * demandNormals ?d ! 2
               + lateralGripCoeffs (demandCar ?d) ! 3 * demandNormals ?d ! 3"
      using assms(6) n[of 2] n[of 3] by simp
  qed
qed

lemma turnedCar_fields:
  "velocity turnedCar = Vector 0 0"
  "heading turnedCar = - pi"
  "angularVelocity turnedCar = 0"
  "throttle turnedCar = 0"
  "brake turnedCar = 0"
  "length (tires turnedCar) = 4"
  "lateralGripCoeffs turnedCar = [1.176, 1.176, 1.232, 1.232]"
  "brakeTorquePerWheelNm turnedCar = [4200, 4200, 3200, 3200]"
  by (simp_all add: turnedCar_def newCar_def Let_def noOptions_def defaultCarConfig_def
        createVector_def lateralGripsOf_def)

lemma js_rem_zero [simp]: "js_rem 0 b = 0"
  by (simp add: js_rem_def js_trunc_def)

lemma spinningCar_fields:
  "velocity spinningCar = Vector 0 0"
  "heading spinningCar = 1/100 - pi"
  "angularVelocity spinningCar = - (6/5)"
  "throttle spinningCar = 0"
  "brake spinningCar = 0"
  "length (tires spinningCar) = 4"
  "lateralGripCoeffs spinningCar = [1.176, 1.176, 1.232, 1.232]"
  "brakeTorquePerWheelNm spinningCar = [4200, 4200, 3200, 3200]"
  by (simp_all add: spinningCar_def defaultCar_fields)

lemma spinningCar_yaw:
  "angularVelocity (integrate spinningCar (1/60) (tireDemand spinningCar 0 0 0 (1/60))) = - (6/5)"
proof -
  let ?d = "tireDemand spinningCar 0 0 0 (1/60)"
  have g: "0 \<le> lateralGripCoeffs spinningCar ! 0 \<and> 0 \<le> lateralGripCoeffs spinningCar ! 1
         \<and> 0 \<le> lateralGripCoeffs spinningCar ! 2 \<and> 0 \<le> lateralGripCoeffs spinningCar ! 3"
    by (simp add: spinningCar_fields)
  have v: "\<bar>dot (velocity spinningCar) (forwardVector spinningCar)\<bar> \<le> 0.5"
    "length_vec (velocity spinningCar) \<le> 0.5"
    "throttle spinningCar = 0" "brake spinningCar = 0"
    "4 \<le> length (brakeTorquePerWheelNm spinningCar)"
    by (simp_all add: spinningCar_fields)
  have z: "demandLong ?d = [0, 0, 0, 0]" "demandLat ?d = [0, 0, 0, 0]"
    by (rule idle_tick_demand[OF v(3) v(4) v(5) v(1) v(2) g])+
  have "snd (tireLoop (demandCar ?d) (demandNormals ?d) (demandLong ?d) (demandLat ?d)
               (demandBonus ?d)) = (0, 0, 0)"
    by (rule tireLoop_zero_totals) (simp_all add: spinningCar_fields z)
  then show ?thesis
    by (simp add: integrate_angularVelocity spinningCar_fields)
qed

text \<open>
  When the integrated heading (the old heading plus the new yaw rate times dt) is at least
  \<open>- pi\<close>, the remainder is taken of a non-negative number and the heading after the tick
  lies in the interval from \<open>- pi\<close> (included) to \<open>pi\<close> (excluded). The lower end is
  attained: the default car at rest and headed at \<open>- pi\<close> is still headed at \<open>- pi\<close>
  after an idle tick.
\<close>

lemma heading_in_range_from_above:
  assumes "- pi \<le> heading s
            + angularVelocity (integrate s dt (tireDemand s throttleInput brakeInput steerInput dt)) * dt"
  shows "- pi \<le> heading (update s throttleInput brakeInput steerInput dt)
       \<and> heading (update s throttleInput brakeInput steerInput dt) < pi"
proof -
  let ?h = "heading s
            + angularVelocity (integrate s dt (tireDemand s throttleInput brakeInput steerInput dt)) * dt"
  have "0 \<le> js_rem (?h + pi) (2 * pi) \<and> js_rem (?h + pi) (2 * pi) < 2 * pi"
    by (rule js_rem_nonneg) (use assms in simp_all)
  then show ?thesis by (simp add: update_heading)
qed

lemma heading_lower_end_attained:
  "heading (update turnedCar 0 0 0 (1/60)) = - pi"
proof -
  let ?d = "tireDemand turnedCar 0 0 0 (1/60)"
  have g: "0 \<le> lateralGripCoeffs turnedCar ! 0 \<and> 0 \<le> lateralGripCoeffs turnedCar ! 1
         \<and> 0 \<le> lateralGripCoeffs turnedCar ! 2 \<and> 0 \<le> lateralGripCoeffs turnedCar ! 3"
    by (simp add: turnedCar_fields)
  have v: "\<bar>dot (velocity turnedCar) (forwardVector turnedCar)\<bar> \<le> 0.5" "length_vec (velocity turnedCar) \<le> 0.5"
    "throttle turnedCar = 0" "brake turnedCar = 0" "4 \<le> length (brakeTorquePerWheelNm turnedCar)"
    by (simp_all add: turnedCar_fields)
  have z: "demandLong ?d = [0, 0, 0, 0]" "demandLat ?d = [0, 0, 0, 0]"
    by (rule idle_tick_demand[OF v(3) v(4) v(5) v(1) v(2) g])+
  have "snd (tireLoop (demandCar ?d) (demandNormals ?d) (demandLong ?d) (demandLat ?d)
               (demandBonus ?d)) = (0, 0, 0)"
    by (rule tireLoop_zero_totals) (simp_all add: turnedCar_fields z)
  then have "angularVelocity (integrate turnedCar (1/60) ?d) = 0"
    by (simp add: integrate_angularVelocity turnedCar_fields)
  then show ?thesis
    by (simp add: update_heading turnedCar_fields)
qed

text \<open>
  C8 (code bug). The line that normalises the heading takes the remainder of the integrated
  heading plus \<open>pi\<close> by \<open>2 pi\<close>, and the remainder of JavaScript keeps the sign of its
  dividend. Whenever the integrated heading (the old heading plus the new yaw rate times
  dt) is below \<open>- pi\<close>, the heading after the tick is at most \<open>- pi\<close> and above
  \<open>- 3 pi\<close>, hence outside the interval from \<open>- pi\<close> (excluded) to \<open>pi\<close> (included)
  that C8 claims; an integrated heading between \<open>- 3 pi\<close> and \<open>- pi\<close> is returned
  as it is, not wrapped.
\<close>

theorem heading_not_wrapped_below:
  assumes "heading s
            + angularVelocity (integrate s dt (tireDemand s throttleInput brakeInput steerInput dt)) * dt
              < - pi"
  shows "heading (update s throttleInput brakeInput steerInput dt) \<le> - pi
       \<and> - 3 * pi < heading (update s throttleInput brakeInput steerInput dt)
       \<and> \<not> heading_as_claimed (update s throttleInput brakeInput steerInput dt)
       \<and> (- 3 * pi < heading s
            + angularVelocity (integrate s dt (tireDemand s throttleInput brakeInput steerInput dt)) * dt
          \<longrightarrow> heading (update s throttleInput brakeInput steerInput dt)
                = heading s
                    + angularVelocity (integrate s dt (tireDemand s throttleInput brakeInput steerInput dt)) * dt)"
proof -
  let ?h = "heading s
            + angularVelocity (integrate s dt (tireDemand s throttleInput brakeInput steerInput dt)) * dt"
  have r: "- (2 * pi) < js_rem (?h + pi) (2 * pi) \<and> js_rem (?h + pi) (2 * pi) \<le> 0"
    by (rule js_rem_negative) (use assms in simp_all)
  have e: "- 3 * pi < ?h \<longrightarrow> js_rem (?h + pi) (2 * pi) = ?h + pi"
    using js_rem_small_negative[of "2 * pi" "?h + pi"] assms by simp
  show ?thesis using r e by (simp add: update_heading heading_as_claimed_def)
qed

text \<open>
  C8 as stated fails for a car that yaws clockwise across \<open>- pi\<close>: the default car at
  rest, headed at \<open>0.01 - pi\<close> (inside the claimed interval) and yawing at -1.2 rad/s, is
  headed at \<open>- pi - 0.01\<close> after an idle tick of 1/60 s.
\<close>

theorem heading_below_range_counterexample:
  "heading_as_claimed spinningCar
   \<and> heading (update spinningCar 0 0 0 (1/60)) = - pi - 1/100
   \<and> \<not> heading_as_claimed (update spinningCar 0 0 0 (1/60))"
proof -
  have p: "2 \<le> pi" by (rule pi_ge_two)
  have a: "heading_as_claimed spinningCar"
    using p by (simp add: heading_as_claimed_def spinningCar_fields)
  have h: "heading spinningCar
             + angularVelocity (integrate spinningCar (1/60) (tireDemand spinningCar 0 0 0 (1/60)))
                 * (1/60) = - pi - 1/100"
    by (simp add: spinningCar_yaw spinningCar_fields)
  have "js_rem (- pi - 1/100 + pi) (2 * pi) = - pi - 1/100 + pi"
    by (rule js_rem_small_negative) (use p in simp_all)
  then have u: "heading (update spinningCar 0 0 0 (1/60)) = - pi - 1/100"
    unfolding update_heading h by simp
  show ?thesis using a u by (simp add: heading_as_claimed_def)
qed

theorem heading_not_wrapped_below_witness:
  "heading spinningCar
     + angularVelocity (integrate spinningCar (1/60) (tireDemand spinningCar 0 0 0 (1/60))) * (1/60)
       < - pi
   \<and> - 3 * pi < heading spinningCar
     + angularVelocity (integrate spinningCar (1/60) (tireDemand spinningCar 0 0 0 (1/60))) * (1/60)
   \<and> heading (update spinningCar 0 0 0 (1/60))
       = heading spinningCar
         + angularVelocity (integrate spinningCar (1/60) (tireDemand spinningCar 0 0 0 (1/60))) * (1/60)
   \<and> heading (update spinningCar 0 0 0 (1/60)) \<le> - pi
   \<and> \<not> heading_as_claimed (update spinningCar 0 0 0 (1/60))"
proof -
  have p: "2 \<le> pi" by (rule pi_ge_two)
  have h: "heading spinningCar
             + angularVelocity (integrate spinningCar (1/60) (tireDemand spinningCar 0 0 0 (1/60)))
                 * (1/60) = - pi - 1/100"
    by (simp add: spinningCar_yaw spinningCar_fields)
  have lt: "heading spinningCar
     + angularVelocity (integrate spinningCar (1/60) (tireDemand spinningCar 0 0 0 (1/60))) * (1/60)
       < - pi" unfolding h by simp
  have gt: "- 3 * pi < heading spinningCar
     + angularVelocity (integrate spinningCar (1/60) (tireDemand spinningCar 0 0 0 (1/60))) * (1/60)"
    unfolding h using p by simp
  show ?thesis
    using heading_not_wrapped_below[OF lt] lt gt by blast
qed

section \<open>C9: the low-speed settle\<close>

lemma update_levels:
  "throttle (update s a b c dt) = throttle (demandCar (tireDemand s a b c dt))"
  "brake (update s a b c dt) = brake (demandCar (tireDemand s a b c dt))"
  by (simp_all add: update_def)
text \<open>
  C9 (amended). In a tick of a well-formed car that starts at a speed under 0.2 m/s and
  leaves the smoothed throttle under 0.05 in magnitude and the smoothed brake above 0.1,
  the integrated velocity is halved; when the halved speed is under 0.05 m/s the velocity
  becomes exactly (0, 0) and the yaw rate exactly 0, and otherwise the yaw rate is kept.
\<close>

theorem low_speed_settle:
  assumes "car_wf s"
    and "length_vec (velocity s) < 0.2"
    and "\<bar>throttle (update s throttleInput brakeInput steerInput dt)\<bar> < 0.05"
    and "brake (update s throttleInput brakeInput steerInput dt) > 0.1"
  shows "let s1 = integrate s dt (tireDemand s throttleInput brakeInput steerInput dt);
             s2 = update s throttleInput brakeInput steerInput dt
         in if length_vec (scaleInPlace (velocity s1) 0.5) < 0.05
            then velocity s2 = Vector 0 0 \<and> angularVelocity s2 = 0
            else velocity s2 = scaleInPlace (velocity s1) 0.5
                 \<and> angularVelocity s2 = angularVelocity s1"
proof -
  let ?s1 = "integrate s dt (tireDemand s throttleInput brakeInput steerInput dt)"
  have t: "\<bar>throttle ?s1\<bar> < 0.05" and b: "brake ?s1 > 0.1"
    using assms(3,4) by (simp_all add: update_levels)
  show ?thesis
    using assms(2) t b by (simp add: update_def settle_def Let_def)
qed

theorem low_speed_settle_witness:
  "car_wf (newCar defaultCarConfig noOptions)
   \<and> length_vec (velocity (newCar defaultCarConfig noOptions)) < 0.2
   \<and> \<bar>throttle (update (newCar defaultCarConfig noOptions) 0 1 0 (1/30))\<bar> < 0.05
   \<and> brake (update (newCar defaultCarConfig noOptions) 0 1 0 (1/30)) > 0.1
   \<and> (let s1 = integrate (newCar defaultCarConfig noOptions) (1/30)
                  (tireDemand (newCar defaultCarConfig noOptions) 0 1 0 (1/30));
           s2 = update (newCar defaultCarConfig noOptions) 0 1 0 (1/30)
       in if length_vec (scaleInPlace (velocity s1) 0.5) < 0.05
          then velocity s2 = Vector 0 0 \<and> angularVelocity s2 = 0
          else velocity s2 = scaleInPlace (velocity s1) 0.5
               \<and> angularVelocity s2 = angularVelocity s1)"
proof -
  let ?s = "newCar defaultCarConfig noOptions"
  have v: "length_vec (velocity ?s) < 0.2" by (simp add: defaultCar_fields)
  have t: "\<bar>throttle (update ?s 0 1 0 (1/30))\<bar> < 0.05"
    by (simp add: update_levels demandCar_tireDemand updatePowertrain_throttle_zero
          defaultCar_fields)
  have b: "brake (update ?s 0 1 0 (1/30)) > 0.1"
    by (simp add: update_levels demandCar_tireDemand smoothBrake_def Let_def clamp_def
          defaultCar_fields)
  show ?thesis
    using low_speed_settle[OF defaultCar_wf v t b] defaultCar_wf v t b by blast
qed

lemma creepingCar_fields:
  "config creepingCar = defaultCarConfig"
  "velocity creepingCar = Vector (1/10) 0"
  "heading creepingCar = 0"
  "throttle creepingCar = 0"
  "brake creepingCar = 0"
  "length (tires creepingCar) = 4"
  "lateralGripCoeffs creepingCar = [1.176, 1.176, 1.232, 1.232]"
  "brakeTorquePerWheelNm creepingCar = [4200, 4200, 3200, 3200]"
  by (simp_all add: creepingCar_def defaultCar_fields)

lemma creepingCar_speed:
  "length_vec (velocity creepingCar) = 1/10"
  "dot (velocity creepingCar) (forwardVector creepingCar) = 1/10"
  by (simp_all add: creepingCar_fields length_vec_def hypot_def dot_def forwardVector_def)

lemma creepingCar_speed_unfolded:
  "length_vec (Vector (1/10) 0) = 1/10"
  "dot (Vector (1/10) 0) (forwardVector creepingCar) = 1/10"
  using creepingCar_speed by (simp_all add: creepingCar_fields)

lemma creepingCar_coasts:
  "velocity (integrate creepingCar (1/60) (tireDemand creepingCar 0 0 0 (1/60)))
     = Vector (1/10 - (0.004312 + 213.3675) / 1450 / 60) 0"
proof -
  let ?d = "tireDemand creepingCar 0 0 0 (1/60)"
  have g: "0 \<le> lateralGripCoeffs creepingCar ! 0 \<and> 0 \<le> lateralGripCoeffs creepingCar ! 1
         \<and> 0 \<le> lateralGripCoeffs creepingCar ! 2 \<and> 0 \<le> lateralGripCoeffs creepingCar ! 3"
    by (simp add: creepingCar_fields)
  have v: "\<bar>dot (velocity creepingCar) (forwardVector creepingCar)\<bar> \<le> 0.5"
    "length_vec (velocity creepingCar) \<le> 0.5"
    "throttle creepingCar = 0" "brake creepingCar = 0"
    "4 \<le> length (brakeTorquePerWheelNm creepingCar)"
    by (simp_all only: creepingCar_speed) (simp_all add: creepingCar_fields)
  have z: "demandLong ?d = [0, 0, 0, 0]" "demandLat ?d = [0, 0, 0, 0]"
    by (rule idle_tick_demand[OF v(3) v(4) v(5) v(1) v(2) g])+
  have tl: "tireLoop (demandCar ?d) (demandNormals ?d) (demandLong ?d) (demandLat ?d)
               (demandBonus ?d) =
            (fst (tireLoop (demandCar ?d) (demandNormals ?d) (demandLong ?d) (demandLat ?d)
               (demandBonus ?d)), 0, 0, 0)"
    using tireLoop_zero_totals[of "demandCar ?d" "demandLong ?d" "demandLat ?d"
            "demandNormals ?d" "demandBonus ?d"]
    by (simp add: creepingCar_fields z prod_eq_iff)
  have drag: "demandDrag ?d = 0.004312"
    by (simp add: tireDemand_fields(5) computeAeroForces_def Let_def creepingCar_speed_unfolded
          creepingCar_fields AIR_DENSITY_def)
       (simp add: defaultCarConfig_def)
  have dir: "normalize_vec (Vector (1/10) 0) = Vector 1 0"
    by (simp add: normalize_vec_def length_vec_def hypot_def)
  show ?thesis
    unfolding integrate_def Let_def
    apply (subst tl)
    apply (simp add: creepingCar_speed_unfolded creepingCar_fields drag dir addScaledInPlace_def G_def)
    apply (simp add: defaultCarConfig_def)
    done
qed
text \<open>
  C9 as stated fails when the brake is released: the default car creeping at 0.1 m/s with no
  throttle and no brake has all three levels under their thresholds and a halved speed
  under 0.05 m/s, and yet its velocity after the tick is the integrated one, not (0, 0).
\<close>

theorem coasting_not_settled_counterexample:
  "\<not> settle_as_claimed creepingCar 0 0 0 (1/60)"
proof -
  let ?d = "tireDemand creepingCar 0 0 0 (1/60)"
  have t: "throttle (update creepingCar 0 0 0 (1/60)) = 0"
    by (simp add: update_levels demandCar_tireDemand updatePowertrain_throttle_zero
          creepingCar_fields)
  have b: "brake (update creepingCar 0 0 0 (1/60)) = 0"
    by (simp add: update_levels demandCar_tireDemand smoothBrake_def Let_def clamp_def
          creepingCar_fields)
  have b1: "brake (demandCar ?d) = 0"
    using b by (simp add: update_levels)
  have u: "velocity (update creepingCar 0 0 0 (1/60)) = velocity (integrate creepingCar (1/60) ?d)"
    by (simp add: update_def settle_def b1)
  have h: "length_vec (scaleInPlace (velocity (integrate creepingCar (1/60) ?d)) 0.5) < 0.05"
    by (simp add: creepingCar_coasts scaleInPlace_def length_vec_def hypot_def)
  show ?thesis
    using h by (simp add: settle_as_claimed_def Let_def t b u creepingCar_speed_unfolded creepingCar_fields)
             (simp add: creepingCar_coasts)
qed

section \<open>C4: the acceleration adjustment of a calibration round\<close>






lemma zeroToHundredLoop_end:
  "\<not> t < 15 \<Longrightarrow>
     zeroToHundredLoop now deadline interval car t previousSpeed sampleTimer samples eff =
       (\<lparr> timeSec = Some 15, reached = False \<rparr>,
        pushSample samples
          (sampleOf car t (getSpeedMetersPerSecond car * 3.6) ''zeroToHundred'' False),
        eff)"
  by (subst zeroToHundredLoop.simps) simp



lemma zeroToHundredLoop_continue:
  "t < 15 \<Longrightarrow> \<not> fst (deadlinePassed now deadline eff) \<Longrightarrow>
     \<not> 100 \<le> getSpeedMetersPerSecond (update car 1 0 0 (1/200)) * 3.6 \<Longrightarrow>
     zeroToHundredLoop now deadline interval car t previousSpeed sampleTimer samples eff =
       (let dt = 1 / 200;
            eff1 = snd (deadlinePassed now deadline eff);
            car1 = update car 1 0 0 dt;
            eff2 = eff1\<lparr>simTicks := simTicks eff1 + 1\<rparr>;
            t1 = t + dt;
            timer1 = sampleTimer + dt;
            speed = getSpeedMetersPerSecond car1 * 3.6;
            sampling = (samples \<noteq> None \<and> timer1 \<ge> interval);
            timer2 = (if sampling then 0 else timer1);
            samples1 = (if sampling
                        then pushSample samples (sampleOf car1 t1 speed ''zeroToHundred'' False)
                        else samples)
        in zeroToHundredLoop now deadline interval car1 t1 speed timer2 samples1 eff2)"
  by (subst zeroToHundredLoop.simps) (simp add: Let_def)



subsection \<open>A car that never reaches 100 km/h\<close>














section \<open>C5: a spec without performance targets\<close>

text \<open>
  C5. For a car whose spec yields no target, \<open>runCalibration\<close> returns a record that is
  verified, has no overrides, counts zero iterations and carries the note that calibration
  was skipped; no test car is constructed and no simulation tick is run.
\<close>

theorem no_targets_skips_calibration:
  assumes "extractTargets (specOf car) = None"
  shows "case runCalibration now createCarConfigFromSpec numberToString version car options eff of
           (record, car1, eff1) \<Rightarrow>
             recVerified record \<and> recOverrides record = None \<and> recIterations record = Some 0
             \<and> recNote record = Some ''No performance targets provided; skipped calibration.''
             \<and> testCars eff1 = testCars eff \<and> simTicks eff1 = simTicks eff"
  using assms
  by (simp add: runCalibration_def specOf_def readClock_def Let_def)

lemma extractTargets_emptySpec: "extractTargets emptySpec = None"
  by (simp add: extractTargets_def emptySpec_def findNumeric_def probe_def Let_def)

theorem no_targets_skips_calibration_witness:
  "extractTargets (specOf untargetedCar) = None
   \<and> (case runCalibration tickingClock (\<lambda>spec. defaultCarConfig) (\<lambda>v. ''0'') 1 untargetedCar
              \<lparr> timeoutMs = None, maxIterations = None \<rparr> noEffects of
         (record, car1, eff1) \<Rightarrow>
           recVerified record \<and> recOverrides record = None \<and> recIterations record = Some 0
           \<and> recNote record = Some ''No performance targets provided; skipped calibration.''
           \<and> testCars eff1 = testCars noEffects \<and> simTicks eff1 = simTicks noEffects)"
proof -
  have e: "extractTargets (specOf untargetedCar) = None"
    by (simp add: specOf_def untargetedCar_def extractTargets_emptySpec)
  show ?thesis
    using no_targets_skips_calibration[OF e, where now=tickingClock
            and createCarConfigFromSpec="\<lambda>spec. defaultCarConfig" and numberToString="\<lambda>v. ''0''"
            and version=1 and options="\<lparr> timeoutMs = None, maxIterations = None \<rparr>"
            and eff=noEffects] e
    by simp
qed

section \<open>C6: a zero timeout\<close>

lemma calibrationLoop_times_out:
  assumes "deadline < now (clockReads (loopEffects st))"
  shows "timedOut (calibrationLoop now deadline targets (Suc n) index st)"
    and "simTicks (loopEffects (calibrationLoop now deadline targets (Suc n) index st))
           = simTicks (loopEffects st)"
    and "actualIterations (calibrationLoop now deadline targets (Suc n) index st) = index + 1"
  using assms by (simp_all add: readClock_def Let_def)

lemma runCalibration_with_targets:
  assumes "extractTargets (specOf car) = Some targets"
  shows "recVerified (fst (runCalibration now createCarConfigFromSpec numberToString version car
                             options eff))
           = (\<not> timedOut (calibrationLoop now
                 (now (clockReads eff)
                    + (case timeoutMs options of Some v \<Rightarrow> max 0 v | None \<Rightarrow> 120000))
                 targets
                 (case maxIterations options of Some v \<Rightarrow> nat (max 1 \<lfloor>v\<rfloor>) | None \<Rightarrow> 12) 0
                 \<lparr> workingConfig = createCarConfigFromSpec (specOf car),
                   measuredZero = \<lparr> timeSec = None, reached = False \<rparr>,
                   measuredTop = \<lparr> maxSpeedKph = None, durationSec = 0 \<rparr>,
                   actualIterations = 0, timedOut = False,
                   loopEffects = eff\<lparr>clockReads := clockReads eff + 1\<rparr> \<rparr>))"
    and "recNote (fst (runCalibration now createCarConfigFromSpec numberToString version car
                         options eff))
           = (if timedOut (calibrationLoop now
                 (now (clockReads eff)
                    + (case timeoutMs options of Some v \<Rightarrow> max 0 v | None \<Rightarrow> 120000))
                 targets
                 (case maxIterations options of Some v \<Rightarrow> nat (max 1 \<lfloor>v\<rfloor>) | None \<Rightarrow> 12) 0
                 \<lparr> workingConfig = createCarConfigFromSpec (specOf car),
                   measuredZero = \<lparr> timeSec = None, reached = False \<rparr>,
                   measuredTop = \<lparr> maxSpeedKph = None, durationSec = 0 \<rparr>,
                   actualIterations = 0, timedOut = False,
                   loopEffects = eff\<lparr>clockReads := clockReads eff + 1\<rparr> \<rparr>)
              then Some (''Calibration timed out after ''
                           @ numberToString (case timeoutMs options of Some v \<Rightarrow> max 0 v
                                                                     | None \<Rightarrow> 120000)
                           @ '' ms'')
              else None)"
  using assms
  by (simp_all add: runCalibration_def specOf_def[symmetric] readClock_def Let_def
        case_prod_beta del: calibrationLoop.simps)
text \<open>
  C6. For a car with at least one performance target, a timeout of 0 ms and a clock whose
  later readings all exceed the reading taken at the start, \<open>runCalibration\<close> returns a
  record that is not verified and whose note contains the words "timed out".
\<close>

theorem zero_timeout_times_out:
  assumes "extractTargets (specOf car) = Some targets"
    and "timeoutMs options = Some 0"
    and "\<forall>k > clockReads eff. now (clockReads eff) < now k"
  shows "case runCalibration now createCarConfigFromSpec numberToString version car options eff of
           (record, car1, eff1) \<Rightarrow>
             \<not> recVerified record
             \<and> (\<exists>before after. recNote record = Some (before @ ''timed out'' @ after))"
proof -
  obtain n where it: "(case maxIterations options of
                               Some v \<Rightarrow> nat (max 1 \<lfloor>v\<rfloor>) | None \<Rightarrow> 12) = Suc n"
  proof (cases "maxIterations options")
    case None
    then show ?thesis using that[of 11] by simp
  next
    case (Some v)
    have "0 < nat (max 1 \<lfloor>v\<rfloor>)" by simp
    then obtain m where "nat (max 1 \<lfloor>v\<rfloor>) = Suc m" using gr0_implies_Suc by blast
    then show ?thesis using that Some by simp
  qed
  let ?st0 = "\<lparr> workingConfig = createCarConfigFromSpec (specOf car),
                 measuredZero = \<lparr> timeSec = None, reached = False \<rparr>,
                 measuredTop = \<lparr> maxSpeedKph = None, durationSec = 0 \<rparr>,
                 actualIterations = 0, timedOut = False,
                 loopEffects = eff\<lparr>clockReads := clockReads eff + 1\<rparr> \<rparr>"
  have late: "now (clockReads eff) + max 0 0 < now (clockReads (loopEffects ?st0))"
    using assms(3) by simp
  have out: "timedOut (calibrationLoop now (now (clockReads eff) + max 0 0) targets (Suc n) 0 ?st0)"
    using late by (rule calibrationLoop_times_out(1)[where now=now])
  have v: "\<not> recVerified (fst (runCalibration now createCarConfigFromSpec numberToString version
                                   car options eff))"
    unfolding runCalibration_with_targets(1)[OF assms(1)] assms(2) it option.case
    using out by simp
  have n: "recNote (fst (runCalibration now createCarConfigFromSpec numberToString version
                           car options eff))
             = Some (''Calibration '' @ ''timed out'' @ ('' after '' @ numberToString (max 0 0) @ '' ms''))"
    unfolding runCalibration_with_targets(2)[OF assms(1)] assms(2) it option.case
    using out by simp
  have "\<exists>before after.
          recNote (fst (runCalibration now createCarConfigFromSpec numberToString version
                          car options eff))
            = Some (before @ ''timed out'' @ after)"
    using n by blast
  then show ?thesis
    using v by (simp only: case_prod_beta) blast
qed

text \<open>
  The witness: a clock that advances by one at each reading, which exceeds its first
  reading at every later one.
\<close>

theorem zero_timeout_times_out_witness:
  "extractTargets (specOf targetedCar)
     = Some \<lparr> targetTopSpeedKph = None, targetZeroToHundredSec = Some 4.2 \<rparr>
   \<and> timeoutMs \<lparr> timeoutMs = Some 0, maxIterations = None \<rparr> = Some 0
   \<and> tickingClock (clockReads noEffects) < tickingClock (clockReads noEffects + 1)
   \<and> (case runCalibration tickingClock (\<lambda>spec. defaultCarConfig) (\<lambda>v. ''0'') 1 targetedCar
              \<lparr> timeoutMs = Some 0, maxIterations = None \<rparr> noEffects of
         (record, car1, eff1) \<Rightarrow>
           \<not> recVerified record
           \<and> (\<exists>before after. recNote record = Some (before @ ''timed out'' @ after)))"
proof -
  have e: "extractTargets (specOf targetedCar)
     = Some \<lparr> targetTopSpeedKph = None, targetZeroToHundredSec = Some 4.2 \<rparr>"
    by (simp add: specOf_def targetedCar_def extractTargets_def onlyZeroToHundredSpec_def
          emptySpec_def findNumeric_def probe_def Let_def)
  have t: "timeoutMs \<lparr> timeoutMs = Some 0, maxIterations = None \<rparr> = Some 0" by simp
  have c: "\<forall>k > clockReads noEffects. tickingClock (clockReads noEffects) < tickingClock k"
    by (simp add: noEffects_def tickingClock_def)
  have k: "tickingClock (clockReads noEffects) < tickingClock (clockReads noEffects + 1)"
    by (simp add: tickingClock_def)
  show ?thesis
    using zero_timeout_times_out[OF e t c, where createCarConfigFromSpec="\<lambda>spec. defaultCarConfig"
            and numberToString="\<lambda>v. ''0''" and version=1] e t k
    by blast
qed

section \<open>C7: which cars are queued for calibration\<close>




subsection \<open>The second loop\<close>

lemma storeOverrides_version [simp]: "mgrVersion (storeOverrides mgr cid ov) = mgrVersion mgr"
  by (simp add: storeOverrides_def)












section \<open>C2: independent runs agree\<close>

lemma smoothThrottle_scratch:
  "smoothThrottle (s\<lparr>tires := ts, revLimiterActive := b\<rparr>) a dt
     = (smoothThrottle s a dt)\<lparr>tires := ts, revLimiterActive := b\<rparr>"
  by (simp add: smoothThrottle_def Let_def)

lemma selectDirection_scratch:
  "selectDirection (s\<lparr>tires := ts, revLimiterActive := b\<rparr>) v
     = (selectDirection s v)\<lparr>tires := ts, revLimiterActive := b\<rparr>"
  by (simp add: selectDirection_def)

lemma effectiveGearRatio_scratch [simp]:
  "effectiveGearRatio (s\<lparr>tires := ts\<rparr>) = effectiveGearRatio s"
  "effectiveGearRatio (s\<lparr>revLimiterActive := b\<rparr>) = effectiveGearRatio s"
  by (simp_all add: effectiveGearRatio_def)

lemma engineSpeed_scratch:
  "engineSpeed (s\<lparr>tires := ts, revLimiterActive := b\<rparr>) v
     = (engineSpeed s v)\<lparr>tires := ts, revLimiterActive := b\<rparr>"
  by (simp add: engineSpeed_def Let_def split: option.split)

lemma revLimit_scratch:
  "revLimit (s\<lparr>tires := ts, revLimiterActive := b\<rparr>) = (revLimit s)\<lparr>tires := ts\<rparr>"
  by (simp add: revLimit_def Let_def)

lemma autoShift_scratch:
  "autoShift (s\<lparr>tires := ts\<rparr>) = (autoShift s)\<lparr>tires := ts\<rparr>"
  by (simp add: autoShift_def)

lemma updatePowertrain_scratch:
  "updatePowertrain (s\<lparr>tires := ts, revLimiterActive := b\<rparr>) a v dt
     = (updatePowertrain s a v dt)\<lparr>tires := ts\<rparr>"
  by (simp add: updatePowertrain_def Let_def smoothThrottle_scratch selectDirection_scratch
        engineSpeed_scratch revLimit_scratch autoShift_scratch)

lemma steerStep_scratch:
  "steerStep (s\<lparr>tires := ts\<rparr>) c v dt = (steerStep s c v dt)\<lparr>tires := ts\<rparr>"
  by (simp add: steerStep_def Let_def)

lemma smoothBrake_scratch:
  "smoothBrake (s\<lparr>tires := ts\<rparr>) b dt = (smoothBrake s b dt)\<lparr>tires := ts\<rparr>"
  by (simp add: smoothBrake_def Let_def)

lemma vectors_scratch [simp]:
  "forwardVector (s\<lparr>tires := ts, revLimiterActive := b\<rparr>) = forwardVector s"
  "rightVector (s\<lparr>tires := ts, revLimiterActive := b\<rparr>) = rightVector s"
  "forwardVector (s\<lparr>tires := ts\<rparr>) = forwardVector s"
  "rightVector (s\<lparr>tires := ts\<rparr>) = rightVector s"
  by (simp_all add: forwardVector_def rightVector_def)

lemma demandCar_scratch:
  "demandCar (tireDemand (s\<lparr>tires := ts, revLimiterActive := b\<rparr>) a br c dt)
     = (demandCar (tireDemand s a br c dt))\<lparr>tires := ts\<rparr>"
  by (simp add: demandCar_tireDemand updatePowertrain_scratch steerStep_scratch
        smoothBrake_scratch)

lemma torqueAtRpm_scratch [simp]:
  "torqueAtRpm (s\<lparr>tires := ts\<rparr>) rpm = torqueAtRpm s rpm"
  by (simp add: torqueAtRpm_def Let_def)

lemma driveForceOf_cong:
  assumes "effectiveGearRatio s' = effectiveGearRatio s" and "reverseMode s' = reverseMode s"
    and "throttle s' = throttle s" and "torqueAtRpm s' (engineRpm s') = torqueAtRpm s (engineRpm s)"
    and "config s' = config s" and "revLimiterActive s' = revLimiterActive s"
  shows "driveForceOf s' = driveForceOf s"
  unfolding driveForceOf_def by (simp only: assms)

lemma driveForceOf_scratch [simp]:
  "driveForceOf (s\<lparr>tires := ts\<rparr>) = driveForceOf s"
  by (rule driveForceOf_cong) simp_all

lemma force_functions_scratch [simp]:
  "tireNormalsOf (s\<lparr>tires := ts\<rparr>) df = tireNormalsOf s df"
  "brakeForcesOf (s\<lparr>tires := ts\<rparr>) = brakeForcesOf s"
  "tireForcesLongOf (s\<lparr>tires := ts\<rparr>) dr bf v = tireForcesLongOf s dr bf v"
  "tireForcesLatOf (s\<lparr>tires := ts\<rparr>) N v w sp = tireForcesLatOf s N v w sp"
  "frontGripBonusOf (s\<lparr>tires := ts\<rparr>) sp v = frontGripBonusOf s sp v"
  by (simp_all add: tireNormalsOf_def lateralBiasOf_def
        brakeForcesOf_def tireForcesLongOf_def tireForcesLatOf_def slipAngles_def
        frontGripBonusOf_def Let_def)

lemma computeAeroForces_scratch [simp]:
  "computeAeroForces (s\<lparr>tires := ts, revLimiterActive := b\<rparr>) sp bw = computeAeroForces s sp bw"
  by (simp add: computeAeroForces_def)

lemma tireDemand_scratch:
  "tireDemand (s\<lparr>tires := ts, revLimiterActive := b\<rparr>) a br c dt
     = (tireDemand s a br c dt)\<lparr>demandCar := (demandCar (tireDemand s a br c dt))\<lparr>tires := ts\<rparr>\<rparr>"
proof -
  let ?l = "tireDemand (s\<lparr>tires := ts, revLimiterActive := b\<rparr>) a br c dt"
  let ?r = "tireDemand s a br c dt"
  have "demandCar ?l = (demandCar ?r)\<lparr>tires := ts\<rparr>" by (rule demandCar_scratch)
  moreover have "demandNormals ?l = demandNormals ?r"
    by (simp add: tireDemand_fields(1) demandCar_scratch)
  moreover have "demandLong ?l = demandLong ?r"
    by (simp add: tireDemand_fields(2) demandCar_scratch)
  moreover have "demandLat ?l = demandLat ?r"
    by (simp add: tireDemand_fields(1,3) demandCar_scratch)
  moreover have "demandBonus ?l = demandBonus ?r"
    by (simp add: tireDemand_fields(4) demandCar_scratch)
  moreover have "demandDrag ?l = demandDrag ?r"
    by (simp add: tireDemand_fields(5))
  ultimately show ?thesis by simp
qed

lemma tireStep_scratch:
  "tireStep (s\<lparr>tires := ts\<rparr>) N L T b = tireStep s N L T b"
  by (intro ext) (simp add: tireStep_def longitudinalCapOf_def lateralCapOf_def wheelPositionsOf_def)

lemma fold_tireStep_totals:
  "snd (fold (tireStep s N L T b) is (ts, acc)) = snd (fold (tireStep s N L T b) is (ts', acc))"
proof (induction "is" arbitrary: ts ts' acc)
  case Nil
  show ?case by simp
next
  case (Cons i "is")
  obtain x y z where acc: "acc = (x, y, z)" by (cases acc) auto
  obtain t1 a1 where s1: "tireStep s N L T b i (ts, acc) = (t1, a1)" by (cases "tireStep s N L T b i (ts, acc)") auto
  obtain t2 a2 where s2: "tireStep s N L T b i (ts', acc) = (t2, a2)" by (cases "tireStep s N L T b i (ts', acc)") auto
  have "a1 = a2"
    using s1 s2 by (auto simp add: tireStep_def acc Let_def split: prod.splits)
  then show ?case
    using Cons.IH[of t1 a1 t2] by (simp add: s1 s2)
qed

lemma fold_tireStep_length:
  "length (fst (fold (tireStep s N L T b) is (ts, acc))) = length ts"
proof (induction "is" arbitrary: ts acc)
  case Nil
  show ?case by simp
next
  case (Cons i "is")
  obtain t1 a1 where s1: "tireStep s N L T b i (ts, acc) = (t1, a1)" by (cases "tireStep s N L T b i (ts, acc)") auto
  have "length t1 = length ts"
    using s1 by (auto simp add: tireStep_def Let_def split: prod.splits)
  then show ?case using Cons.IH[of t1 a1] by (simp add: s1)
qed

lemma tireLoop_scratch:
  assumes "length ts = length (tires s)"
  shows "snd (tireLoop (s\<lparr>tires := ts\<rparr>) N L T b) = snd (tireLoop s N L T b)"
    and "length (fst (tireLoop (s\<lparr>tires := ts\<rparr>) N L T b)) = length (fst (tireLoop s N L T b))"
  using assms fold_tireStep_totals[of s N L T b "[0..<length (tires s)]" ts "(0, 0, 0)" "tires s"]
  by (simp_all add: tireLoop_def tireStep_scratch fold_tireStep_length)

lemma integrate_scratch:
  assumes "length ts = length (tires (demandCar d))"
  shows "integrate (s0\<lparr>tires := ts0, revLimiterActive := b\<rparr>) dt
           (d\<lparr>demandCar := (demandCar d)\<lparr>tires := ts\<rparr>\<rparr>)
         = (integrate s0 dt d)\<lparr>tires :=
             fst (tireLoop ((demandCar d)\<lparr>tires := ts\<rparr>) (demandNormals d) (demandLong d)
                    (demandLat d) (demandBonus d))\<rparr>"
  using tireLoop_scratch(1)[OF assms, of "demandNormals d" "demandLong d" "demandLat d" "demandBonus d"]
  by (simp add: integrate_def Let_def case_prod_beta)

lemma settle_scratch: "settle v (s\<lparr>tires := ts\<rparr>) = (settle v s)\<lparr>tires := ts\<rparr>"
  by (simp add: settle_def Let_def)

lemma update_scratch:
  assumes "length ts = length (tires s)"
  shows "\<exists>ts'. update (s\<lparr>tires := ts, revLimiterActive := b\<rparr>) a br c dt
                 = (update s a br c dt)\<lparr>tires := ts'\<rparr>
               \<and> length ts' = length (tires (update s a br c dt))"
proof -
  let ?d = "tireDemand s a br c dt"
  let ?ts = "fst (tireLoop ((demandCar ?d)\<lparr>tires := ts\<rparr>) (demandNormals ?d) (demandLong ?d)
                    (demandLat ?d) (demandBonus ?d))"
  have l: "length ts = length (tires (demandCar ?d))" using assms by simp
  have "update (s\<lparr>tires := ts, revLimiterActive := b\<rparr>) a br c dt
          = (update s a br c dt)\<lparr>tires := ?ts\<rparr>"
    by (simp add: update_def tireDemand_scratch integrate_scratch[OF l] settle_scratch)
  moreover have "length ?ts = length (tires (update s a br c dt))"
    using tireLoop_scratch(2)[OF l] by (simp add: update_tires)
  ultimately show ?thesis by blast
qed

lemma serializeState_scratch [simp]:
  "serializeState (s\<lparr>tires := ts\<rparr>) = serializeState s"
  "serializeState (s\<lparr>tires := ts, revLimiterActive := b\<rparr>) = serializeState s"
  by (simp_all add: serializeState_def getWorldPosition_def)

lemma trajectory_scratch:
  "length ts = length (tires s) \<Longrightarrow>
     map serializeState (trajectory (s\<lparr>tires := ts, revLimiterActive := b\<rparr>) inputs)
       = map serializeState (trajectory s inputs)"
proof (induction s inputs arbitrary: ts b rule: trajectory.induct)
  case (1 s)
  show ?case by simp
next
  case (2 s a br c dt rest)
  obtain ts' where u: "update (s\<lparr>tires := ts, revLimiterActive := b\<rparr>) a br c dt
                         = (update s a br c dt)\<lparr>tires := ts'\<rparr>"
    and l: "length ts' = length (tires (update s a br c dt))"
    using update_scratch[OF "2.prems"] by blast
  have e: "(update s a br c dt)\<lparr>tires := ts'\<rparr>
             = (update s a br c dt)\<lparr>tires := ts',
                  revLimiterActive := revLimiterActive (update s a br c dt)\<rparr>"
    by simp
  show ?case
    using "2.IH"[OF l, of "revLimiterActive (update s a br c dt)"]
    by (simp add: u)
qed

lemma deadlinePassed_None [simp]: "deadlinePassed now None eff = (False, eff)"
  by (simp add: deadlinePassed_def)

lemma zeroToHundredLoop_crossing_full:
  "t < 15 \<Longrightarrow> \<not> fst (deadlinePassed now deadline eff) \<Longrightarrow>
     100 \<le> getSpeedMetersPerSecond (update car 1 0 0 (1/200)) * 3.6 \<Longrightarrow>
     outcome (zeroToHundredLoop now deadline interval car t previousSpeed sampleTimer samples eff) =
       (let dt = 1 / 200;
            car1 = update car 1 0 0 dt;
            t1 = t + dt;
            timer1 = sampleTimer + dt;
            speed = getSpeedMetersPerSecond car1 * 3.6;
            sampling = (samples \<noteq> None \<and> timer1 \<ge> interval);
            samples1 = (if sampling
                        then pushSample samples (sampleOf car1 t1 speed ''zeroToHundred'' False)
                        else samples);
            deltaSpeed = speed - previousSpeed;
            crossingTime =
              (if deltaSpeed > 0.000001
               then t1 - dt + clampToRange ((100 - previousSpeed) / deltaSpeed) 0 1 * dt
               else t1)
        in (\<lparr> timeSec = Some crossingTime, reached = True \<rparr>,
            pushSample samples1 (sampleOf car1 crossingTime speed ''zeroToHundred'' False)))"
  by (subst zeroToHundredLoop.simps) (simp add: Let_def outcome_def)

lemma zeroToHundredLoop_clock_free:
  "outcome (zeroToHundredLoop now None interval car t previousSpeed sampleTimer samples eff)
     = outcome (zeroToHundredLoop now' None interval car t previousSpeed sampleTimer samples eff')"
proof (induction now "None :: real option" interval car t previousSpeed sampleTimer samples eff
        arbitrary: now' eff' rule: zeroToHundredLoop.induct)
  case (1 now interval car t previousSpeed sampleTimer samples eff)
  show ?case
  proof (cases "t < 15")
    case False
    then show ?thesis by (simp add: zeroToHundredLoop_end outcome_def)
  next
    case lt: True
    have nd: "\<not> fst (deadlinePassed now None eff)" "\<not> fst (deadlinePassed now' None eff')"
      by simp_all
    show ?thesis
    proof (cases "100 \<le> getSpeedMetersPerSecond (update car 1 0 0 (1/200)) * 3.6")
      case True
      show ?thesis
        by (simp only: zeroToHundredLoop_crossing_full[OF lt nd(1) True]
              zeroToHundredLoop_crossing_full[OF lt nd(2) True])
    next
      case False
      show ?thesis
        unfolding zeroToHundredLoop_continue[OF lt nd(1) False]
          zeroToHundredLoop_continue[OF lt nd(2) False] Let_def
        by (rule "1.hyps"[OF lt nd(1) refl refl refl refl refl refl refl refl refl refl False])
    qed
  qed
qed

lemma topSpeedLoop_end:
  "\<not> t < 160 \<Longrightarrow>
     topSpeedLoop now deadline interval car t maxSpeed stableTime sampleTimer samples eff =
       (\<lparr> maxSpeedKph = Some maxSpeed, durationSec = t \<rparr>,
        pushSample samples (sampleOf car t (getSpeedMetersPerSecond car * 3.6) ''topSpeed'' False),
        eff)"
  by (subst topSpeedLoop.simps) simp

lemma topSpeedLoop_step:
  assumes "t < 160" and "\<not> fst (deadlinePassed now deadline eff)"
    and "topSpeedStep interval car t maxSpeed stableTime sampleTimer samples
           = (car1, t1, maxSpeed1, stableTime1, timer2, samples1)"
  shows "topSpeedLoop now deadline interval car t maxSpeed stableTime sampleTimer samples eff =
           (if t1 > 5 \<and> stableTime1 \<ge> 7 then
              (\<lparr> maxSpeedKph = Some maxSpeed1, durationSec = t1 \<rparr>,
               pushSample samples1
                 (sampleOf car1 t1 (getSpeedMetersPerSecond car1 * 3.6) ''topSpeed'' False),
               (snd (deadlinePassed now deadline eff))
                 \<lparr>simTicks := simTicks (snd (deadlinePassed now deadline eff)) + 1\<rparr>)
            else topSpeedLoop now deadline interval car1 t1 maxSpeed1 stableTime1 timer2 samples1
                   ((snd (deadlinePassed now deadline eff))
                      \<lparr>simTicks := simTicks (snd (deadlinePassed now deadline eff)) + 1\<rparr>))"
  using assms
  by (subst topSpeedLoop.simps) (auto simp add: topSpeedStep_def Let_def)

lemma topSpeedStep_time:
  "topSpeedStep interval car t maxSpeed stableTime sampleTimer samples
     = (car1, t1, maxSpeed1, stableTime1, timer2, samples1) \<Longrightarrow> t1 = t + 1 / 200"
  by (auto simp add: topSpeedStep_def Let_def)

lemma loop_measure_decreases:
  fixes t :: real
  assumes "t < T"
  shows "nat \<lceil>(T - (t + 1 / 200)) * 200\<rceil> < nat \<lceil>(T - t) * 200\<rceil>"
proof -
  have e: "(T - (t + 1 / 200)) * 200 = (T - t) * 200 - 1" by (simp add: algebra_simps)
  have "\<lceil>(T - (t + 1 / 200)) * 200\<rceil> = \<lceil>(T - t) * 200\<rceil> - 1"
    unfolding e by (rule ceiling_diff_one)
  moreover have "0 < \<lceil>(T - t) * 200\<rceil>" using assms by simp
  ultimately show ?thesis by simp
qed

lemma topSpeedLoop_clock_free:
  "outcome (topSpeedLoop now None interval car t maxSpeed stableTime sampleTimer samples eff)
     = outcome (topSpeedLoop now' None interval car t maxSpeed stableTime sampleTimer samples eff')"
proof (induction "nat \<lceil>(160 - t) * 200\<rceil>"
        arbitrary: car t maxSpeed stableTime sampleTimer samples eff eff' rule: less_induct)
  case less
  show ?case
  proof (cases "t < 160")
    case False
    then show ?thesis by (simp add: topSpeedLoop_end outcome_def)
  next
    case lt: True
    have nd: "\<not> fst (deadlinePassed now None eff)" "\<not> fst (deadlinePassed now' None eff')"
      by simp_all
    obtain car1 t1 maxSpeed1 stableTime1 timer2 samples1 where
      st: "topSpeedStep interval car t maxSpeed stableTime sampleTimer samples
             = (car1, t1, maxSpeed1, stableTime1, timer2, samples1)"
      by (cases "topSpeedStep interval car t maxSpeed stableTime sampleTimer samples") auto
    have t1: "t1 = t + 1 / 200" by (rule topSpeedStep_time[OF st])
    show ?thesis
    proof (cases "t1 > 5 \<and> stableTime1 \<ge> 7")
      case True
      then show ?thesis
        by (simp add: topSpeedLoop_step[OF lt nd(1) st] topSpeedLoop_step[OF lt nd(2) st]
              outcome_def)
    next
      case False
      have m: "nat \<lceil>(160 - t1) * 200\<rceil> < nat \<lceil>(160 - t) * 200\<rceil>"
        unfolding t1 by (rule loop_measure_decreases[OF lt])
      have "outcome (topSpeedLoop now None interval car1 t1 maxSpeed1 stableTime1 timer2 samples1
                       (eff\<lparr>simTicks := simTicks eff + 1\<rparr>))
              = outcome (topSpeedLoop now' None interval car1 t1 maxSpeed1 stableTime1 timer2
                           samples1 (eff'\<lparr>simTicks := simTicks eff' + 1\<rparr>))"
        by (rule less.hyps[OF m])
      then show ?thesis
        by (simp only: topSpeedLoop_step[OF lt nd(1) st] topSpeedLoop_step[OF lt nd(2) st]
              if_not_P[OF False] deadlinePassed_None snd_conv)
    qed
  qed
qed
text \<open>
  C2. Two runs agree. A run of ticks yields the same trajectory of vehicle states from two
  cars that differ only in what a tick overwrites before reading (the force, load and
  traction stored in the tires, and the rev-limiter flag); and two measurements of the same
  configuration without deadline return the same value and the same samples, whatever the
  clocks, the effect counters and the previous contents of the sample buffers are.
\<close>

theorem independent_runs_agree:
  assumes "length ts = length (tires s)"
    and "deadlineMs options1 = None" and "deadlineMs options2 = None"
    and "sampleInterval options1 = sampleInterval options2"
    and "(collectSamples options1 = None) = (collectSamples options2 = None)"
  shows "map serializeState (trajectory (s\<lparr>tires := ts, revLimiterActive := b\<rparr>) inputs)
           = map serializeState (trajectory s inputs)
       \<and> outcome (measureZeroToHundred now1 cfg options1 eff1)
           = outcome (measureZeroToHundred now2 cfg options2 eff2)
       \<and> outcome (measureTopSpeed now1 cfg options1 eff1)
           = outcome (measureTopSpeed now2 cfg options2 eff2)"
proof -
  have a: "map serializeState (trajectory (s\<lparr>tires := ts, revLimiterActive := b\<rparr>) inputs)
           = map serializeState (trajectory s inputs)"
    by (rule trajectory_scratch[OF assms(1)])
  have c: "(case collectSamples options1 of Some xs \<Rightarrow> Some [smp] | None \<Rightarrow> None)
             = (case collectSamples options2 of Some xs \<Rightarrow> Some [smp] | None \<Rightarrow> None)" for smp :: Sample
    using assms(5) by (cases "collectSamples options1"; cases "collectSamples options2") simp_all
  have z: "outcome (measureZeroToHundred now1 cfg options1 eff1)
           = outcome (measureZeroToHundred now2 cfg options2 eff2)"
    unfolding measureZeroToHundred_def Let_def assms(2,3,4) c
    by (rule zeroToHundredLoop_clock_free)
  have t: "outcome (measureTopSpeed now1 cfg options1 eff1)
           = outcome (measureTopSpeed now2 cfg options2 eff2)"
    unfolding measureTopSpeed_def Let_def assms(2,3,4) c
    by (rule topSpeedLoop_clock_free)
  show ?thesis using a z t by blast
qed

theorem independent_runs_agree_witness:
  "length spareTires = length (tires (newCar defaultCarConfig noOptions))
   \<and> deadlineMs untimed = None
   \<and> sampleInterval untimed = sampleInterval (untimed\<lparr>collectSamples := None\<rparr>)
   \<and> (collectSamples untimed = None) = (collectSamples (untimed\<lparr>collectSamples := None\<rparr>) = None)
   \<and> map serializeState
        (trajectory ((newCar defaultCarConfig noOptions)\<lparr>tires := spareTires, revLimiterActive := True\<rparr>)
           [(1, 0, 0, 1/60), (1, 0, 0.5, 1/60)])
       = map serializeState (trajectory (newCar defaultCarConfig noOptions)
           [(1, 0, 0, 1/60), (1, 0, 0.5, 1/60)])
   \<and> outcome (measureZeroToHundred tickingClock defaultCarConfig untimed noEffects)
       = outcome (measureZeroToHundred (\<lambda>k. 0) defaultCarConfig (untimed\<lparr>collectSamples := None\<rparr>)
                    (noEffects\<lparr>clockReads := 7\<rparr>))
   \<and> outcome (measureTopSpeed tickingClock defaultCarConfig untimed noEffects)
       = outcome (measureTopSpeed (\<lambda>k. 0) defaultCarConfig (untimed\<lparr>collectSamples := None\<rparr>)
                    (noEffects\<lparr>clockReads := 7\<rparr>))"
proof -
  have l: "length spareTires = length (tires (newCar defaultCarConfig noOptions))"
    by (simp add: spareTires_def defaultCar_fields)
  have d: "deadlineMs untimed = None" "deadlineMs (untimed\<lparr>collectSamples := None\<rparr>) = None"
    by (simp_all add: untimed_def)
  have i: "sampleInterval untimed = sampleInterval (untimed\<lparr>collectSamples := None\<rparr>)" by simp
  have c: "(collectSamples untimed = None) = (collectSamples (untimed\<lparr>collectSamples := None\<rparr>) = None)"
    by (simp add: untimed_def)
  show ?thesis
    using independent_runs_agree[OF l d i c, where b=True
            and inputs="[(1, 0, 0, 1/60), (1, 0, 0.5, 1/60)]" and ?now1.0=tickingClock
            and ?now2.0="\<lambda>k. 0" and cfg=defaultCarConfig and ?eff1.0=noEffects
            and ?eff2.0="noEffects\<lparr>clockReads := 7\<rparr>"] l d(1) i c
    by blast
qed

end
